theory Spec2Isabelle
  imports Main "HOL-Library.Word"
begin

unbundle bit_operations_syntax

section \<open>Reflection record (Reflection.h, src/unnamed/part\_000)\<close>

text \<open>
  Enumerators keep their C++ names, qualified by the name of the enumeration
  (\<open>Filter::Linear\<close> is \<open>Filter_Linear\<close>), since several enumerations share
  enumerator names. Record fields that occur in several structs carry a short prefix
  naming the struct.
\<close>

datatype Filter = Filter_None | Filter_Point | Filter_Linear | Filter_Anisotropic

datatype TextureAddressMode =
  TextureAddressMode_Wrap | TextureAddressMode_Mirror | TextureAddressMode_Clamp
  | TextureAddressMode_Border | TextureAddressMode_MirrorOnce

datatype ComparisonFunc =
  ComparisonFunc_Never | ComparisonFunc_Less | ComparisonFunc_Equal
  | ComparisonFunc_LessEqual | ComparisonFunc_Greater | ComparisonFunc_NotEqual
  | ComparisonFunc_GreaterEqual | ComparisonFunc_Always

datatype FillMode = FillMode_Wire | FillMode_Solid

datatype CullMode = CullMode_Clockwise | CullMode_CounterClockwise | CullMode_None

datatype StencilOpType =
  StencilOpType_Keep | StencilOpType_Zero | StencilOpType_Replace
  | StencilOpType_Increment | StencilOpType_Decrement | StencilOpType_IncrementWrap
  | StencilOpType_DecrementWrap | StencilOpType_Inverse

datatype BlendFactor =
  BlendFactor_One | BlendFactor_Zero | BlendFactor_DestinationRGB | BlendFactor_SourceRGB
  | BlendFactor_DestinationInvRGB | BlendFactor_SourceInvRGB | BlendFactor_DestinationA
  | BlendFactor_SourceA | BlendFactor_DestinationInvA | BlendFactor_SourceInvA

datatype BlendOpType =
  BlendOpType_Add | BlendOpType_Subtract | BlendOpType_ReverseSubtract
  | BlendOpType_Minimum | BlendOpType_Maximum

datatype SortMode = SortMode_None | SortMode_BackToFront | SortMode_FrontToBack

text \<open>
  A C++ \<open>float\<close> is carried as its IEEE-754 single-precision bit pattern. The analyzer
  only stores and copies floats; it never computes with them.
\<close>

type_synonym float = "32 word"

definition FLT_ZERO :: float where "FLT_ZERO = 0x00000000"
definition FLT_MAX :: float where "FLT_MAX = 0x7F7FFFFF"
definition FLT_MAX_NEG :: float where "FLT_MAX_NEG = 0xFF7FFFFF"

text \<open>
  \<open>struct SamplerState\<close>. The header declares \<open>filterMin\<close>, \<open>filterMax\<close> and
  \<open>filterMip\<close>; the analyzer (ReflectionAnalyzer.cpp, line 610) writes a member
  \<open>filter\<close>, which the header does not declare. The record carries both (the latter
  as \<open>ss_filter\<close>); the initial value of \<open>filter\<close> has no initialiser in the sources and is a parameter of
  \<open>SamplerState_default\<close>.
\<close>

record SamplerState =
  filterMin :: Filter
  filterMax :: Filter
  filterMip :: Filter
  ss_filter :: Filter
  addressU :: TextureAddressMode
  addressV :: TextureAddressMode
  addressW :: TextureAddressMode
  mipLODBias :: float
  maxAnisotropy :: "32 word"
  comparisonFunc :: ComparisonFunc
  borderColor :: "float list"
  minLOD :: float
  maxLOD :: float
  isNonDefault :: bool
  ss_alias :: string

definition SamplerState_default :: "Filter \<Rightarrow> SamplerState" where
  "SamplerState_default filter0 =
     \<lparr> filterMin = Filter_Linear, filterMax = Filter_Linear, filterMip = Filter_Linear,
       ss_filter = filter0,
       addressU = TextureAddressMode_Wrap, addressV = TextureAddressMode_Wrap,
       addressW = TextureAddressMode_Wrap,
       mipLODBias = FLT_ZERO, maxAnisotropy = 1,
       comparisonFunc = ComparisonFunc_Always,
       borderColor = [FLT_ZERO, FLT_ZERO, FLT_ZERO, FLT_ZERO],
       minLOD = FLT_MAX_NEG, maxLOD = FLT_MAX,
       isNonDefault = False, ss_alias = [] \<rparr>"

record RasterizerState =
  fillMode :: FillMode
  cullMode :: CullMode
  scissorEnable :: bool
  multisampleEnable :: bool
  antialisedLineEnable :: bool

definition RasterizerState_default :: RasterizerState where
  "RasterizerState_default =
     \<lparr> fillMode = FillMode_Solid, cullMode = CullMode_CounterClockwise,
       scissorEnable = False, multisampleEnable = True, antialisedLineEnable = False \<rparr>"

record DepthState =
  readEnable :: bool
  writeEnable :: bool
  depth_compareFunc :: ComparisonFunc
  depthBias :: float
  scaledDepthBias :: float
  depthClip :: bool

definition DepthState_default :: DepthState where
  "DepthState_default =
     \<lparr> readEnable = True, writeEnable = True, depth_compareFunc = ComparisonFunc_Less,
       depthBias = FLT_ZERO, scaledDepthBias = FLT_ZERO, depthClip = True \<rparr>"

record StencilOperation =
  op_fail :: StencilOpType
  op_zfail :: StencilOpType
  op_pass :: StencilOpType
  compareFunc :: ComparisonFunc

definition StencilOperation_default :: StencilOperation where
  "StencilOperation_default =
     \<lparr> op_fail = StencilOpType_Keep, op_zfail = StencilOpType_Keep,
       op_pass = StencilOpType_Keep,
       compareFunc = ComparisonFunc_Always \<rparr>"

record StencilState =
  stencil_enabled :: bool
  reference :: "32 word"
  readMask :: "8 word"
  stencil_writeMask :: "8 word"
  stencil_front :: StencilOperation
  stencil_back :: StencilOperation

definition StencilState_default :: StencilState where
  "StencilState_default =
     \<lparr> stencil_enabled = False, reference = 0, readMask = 0xFF, stencil_writeMask = 0xFF,
       stencil_front = StencilOperation_default, stencil_back = StencilOperation_default \<rparr>"

record BlendOperation =
  op_source :: BlendFactor
  op_destination :: BlendFactor
  op_operation :: BlendOpType

definition BlendOperation_default :: BlendOperation where
  "BlendOperation_default =
     \<lparr> op_source = BlendFactor_One, op_destination = BlendFactor_Zero,
       op_operation = BlendOpType_Add \<rparr>"

record BlendStateTarget =
  enabled :: bool
  writeMask :: "8 word"
  colorOp :: BlendOperation
  alphaOp :: BlendOperation

definition BlendStateTarget_default :: BlendStateTarget where
  "BlendStateTarget_default =
     \<lparr> enabled = False, writeMask = 0b1111,
       colorOp = BlendOperation_default, alphaOp = BlendOperation_default \<rparr>"

definition MAX_NUM_RENDER_TARGETS :: nat where
  "MAX_NUM_RENDER_TARGETS = 8"

text \<open>\<open>targets\<close> is the fixed array \<open>BlendStateTarget targets[MAX_NUM_RENDER_TARGETS]\<close>.\<close>

record BlendState =
  alphaToCoverage :: bool
  independantBlend :: bool
  targets :: "BlendStateTarget list"

definition BlendState_default :: BlendState where
  "BlendState_default =
     \<lparr> alphaToCoverage = False, independantBlend = False,
       targets = replicate MAX_NUM_RENDER_TARGETS BlendStateTarget_default \<rparr>"

record GlobalOptions =
  sortMode :: SortMode
  separable :: bool
  transparent :: bool
  forward :: bool
  priority :: "32 word"

definition GlobalOptions_default :: GlobalOptions where
  "GlobalOptions_default =
     \<lparr> sortMode = SortMode_FrontToBack, separable = False, transparent = False,
       forward = False, priority = 0 \<rparr>"

record BindingSlot =
  slot_ident :: string
  location :: int

datatype UniformType =
  UniformType_Buffer | UniformType_UniformBuffer | UniformType_Sampler
  | UniformType_Variable | UniformType_Struct

text \<open>
  \<open>union DefaultValue\<close> (64 bytes). The analyzer fills it in two ways: by copying
  the sixteen floats of a declarator's default (\<open>memcpy\<close> of \<open>sizeof(DefaultValue)\<close>
  bytes), or by assigning the member \<open>handle\<close> of an otherwise uninitialised union.
\<close>

datatype DefaultValue = DefaultValue_matrix "float list" | DefaultValue_handle int

definition Uniform_Flags_None :: int where "Uniform_Flags_None = 0"
definition Uniform_Flags_Internal :: int where "Uniform_Flags_Internal = push_bit 0 1"
definition Uniform_Flags_Color :: int where "Uniform_Flags_Color = push_bit 1 1"

record Uniform =
  u_ident :: string
  u_type :: UniformType
  baseType :: int
  uniformBlock :: int
  defaultValue :: int
  u_flags :: int
  spriteUVRef :: string

definition Uniform_default :: Uniform where
  "Uniform_default =
     \<lparr> u_ident = [], u_type = UniformType_Variable, baseType = 0, uniformBlock = -1,
       defaultValue = -1, u_flags = Uniform_Flags_None, spriteUVRef = [] \<rparr>"

text \<open>
  The enumerations \<open>DataType\<close> and \<open>VarType\<close> list six scalar types, their vectors of
  dimension 2 to 4 and their matrices of dimensions 2 to 4 by 2 to 4. An enumerator is
  written with its parts: \<open>Float\<close> is \<open>DataType_Scalar S_Float\<close>, \<open>Float3\<close> is
  \<open>DataType_Vector S_Float D3\<close>, \<open>Float4x4\<close> is \<open>DataType_Matrix S_Float D4 D4\<close>.
  The same type serves for the enumeration \<open>DataType\<close> of the AST (ASTEnums.h; the
  switch of \<open>DataTypeToReflType\<close> names its enumerators) and for
  \<open>Reflection::DataType\<close>.
\<close>

datatype ScalarType = S_Bool | S_Int | S_UInt | S_Half | S_Float | S_Double

datatype Dim = D2 | D3 | D4

datatype DataType =
  DataType_Undefined | DataType_String | DataType_Scalar ScalarType
  | DataType_Vector ScalarType Dim | DataType_Matrix ScalarType Dim Dim

datatype VarType =
  VarType_Undefined | VarType_Void | VarType_Scalar ScalarType
  | VarType_Vector ScalarType Dim | VarType_Matrix ScalarType Dim Dim

fun ScalarType_index :: "ScalarType \<Rightarrow> int" where
  "ScalarType_index S_Bool = 0"
| "ScalarType_index S_Int = 1"
| "ScalarType_index S_UInt = 2"
| "ScalarType_index S_Half = 3"
| "ScalarType_index S_Float = 4"
| "ScalarType_index S_Double = 5"

fun Dim_index :: "Dim \<Rightarrow> int" where
  "Dim_index D2 = 0"
| "Dim_index D3 = 1"
| "Dim_index D4 = 2"

text \<open>The numeric value of an enumerator of \<open>Reflection::DataType\<close>, as \<open>(int)\<close> reads it.\<close>

fun Reflection_DataType_value :: "DataType \<Rightarrow> int" where
  "Reflection_DataType_value DataType_Undefined = 0"
| "Reflection_DataType_value DataType_String = 1"
| "Reflection_DataType_value (DataType_Scalar s) = 2 + ScalarType_index s"
| "Reflection_DataType_value (DataType_Vector s n) = 8 + 3 * ScalarType_index s + Dim_index n"
| "Reflection_DataType_value (DataType_Matrix s m n) =
     26 + 9 * ScalarType_index s + 3 * Dim_index m + Dim_index n"

datatype Reflection_BufferType =
  Reflection_BufferType_Undefined
  | Reflection_BufferType_Buffer | Reflection_BufferType_StructuredBuffer
  | Reflection_BufferType_ByteAddressBuffer
  | Reflection_BufferType_RWBuffer | Reflection_BufferType_RWStructuredBuffer
  | Reflection_BufferType_RWByteAddressBuffer | Reflection_BufferType_AppendStructuredBuffer
  | Reflection_BufferType_ConsumeStructuredBuffer
  | Reflection_BufferType_RWTexture1D | Reflection_BufferType_RWTexture1DArray
  | Reflection_BufferType_RWTexture2D | Reflection_BufferType_RWTexture2DArray
  | Reflection_BufferType_RWTexture3D
  | Reflection_BufferType_Texture1D | Reflection_BufferType_Texture1DArray
  | Reflection_BufferType_Texture2D | Reflection_BufferType_Texture2DArray
  | Reflection_BufferType_Texture3D | Reflection_BufferType_TextureCube
  | Reflection_BufferType_TextureCubeArray | Reflection_BufferType_Texture2DMS
  | Reflection_BufferType_Texture2DMSArray

fun Reflection_BufferType_value :: "Reflection_BufferType \<Rightarrow> int" where
  "Reflection_BufferType_value Reflection_BufferType_Undefined = 0"
| "Reflection_BufferType_value Reflection_BufferType_Buffer = 1"
| "Reflection_BufferType_value Reflection_BufferType_StructuredBuffer = 2"
| "Reflection_BufferType_value Reflection_BufferType_ByteAddressBuffer = 3"
| "Reflection_BufferType_value Reflection_BufferType_RWBuffer = 4"
| "Reflection_BufferType_value Reflection_BufferType_RWStructuredBuffer = 5"
| "Reflection_BufferType_value Reflection_BufferType_RWByteAddressBuffer = 6"
| "Reflection_BufferType_value Reflection_BufferType_AppendStructuredBuffer = 7"
| "Reflection_BufferType_value Reflection_BufferType_ConsumeStructuredBuffer = 8"
| "Reflection_BufferType_value Reflection_BufferType_RWTexture1D = 9"
| "Reflection_BufferType_value Reflection_BufferType_RWTexture1DArray = 10"
| "Reflection_BufferType_value Reflection_BufferType_RWTexture2D = 11"
| "Reflection_BufferType_value Reflection_BufferType_RWTexture2DArray = 12"
| "Reflection_BufferType_value Reflection_BufferType_RWTexture3D = 13"
| "Reflection_BufferType_value Reflection_BufferType_Texture1D = 14"
| "Reflection_BufferType_value Reflection_BufferType_Texture1DArray = 15"
| "Reflection_BufferType_value Reflection_BufferType_Texture2D = 16"
| "Reflection_BufferType_value Reflection_BufferType_Texture2DArray = 17"
| "Reflection_BufferType_value Reflection_BufferType_Texture3D = 18"
| "Reflection_BufferType_value Reflection_BufferType_TextureCube = 19"
| "Reflection_BufferType_value Reflection_BufferType_TextureCubeArray = 20"
| "Reflection_BufferType_value Reflection_BufferType_Texture2DMS = 21"
| "Reflection_BufferType_value Reflection_BufferType_Texture2DMSArray = 22"

definition Parameter_Flags_In :: int where "Parameter_Flags_In = push_bit 0 1"
definition Parameter_Flags_Out :: int where "Parameter_Flags_Out = push_bit 1 1"

text \<open>
  \<open>struct Parameter\<close> declares no initialisers: \<open>flags\<close> of a parameter the analyzer
  does not assign is indeterminate in C++ and is \<open>None\<close> here.
\<close>

record Parameter =
  p_type :: VarType
  p_ident :: string
  p_flags :: "int option"

record Function =
  f_ident :: string
  returnValue :: VarType
  parameters :: "Parameter list"

record NumThreads =
  nt_x :: int
  nt_y :: int
  nt_z :: int

definition NumThreads_default :: NumThreads where
  "NumThreads_default = \<lparr> nt_x = 0, nt_y = 0, nt_z = 0 \<rparr>"

text \<open>\<open>samplerStates\<close> is a \<open>std::map\<close> from identifier to state: one entry per key.\<close>

record ReflectionData =
  macros :: "string list"
  textures :: "BindingSlot list"
  storageBuffers :: "BindingSlot list"
  constantBuffers :: "BindingSlot list"
  inputAttributes :: "BindingSlot list"
  outputAttributes :: "BindingSlot list"
  samplerStates :: "string \<rightharpoonup> SamplerState"
  blendState :: BlendState
  rasterizerState :: RasterizerState
  depthState :: DepthState
  stencilState :: StencilState
  globalOptions :: GlobalOptions
  numThreads :: NumThreads
  uniforms :: "Uniform list"
  defaultValues :: "DefaultValue list"
  data_functions :: "Function list"

text \<open>The record as the driver creates it: every member default-constructed.\<close>

definition ReflectionData_default :: ReflectionData where
  "ReflectionData_default =
     \<lparr> macros = [], textures = [], storageBuffers = [], constantBuffers = [],
       inputAttributes = [], outputAttributes = [], samplerStates = Map.empty,
       blendState = BlendState_default, rasterizerState = RasterizerState_default,
       depthState = DepthState_default, stencilState = StencilState_default,
       globalOptions = GlobalOptions_default, numThreads = NumThreads_default,
       uniforms = [], defaultValues = [], data_functions = [] \<rparr>"

section \<open>The AST as the analyzer and the converter read it\<close>

text \<open>
  The declarations of the AST nodes and of the type denoters (AST.h, TypeDenoter.h) are
  not among the sources; the enumerations are those of ASTEnums.h. Each node below has
  the members that the code under src/ reads or writes, under the names the code uses.
\<close>

text \<open>
  Modelled from the spec: the enumeration \<open>ShaderTarget\<close> (Targets.h is missing). The
  sources name \<open>VertexShader\<close>, \<open>FragmentShader\<close> and \<open>ComputeShader\<close>; the spec
  speaks of "other stages", which \<open>OtherShaderTarget\<close> numbers.
\<close>

datatype ShaderTarget =
  VertexShader | FragmentShader | ComputeShader | OtherShaderTarget nat

datatype ExtModifier = ExtModifiers_Internal | ExtModifiers_Color

datatype BufferType =
  BufferType_Undefined
  | BufferType_Buffer | BufferType_StructuredBuffer | BufferType_ByteAddressBuffer
  | BufferType_RWBuffer | BufferType_RWStructuredBuffer | BufferType_RWByteAddressBuffer
  | BufferType_AppendStructuredBuffer | BufferType_ConsumeStructuredBuffer
  | BufferType_RWTexture1D | BufferType_RWTexture1DArray | BufferType_RWTexture2D
  | BufferType_RWTexture2DArray | BufferType_RWTexture3D
  | BufferType_Texture1D | BufferType_Texture1DArray | BufferType_Texture2D
  | BufferType_Texture2DArray | BufferType_Texture3D | BufferType_TextureCube
  | BufferType_TextureCubeArray | BufferType_Texture2DMS | BufferType_Texture2DMSArray
  | BufferType_Other nat

text \<open>
  The type denoter family \<open>{Void, Base, Struct, Array, Buffer, Sampler, Alias}\<close>.
  \<open>extModifiers\<close> is a bit set, tested by \<open>(extModifiers & ExtModifiers::M) != 0\<close>;
  it is the set of the modifiers whose bit is set. A struct denoter carries the
  identifier of its struct, an alias denoter its name and the denoter it refers to.
\<close>

text \<open>The enumeration \<open>SamplerType\<close> of ASTEnums.h: its samplers \<open>Sampler1D\<close> to
  \<open>SamplerCubeArrayShadow\<close>, numbered in the order of their declaration, and the two
  sampler-state objects \<open>SamplerState\<close> and \<open>SamplerComparisonState\<close>.\<close>

datatype SamplerType =
  SamplerType_Sampler nat | SamplerType_SamplerState | SamplerType_SamplerComparisonState

datatype TypeDenoter =
  VoidTypeDenoter
  | BaseTypeDenoter DataType "ExtModifier set" string
  | StructTypeDenoter string
  | ArrayTypeDenoter TypeDenoter
  | BufferTypeDenoter BufferType "ExtModifier set"
  | SamplerTypeDenoter SamplerType
  | AliasTypeDenoter string TypeDenoter

datatype Intrinsic = Intrinsic_Undefined | Saturate | Clamp | OtherIntrinsic nat

text \<open>
  Expressions. \<open>LiteralExpr dataType value\<close>; \<open>ObjectExpr ident\<close>;
  \<open>CallExpr (CallExprNode intrinsic typeDenoter arguments)\<close>, where \<open>typeDenoter\<close>
  may be null;
  \<open>CastExpr typeSpecifier expr\<close>; \<open>InitializerExpr exprs\<close>;
  \<open>StateInitializerExpr exprs\<close>, whose elements are state values \<open>name = value\<close>.
  \<open>OtherExpr\<close> stands for the remaining kinds (binary, unary, bracket, subscript),
  which every downcast probe of the code under src/ rejects.
\<close>

datatype Expr =
  LiteralExpr DataType string
  | ObjectExpr string
  | CallExpr CallExprNode
  | CastExpr TypeDenoter Expr
  | InitializerExpr "Expr list"
  | StateInitializerExpr "StateValue list"
  | OtherExpr nat
and CallExprNode =
  CallExprNode (intrinsic: Intrinsic) (call_typeDenoter: "TypeDenoter option")
    (arguments: "Expr list")
and StateValue = StateValue string Expr

fun sv_name :: "StateValue \<Rightarrow> string" where
  "sv_name (StateValue n v) = n"

fun sv_value :: "StateValue \<Rightarrow> Expr" where
  "sv_value (StateValue n v) = v"

record SamplerValue =
  smp_name :: string
  smp_value :: Expr

record SamplerDecl =
  sd_ident :: string
  sd_alias :: string
  samplerValues :: "SamplerValue list"

datatype StateType =
  StateType_Undefined | StateType_Rasterizer | StateType_Depth | StateType_Stencil
  | StateType_Blend | StateType_Options

text \<open>\<open>initializer\<close> is a pointer to a \<open>StateInitializerExpr\<close>, or null; the record
  holds the state values \<open>initializer->exprs\<close>.\<close>

record StateDecl =
  stateType :: StateType
  initializer :: "StateValue list option"

record Register =
  registerTarget :: "ShaderTarget option"
  slot :: int

text \<open>The default value attached to a declarator: \<open>available\<close>, the sixteen floats
  \<open>matrix\<close> and the integer \<open>handle\<close>.\<close>

record DeclDefaultValue =
  available :: bool
  dv_matrix :: "float list"
  dv_handle :: int

record VarDecl =
  vd_ident :: string
  vd_defaultValue :: DeclDefaultValue

text \<open>A type specifier: \<open>typeDenoter\<close> (which may be null) and the direction
  predicates \<open>IsInput()\<close> and \<open>IsOutput()\<close>.\<close>

record TypeSpecifier =
  typeDenoter :: "TypeDenoter option"
  IsInput :: bool
  IsOutput :: bool

text \<open>A variable declaration statement as a function parameter: the analyzer tests
  \<open>typeSpecifier\<close> and its \<open>typeDenoter\<close> for null before it reads them.\<close>

record VarDeclStmnt =
  typeSpecifier :: "TypeSpecifier option"
  varDecls :: "VarDecl list"

text \<open>
  A variable declaration statement as a member of a uniform buffer: there the analyzer
  reads \<open>stmt->typeSpecifier->typeDenoter\<close> without a test, and section 6.1 of the
  spec has every declaration carry a populated type denoter; the type denoter is
  therefore not optional in this record.
\<close>

record MemberVarDeclStmnt =
  member_typeDenoter :: TypeDenoter
  member_varDecls :: "VarDecl list"

record UniformBufferDecl =
  ub_ident :: string
  ub_slotRegisters :: "Register list"
  ub_extModifiers :: "ExtModifier set"
  varMembers :: "MemberVarDeclStmnt list"

record BufferDecl =
  bd_ident :: string
  bd_slotRegisters :: "Register list"
  bd_defaultValue :: DeclDefaultValue

text \<open>\<open>typeDenoter\<close> of a buffer declaration statement is a buffer type denoter:
  its \<open>bufferType\<close> and \<open>extModifiers\<close>.\<close>

record BufferDeclStmnt =
  bufferType :: BufferType
  bds_extModifiers :: "ExtModifier set"
  bufferDecls :: "BufferDecl list"

datatype AttributeType = AttributeType_NumThreads | AttributeType_Other nat

record Attribute =
  attributeType :: AttributeType
  attr_arguments :: "Expr list"

text \<open>
  A function declaration: \<open>isEntryPoint\<close> is the flag \<open>FunctionDecl::isEntryPoint\<close>,
  \<open>attribs\<close> the attributes \<open>declStmntRef->attribs\<close>. \<open>returnType\<close> is null or a
  type specifier, whose \<open>typeDenoter\<close> the analyzer reads without a test: the record
  holds that type denoter.
\<close>

record FunctionDecl =
  fd_ident :: string
  isEntryPoint :: bool
  attribs :: "Attribute list"
  returnType :: "TypeDenoter option"
  fd_parameters :: "VarDeclStmnt list"

text \<open>
  Modelled from the spec: the tree the visitor walks (Visitor.cpp is missing). A
  statement is one of the nodes the analyzer overrides, or any other node, of which
  the default descent visits the children in order. A function declaration has
  children too (its body), which the analyzer visits after recording the function.
\<close>

datatype Stmnt =
  SamplerDeclStmnt "SamplerDecl list"
  | StateDeclStmnt StateDecl
  | FunctionDeclStmnt FunctionDecl "Stmnt list"
  | UniformBufferDeclStmnt UniformBufferDecl
  | BufferDeclStmntNode BufferDeclStmnt
  | OtherStmnt "Stmnt list"

text \<open>An entry of a semantic list of the entry point: the identifier of the variable,
  and \<open>semantic.ToString()\<close> and \<open>semantic.Index()\<close> of its semantic.\<close>

record SemanticVar =
  sem_ident :: string
  sem_ToString :: string
  sem_Index :: int

record EntryPoint =
  inputSemantics_varDeclRefs :: "SemanticVar list"
  inputSemantics_varDeclRefsSV :: "SemanticVar list"
  outputSemantics_varDeclRefs :: "SemanticVar list"
  outputSemantics_varDeclRefsSV :: "SemanticVar list"
  ep_IsSystemValue :: bool
  ep_ToString :: string
  ep_Index :: int

record Program =
  globalStmnts :: "Stmnt list"
  disabledAST :: "Stmnt list"
  entryPointRef :: "EntryPoint option"

section \<open>Collaborators of the analyzer that are not among the sources\<close>

text \<open>
  The enum parsers (\<open>StringToFilter\<close> and its siblings), \<open>Variant\<close>,
  \<open>FromStringOrDefault\<close>, \<open>ExprEvaluator\<close>, \<open>Register::GetForTarget\<close> and
  \<open>IsStorageBufferType\<close> are called by the code under src/ and defined elsewhere.
  They are parameters, collected in one record:
  \<^item> a parser \<open>StringToE\<close> returns \<open>Inr\<close> the enumerator, or \<open>Inl\<close> the text
    \<open>e.what()\<close> of the \<open>std::invalid_argument\<close> it throws;
  \<^item> \<open>Variant_Bool s\<close> is \<open>Variant::ParseFrom(s).Bool()\<close>, \<open>Variant_Int s\<close> is
    \<open>Variant::ParseFrom(s).Int()\<close> (a 64-bit integer), \<open>Variant_Real s\<close> is
    \<open>(float)Variant::ParseFrom(s).Real()\<close>;
  \<^item> \<open>Evaluate_ToInt e\<close> is \<open>None\<close> when the evaluator gives up on \<open>e\<close> (so that
    \<open>EvaluateOrDefault\<close> returns the default it was given) and otherwise \<open>ToInt()\<close>
    of the value, a 64-bit integer; \<open>Evaluate_ToReal\<close> likewise, narrowed to \<open>float\<close>;
  \<^item> \<open>SamplerState_filter_init\<close> is the initial value of \<open>SamplerState::filter\<close>.
\<close>

record Env =
  StringToFilter :: "string \<Rightarrow> string + Filter"
  StringToTexAddressMode :: "string \<Rightarrow> string + TextureAddressMode"
  StringToCompareFunc :: "string \<Rightarrow> string + ComparisonFunc"
  StringToBlendFactor :: "string \<Rightarrow> string + BlendFactor"
  StringToBlendOpType :: "string \<Rightarrow> string + BlendOpType"
  StringToCullMode :: "string \<Rightarrow> string + CullMode"
  StringToFillMode :: "string \<Rightarrow> string + FillMode"
  StringToStencilOpType :: "string \<Rightarrow> string + StencilOpType"
  StringToSortMode :: "string \<Rightarrow> string + SortMode"
  Variant_Bool :: "string \<Rightarrow> bool"
  Variant_Int :: "string \<Rightarrow> int"
  Variant_Real :: "string \<Rightarrow> float"
  FromStringOrDefault_float :: "string \<Rightarrow> float"
  FromStringOrDefault_ulong :: "string \<Rightarrow> nat"
  Evaluate_ToInt :: "Expr \<Rightarrow> int option"
  Evaluate_ToReal :: "Expr \<Rightarrow> float option"
  GetForTarget :: "Register list \<Rightarrow> ShaderTarget \<Rightarrow> Register option"
  IsStorageBufferType :: "BufferType \<Rightarrow> bool"
  SamplerState_filter_init :: Filter

text \<open>The texts of ReportIdents.h, by their identifiers; \<open>What\<close> is the text of a
  caught exception.\<close>

datatype Msg =
  R_ExpectedLiteralExpr | R_ExpectedStateKeyword | R_ExpectedStateInitializerExpr
  | R_UnknownStateKeyword string | R_InvalidTypeOrArgCount | R_InvalidArgCount
  | R_FailedToInitializeSamplerValue Msg string | What string
  | R_InvalidIntrinsicArgType string | R_InvalidIntrinsicArgCount string

datatype Report = Report_Warning Msg | Report_Error Msg

section \<open>ReflectionAnalyzer (ReflectionAnalyzer.cpp)\<close>

text \<open>
  The members of the class, named without the trailing underscore of the source: the
  reports submitted to \<open>reportHandler_\<close> so far, the shader target \<open>shaderTarget_\<close>,
  the reflection record \<open>data_\<close> points to, and \<open>enableWarnings_\<close>.
  A method is a function from the object to the object. A method that writes through a
  reference parameter takes the referenced value in a pair with the object and returns
  the pair.
\<close>

record ReflectionAnalyzer =
  reportHandler :: "Report list"
  shaderTarget :: ShaderTarget
  data :: ReflectionData
  enableWarnings :: bool

definition Warning :: "Msg \<Rightarrow> ReflectionAnalyzer \<Rightarrow> ReflectionAnalyzer" where
  "Warning msg this =
     (if enableWarnings this
      then this\<lparr>reportHandler := reportHandler this @ [Report_Warning msg]\<rparr>
      else this)"

definition Error :: "Msg \<Rightarrow> ReflectionAnalyzer \<Rightarrow> ReflectionAnalyzer" where
  "Error msg this = this\<lparr>reportHandler := reportHandler this @ [Report_Error msg]\<rparr>"

definition GetBindingPoint :: "Env \<Rightarrow> Register list \<Rightarrow> ReflectionAnalyzer \<Rightarrow> int" where
  "GetBindingPoint env slotRegisters this =
     (case GetForTarget env slotRegisters (shaderTarget this) of
        Some slotRegister \<Rightarrow> slot slotRegister
      | None \<Rightarrow> -1)"

text \<open>\<open>static_cast<int>\<close> of a 64-bit integer keeps the low 32 bits, read as signed.\<close>

definition static_cast_int :: "int \<Rightarrow> int" where
  "static_cast_int v = sint (word_of_int v :: 32 word)"

definition EvaluateConstExprInt :: "Env \<Rightarrow> Expr \<Rightarrow> int" where
  "EvaluateConstExprInt env expr =
     static_cast_int (case Evaluate_ToInt env expr of Some v \<Rightarrow> v | None \<Rightarrow> 0)"

definition EvaluateConstExprFloat :: "Env \<Rightarrow> Expr \<Rightarrow> float" where
  "EvaluateConstExprFloat env expr =
     (case Evaluate_ToReal env expr of Some v \<Rightarrow> v | None \<Rightarrow> FLT_ZERO)"

subsection \<open>Enumerator look-ups\<close>

definition ReflectSamplerValueFilter ::
  "Env \<Rightarrow> string \<Rightarrow> Filter \<times> ReflectionAnalyzer \<Rightarrow> Filter \<times> ReflectionAnalyzer" where
  "ReflectSamplerValueFilter env v = (\<lambda>(filter0, this).
     case StringToFilter env v of
       Inr r \<Rightarrow> (r, this)
     | Inl what \<Rightarrow> (filter0, Warning (What what) this))"

definition ReflectSamplerValueTextureAddressMode ::
  "Env \<Rightarrow> string \<Rightarrow> TextureAddressMode \<times> ReflectionAnalyzer
     \<Rightarrow> TextureAddressMode \<times> ReflectionAnalyzer" where
  "ReflectSamplerValueTextureAddressMode env v = (\<lambda>(addressMode, this).
     case StringToTexAddressMode env v of
       Inr r \<Rightarrow> (r, this)
     | Inl what \<Rightarrow> (addressMode, Warning (What what) this))"

definition ReflectComparisonFunc ::
  "Env \<Rightarrow> string \<Rightarrow> ComparisonFunc \<times> ReflectionAnalyzer
     \<Rightarrow> ComparisonFunc \<times> ReflectionAnalyzer" where
  "ReflectComparisonFunc env v = (\<lambda>(comparisonFunc0, this).
     case StringToCompareFunc env v of
       Inr r \<Rightarrow> (r, this)
     | Inl what \<Rightarrow> (comparisonFunc0, Error (What what) this))"

definition ReflectBlendFactor ::
  "Env \<Rightarrow> string \<Rightarrow> BlendFactor \<times> ReflectionAnalyzer \<Rightarrow> BlendFactor \<times> ReflectionAnalyzer" where
  "ReflectBlendFactor env v = (\<lambda>(blendFactor, this).
     case StringToBlendFactor env v of
       Inr r \<Rightarrow> (r, this)
     | Inl what \<Rightarrow> (blendFactor, Error (What what) this))"

definition ReflectBlendOpType ::
  "Env \<Rightarrow> string \<Rightarrow> BlendOpType \<times> ReflectionAnalyzer \<Rightarrow> BlendOpType \<times> ReflectionAnalyzer" where
  "ReflectBlendOpType env v = (\<lambda>(blendOp, this).
     case StringToBlendOpType env v of
       Inr r \<Rightarrow> (r, this)
     | Inl what \<Rightarrow> (blendOp, Error (What what) this))"

definition ReflectCullMode ::
  "Env \<Rightarrow> string \<Rightarrow> CullMode \<times> ReflectionAnalyzer \<Rightarrow> CullMode \<times> ReflectionAnalyzer" where
  "ReflectCullMode env v = (\<lambda>(cullMode0, this).
     case StringToCullMode env v of
       Inr r \<Rightarrow> (r, this)
     | Inl what \<Rightarrow> (cullMode0, Error (What what) this))"

definition ReflectFillMode ::
  "Env \<Rightarrow> string \<Rightarrow> FillMode \<times> ReflectionAnalyzer \<Rightarrow> FillMode \<times> ReflectionAnalyzer" where
  "ReflectFillMode env v = (\<lambda>(fillMode0, this).
     case StringToFillMode env v of
       Inr r \<Rightarrow> (r, this)
     | Inl what \<Rightarrow> (fillMode0, Error (What what) this))"

definition ReflectStencilOpType ::
  "Env \<Rightarrow> string \<Rightarrow> StencilOpType \<times> ReflectionAnalyzer
     \<Rightarrow> StencilOpType \<times> ReflectionAnalyzer" where
  "ReflectStencilOpType env v = (\<lambda>(stencilOp, this).
     case StringToStencilOpType env v of
       Inr r \<Rightarrow> (r, this)
     | Inl what \<Rightarrow> (stencilOp, Error (What what) this))"

definition ReflectSortMode ::
  "Env \<Rightarrow> string \<Rightarrow> SortMode \<times> ReflectionAnalyzer \<Rightarrow> SortMode \<times> ReflectionAnalyzer" where
  "ReflectSortMode env v = (\<lambda>(sortMode0, this).
     case StringToSortMode env v of
       Inr r \<Rightarrow> (r, this)
     | Inl what \<Rightarrow> (sortMode0, Error (What what) this))"

subsection \<open>Sampler values\<close>

text \<open>
  Modelled from the spec: \<open>TypeDenoter::IsVector\<close> (TypeDenoter.cpp is missing):
  a base type denoter whose data type is a vector.
\<close>

fun IsVector :: "TypeDenoter \<Rightarrow> bool" where
  "IsVector (BaseTypeDenoter (DataType_Vector s n) m r) = True"
| "IsVector t = False"

text \<open>The value of the key \<open>BorderColor\<close>, inside the \<open>try\<close> block: \<open>Inl\<close> is the
  string thrown, \<open>Inr\<close> the border colour after the block.\<close>

fun ReflectSamplerValue_BorderColor :: "Env \<Rightarrow> Expr \<Rightarrow> float list \<Rightarrow> Msg + float list" where
  "ReflectSamplerValue_BorderColor env (CallExpr (CallExprNode i td args)) bc =
     (if (case td of Some t \<Rightarrow> IsVector t | None \<Rightarrow> False) \<and> length args = 4
      then Inr (map (EvaluateConstExprFloat env) args)
      else Inl R_InvalidTypeOrArgCount)"
| "ReflectSamplerValue_BorderColor env (CastExpr ts e) bc =
     (let subValueSrc = EvaluateConstExprFloat env e
      in Inr [subValueSrc, subValueSrc, subValueSrc, subValueSrc])"
| "ReflectSamplerValue_BorderColor env (InitializerExpr exprs) bc =
     (if length exprs = 4
      then Inr (map (EvaluateConstExprFloat env) exprs)
      else Inl R_InvalidArgCount)"
| "ReflectSamplerValue_BorderColor env e bc = Inr bc"

definition ReflectSamplerValue ::
  "Env \<Rightarrow> SamplerValue \<Rightarrow> SamplerState \<times> ReflectionAnalyzer
     \<Rightarrow> SamplerState \<times> ReflectionAnalyzer" where
  "ReflectSamplerValue env ast = (\<lambda>(samplerState, this).
     let name = smp_name ast in
     case smp_value ast of
       LiteralExpr dt v \<Rightarrow>
         if name = ''MipLODBias''
           then (samplerState\<lparr>mipLODBias := FromStringOrDefault_float env v\<rparr>, this)
         else if name = ''MaxAnisotropy''
           then (samplerState\<lparr>maxAnisotropy := of_nat (FromStringOrDefault_ulong env v)\<rparr>, this)
         else if name = ''MinLOD''
           then (samplerState\<lparr>minLOD := FromStringOrDefault_float env v\<rparr>, this)
         else if name = ''MaxLOD''
           then (samplerState\<lparr>maxLOD := FromStringOrDefault_float env v\<rparr>, this)
         else (samplerState, this)
     | ObjectExpr v \<Rightarrow>
         if name = ''Filter''
           then (case ReflectSamplerValueFilter env v (ss_filter samplerState, this) of
                   (r, this') \<Rightarrow> (samplerState\<lparr>ss_filter := r\<rparr>, this'))
         else if name = ''AddressU''
           then (case ReflectSamplerValueTextureAddressMode env v (addressU samplerState, this) of
                   (r, this') \<Rightarrow> (samplerState\<lparr>addressU := r\<rparr>, this'))
         else if name = ''AddressV''
           then (case ReflectSamplerValueTextureAddressMode env v (addressV samplerState, this) of
                   (r, this') \<Rightarrow> (samplerState\<lparr>addressV := r\<rparr>, this'))
         else if name = ''AddressW''
           then (case ReflectSamplerValueTextureAddressMode env v (addressW samplerState, this) of
                   (r, this') \<Rightarrow> (samplerState\<lparr>addressW := r\<rparr>, this'))
         else if name = ''ComparisonFunc''
           then (case ReflectComparisonFunc env v (comparisonFunc samplerState, this) of
                   (r, this') \<Rightarrow> (samplerState\<lparr>comparisonFunc := r\<rparr>, this'))
         else (samplerState, this)
     | e \<Rightarrow>
         if name = ''BorderColor''
           then (case ReflectSamplerValue_BorderColor env e (borderColor samplerState) of
                   Inr bc \<Rightarrow> (samplerState\<lparr>borderColor := bc\<rparr>, this)
                 | Inl s \<Rightarrow>
                     (samplerState,
                      Warning (R_FailedToInitializeSamplerValue s ''BorderColor'') this))
         else (samplerState, this))"

text \<open>A range-based \<open>for\<close> loop over a vector, the body threading its state.\<close>

definition for_each :: "('a \<Rightarrow> 's \<Rightarrow> 's) \<Rightarrow> 'a list \<Rightarrow> 's \<Rightarrow> 's" where
  "for_each body xs s = fold body xs s"

text \<open>The block of \<open>VisitSamplerDecl\<close> that fills the local \<open>samplerState\<close>, and
  the assignment of the alias.\<close>

definition VisitSamplerDecl_samplerState ::
  "Env \<Rightarrow> SamplerDecl \<Rightarrow> ReflectionAnalyzer \<Rightarrow> SamplerState \<times> ReflectionAnalyzer" where
  "VisitSamplerDecl_samplerState env ast this =
     (case for_each
             (\<lambda>v st. case ReflectSamplerValue env v st of
                        (samplerState, this') \<Rightarrow> (samplerState\<lparr>isNonDefault := True\<rparr>, this'))
             (samplerValues ast)
             (SamplerState_default (SamplerState_filter_init env), this) of
        (samplerState, this') \<Rightarrow> (samplerState\<lparr>ss_alias := sd_alias ast\<rparr>, this'))"

definition VisitSamplerDecl :: "Env \<Rightarrow> SamplerDecl \<Rightarrow> ReflectionAnalyzer \<Rightarrow> ReflectionAnalyzer" where
  "VisitSamplerDecl env ast this =
     (case VisitSamplerDecl_samplerState env ast this of
        (samplerState, this') \<Rightarrow>
          let uniform = Uniform_default\<lparr>u_ident := sd_ident ast, u_type := UniformType_Sampler,
                                        baseType := 0\<rparr>
          in this'\<lparr>data := (data this')
               \<lparr>samplerStates := (samplerStates (data this'))(sd_ident ast \<mapsto> samplerState),
                uniforms := uniforms (data this') @ [uniform]\<rparr>\<rparr>)"

subsection \<open>State values\<close>

definition ReflectStencilOperationValue ::
  "Env \<Rightarrow> StateValue \<Rightarrow> StencilOperation \<times> ReflectionAnalyzer
     \<Rightarrow> StencilOperation \<times> ReflectionAnalyzer" where
  "ReflectStencilOperationValue env ast = (\<lambda>(stencilOperation, this).
     let name = sv_name ast in
     case sv_value ast of
       ObjectExpr v \<Rightarrow>
         if name = ''fail''
           then (case ReflectStencilOpType env v (op_fail stencilOperation, this) of
                   (r, this') \<Rightarrow> (stencilOperation\<lparr>op_fail := r\<rparr>, this'))
         else if name = ''zfail''
           then (case ReflectStencilOpType env v (op_zfail stencilOperation, this) of
                   (r, this') \<Rightarrow> (stencilOperation\<lparr>op_zfail := r\<rparr>, this'))
         else if name = ''pass''
           then (case ReflectStencilOpType env v (op_pass stencilOperation, this) of
                   (r, this') \<Rightarrow> (stencilOperation\<lparr>op_pass := r\<rparr>, this'))
         else if name = ''compare''
           then (case ReflectComparisonFunc env v (compareFunc stencilOperation, this) of
                   (r, this') \<Rightarrow> (stencilOperation\<lparr>compareFunc := r\<rparr>, this'))
         else (stencilOperation, Error (R_UnknownStateKeyword ''stencil operation'') this)
     | _ \<Rightarrow> (stencilOperation, Error R_ExpectedStateKeyword this))"

definition ReflectBlendOperationValue ::
  "Env \<Rightarrow> StateValue \<Rightarrow> BlendOperation \<times> ReflectionAnalyzer
     \<Rightarrow> BlendOperation \<times> ReflectionAnalyzer" where
  "ReflectBlendOperationValue env ast = (\<lambda>(blendOperation, this).
     let name = sv_name ast in
     case sv_value ast of
       ObjectExpr v \<Rightarrow>
         if name = ''source''
           then (case ReflectBlendFactor env v (op_source blendOperation, this) of
                   (r, this') \<Rightarrow> (blendOperation\<lparr>op_source := r\<rparr>, this'))
         else if name = ''dest''
           then (case ReflectBlendFactor env v (op_destination blendOperation, this) of
                   (r, this') \<Rightarrow> (blendOperation\<lparr>op_destination := r\<rparr>, this'))
         else if name = ''op''
           then (case ReflectBlendOpType env v (op_operation blendOperation, this) of
                   (r, this') \<Rightarrow> (blendOperation\<lparr>op_operation := r\<rparr>, this'))
         else (blendOperation, Error (R_UnknownStateKeyword ''blend operation'') this)
     | _ \<Rightarrow> (blendOperation, Error R_ExpectedStateKeyword this))"

definition ReflectBlendStateTargetValue ::
  "Env \<Rightarrow> StateValue \<Rightarrow> BlendStateTarget \<times> ReflectionAnalyzer
     \<Rightarrow> BlendStateTarget \<times> ReflectionAnalyzer" where
  "ReflectBlendStateTargetValue env ast = (\<lambda>(blendStateTarget, this).
     let name = sv_name ast in
     if name = ''enabled'' then
       (case sv_value ast of
          LiteralExpr dt v \<Rightarrow> (blendStateTarget\<lparr>enabled := Variant_Bool env v\<rparr>, this)
        | _ \<Rightarrow> (blendStateTarget, Error R_ExpectedLiteralExpr this))
     else if name = ''writemask'' then
       (case sv_value ast of
          LiteralExpr dt v \<Rightarrow>
            (blendStateTarget\<lparr>writeMask := word_of_int (Variant_Int env v)\<rparr>, this)
        | _ \<Rightarrow> (blendStateTarget, Error R_ExpectedLiteralExpr this))
     else if name = ''color'' then
       (case sv_value ast of
          StateInitializerExpr exprs \<Rightarrow>
            (case for_each (ReflectBlendOperationValue env) exprs
                    (colorOp blendStateTarget, this) of
               (r, this') \<Rightarrow> (blendStateTarget\<lparr>colorOp := r\<rparr>, this'))
        | _ \<Rightarrow> (blendStateTarget, Error R_ExpectedStateInitializerExpr this))
     else if name = ''alpha'' then
       (case sv_value ast of
          StateInitializerExpr exprs \<Rightarrow>
            (case for_each (ReflectBlendOperationValue env) exprs
                    (alphaOp blendStateTarget, this) of
               (r, this') \<Rightarrow> (blendStateTarget\<lparr>alphaOp := r\<rparr>, this'))
        | _ \<Rightarrow> (blendStateTarget, Error R_ExpectedStateInitializerExpr this))
     else if name = ''index'' then (blendStateTarget, this)
     else (blendStateTarget, Error (R_UnknownStateKeyword ''blend target'') this))"

definition ReflectRasterizerStateValue ::
  "Env \<Rightarrow> StateValue \<Rightarrow> RasterizerState \<times> ReflectionAnalyzer
     \<Rightarrow> RasterizerState \<times> ReflectionAnalyzer" where
  "ReflectRasterizerStateValue env ast = (\<lambda>(rasterizerState0, this).
     let name = sv_name ast in
     if name = ''scissor'' then
       (case sv_value ast of
          LiteralExpr dt v \<Rightarrow> (rasterizerState0\<lparr>scissorEnable := Variant_Bool env v\<rparr>, this)
        | _ \<Rightarrow> (rasterizerState0, Error R_ExpectedLiteralExpr this))
     else if name = ''multisample'' then
       (case sv_value ast of
          LiteralExpr dt v \<Rightarrow> (rasterizerState0\<lparr>multisampleEnable := Variant_Bool env v\<rparr>, this)
        | _ \<Rightarrow> (rasterizerState0, Error R_ExpectedLiteralExpr this))
     else if name = ''lineaa'' then
       (case sv_value ast of
          LiteralExpr dt v \<Rightarrow>
            (rasterizerState0\<lparr>antialisedLineEnable := Variant_Bool env v\<rparr>, this)
        | _ \<Rightarrow> (rasterizerState0, Error R_ExpectedLiteralExpr this))
     else if name = ''fill'' then
       (case sv_value ast of
          ObjectExpr v \<Rightarrow>
            (case ReflectFillMode env v (fillMode rasterizerState0, this) of
               (r, this') \<Rightarrow> (rasterizerState0\<lparr>fillMode := r\<rparr>, this'))
        | _ \<Rightarrow> (rasterizerState0, Error R_ExpectedStateKeyword this))
     else if name = ''cull'' then
       (case sv_value ast of
          ObjectExpr v \<Rightarrow>
            (case ReflectCullMode env v (cullMode rasterizerState0, this) of
               (r, this') \<Rightarrow> (rasterizerState0\<lparr>cullMode := r\<rparr>, this'))
        | _ \<Rightarrow> (rasterizerState0, Error R_ExpectedStateKeyword this))
     else (rasterizerState0, Error (R_UnknownStateKeyword ''rasterizer'') this))"

definition ReflectDepthStateValue ::
  "Env \<Rightarrow> StateValue \<Rightarrow> DepthState \<times> ReflectionAnalyzer
     \<Rightarrow> DepthState \<times> ReflectionAnalyzer" where
  "ReflectDepthStateValue env ast = (\<lambda>(depthState0, this).
     let name = sv_name ast in
     if name = ''read'' then
       (case sv_value ast of
          LiteralExpr dt v \<Rightarrow> (depthState0\<lparr>readEnable := Variant_Bool env v\<rparr>, this)
        | _ \<Rightarrow> (depthState0, Error R_ExpectedLiteralExpr this))
     else if name = ''write'' then
       (case sv_value ast of
          LiteralExpr dt v \<Rightarrow> (depthState0\<lparr>writeEnable := Variant_Bool env v\<rparr>, this)
        | _ \<Rightarrow> (depthState0, Error R_ExpectedLiteralExpr this))
     else if name = ''compare'' then
       (case sv_value ast of
          ObjectExpr v \<Rightarrow>
            (case ReflectComparisonFunc env v (depth_compareFunc depthState0, this) of
               (r, this') \<Rightarrow> (depthState0\<lparr>depth_compareFunc := r\<rparr>, this'))
        | _ \<Rightarrow> (depthState0, Error R_ExpectedStateKeyword this))
     else if name = ''bias'' then
       (case sv_value ast of
          LiteralExpr dt v \<Rightarrow> (depthState0\<lparr>depthBias := Variant_Real env v\<rparr>, this)
        | _ \<Rightarrow> (depthState0, Error R_ExpectedLiteralExpr this))
     else if name = ''scaledBias'' then
       (case sv_value ast of
          LiteralExpr dt v \<Rightarrow> (depthState0\<lparr>scaledDepthBias := Variant_Real env v\<rparr>, this)
        | _ \<Rightarrow> (depthState0, Error R_ExpectedLiteralExpr this))
     else if name = ''clip'' then
       (case sv_value ast of
          LiteralExpr dt v \<Rightarrow> (depthState0\<lparr>depthClip := Variant_Bool env v\<rparr>, this)
        | _ \<Rightarrow> (depthState0, Error R_ExpectedLiteralExpr this))
     else (depthState0, Error (R_UnknownStateKeyword ''depth'') this))"

definition ReflectStencilStateValue ::
  "Env \<Rightarrow> StateValue \<Rightarrow> StencilState \<times> ReflectionAnalyzer
     \<Rightarrow> StencilState \<times> ReflectionAnalyzer" where
  "ReflectStencilStateValue env ast = (\<lambda>(stencilState0, this).
     let name = sv_name ast in
     if name = ''enabled'' then
       (case sv_value ast of
          LiteralExpr dt v \<Rightarrow> (stencilState0\<lparr>stencil_enabled := Variant_Bool env v\<rparr>, this)
        | _ \<Rightarrow> (stencilState0, Error R_ExpectedLiteralExpr this))
     else if name = ''reference'' then
       (case sv_value ast of
          LiteralExpr dt v \<Rightarrow>
            (stencilState0\<lparr>reference := word_of_int (Variant_Int env v)\<rparr>, this)
        | _ \<Rightarrow> (stencilState0, Error R_ExpectedLiteralExpr this))
     else if name = ''readmask'' then
       (case sv_value ast of
          LiteralExpr dt v \<Rightarrow>
            (stencilState0\<lparr>readMask := word_of_int (Variant_Int env v)\<rparr>, this)
        | _ \<Rightarrow> (stencilState0, Error R_ExpectedLiteralExpr this))
     else if name = ''writemask'' then
       (case sv_value ast of
          LiteralExpr dt v \<Rightarrow>
            (stencilState0\<lparr>stencil_writeMask := word_of_int (Variant_Int env v)\<rparr>, this)
        | _ \<Rightarrow> (stencilState0, Error R_ExpectedLiteralExpr this))
     else if name = ''back'' then
       (case sv_value ast of
          StateInitializerExpr exprs \<Rightarrow>
            (case for_each (ReflectStencilOperationValue env) exprs
                    (stencil_back stencilState0, this) of
               (r, this') \<Rightarrow> (stencilState0\<lparr>stencil_back := r\<rparr>, this'))
        | _ \<Rightarrow> (stencilState0, Error R_ExpectedStateInitializerExpr this))
     else if name = ''front'' then
       (case sv_value ast of
          StateInitializerExpr exprs \<Rightarrow>
            (case for_each (ReflectStencilOperationValue env) exprs
                    (stencil_front stencilState0, this) of
               (r, this') \<Rightarrow> (stencilState0\<lparr>stencil_front := r\<rparr>, this'))
        | _ \<Rightarrow> (stencilState0, Error R_ExpectedStateInitializerExpr this))
     else (stencilState0, Error (R_UnknownStateKeyword ''stencil'') this))"

text \<open>The first loop of the \<open>target\<close> branch of \<open>ReflectBlendStateValue\<close>, which looks
  for an explicit target index; \<open>(uint32_t)\<close> keeps the low 32 bits.\<close>

definition ReflectBlendStateValue_index ::
  "Env \<Rightarrow> StateValue \<Rightarrow> 32 word \<times> ReflectionAnalyzer \<Rightarrow> 32 word \<times> ReflectionAnalyzer" where
  "ReflectBlendStateValue_index env expr = (\<lambda>(blendTargetIdx, this).
     if sv_name expr = ''index'' then
       (case sv_value expr of
          LiteralExpr dt v \<Rightarrow> (word_of_int (Variant_Int env v), this)
        | _ \<Rightarrow> (blendTargetIdx, Error R_ExpectedLiteralExpr this))
     else (blendTargetIdx, this))"

definition ReflectBlendStateValue ::
  "Env \<Rightarrow> StateValue \<Rightarrow> BlendState \<times> 32 word \<times> ReflectionAnalyzer
     \<Rightarrow> BlendState \<times> 32 word \<times> ReflectionAnalyzer" where
  "ReflectBlendStateValue env ast = (\<lambda>(blendState0, blendTargetIdx, this).
     let name = sv_name ast in
     if name = ''dither'' then
       (case sv_value ast of
          LiteralExpr dt v \<Rightarrow>
            (blendState0\<lparr>alphaToCoverage := Variant_Bool env v\<rparr>, blendTargetIdx, this)
        | _ \<Rightarrow> (blendState0, blendTargetIdx, Error R_ExpectedLiteralExpr this))
     else if name = ''independant'' then
       (case sv_value ast of
          LiteralExpr dt v \<Rightarrow>
            (blendState0\<lparr>independantBlend := Variant_Bool env v\<rparr>, blendTargetIdx, this)
        | _ \<Rightarrow> (blendState0, blendTargetIdx, Error R_ExpectedLiteralExpr this))
     else if name = ''target'' then
       (case sv_value ast of
          StateInitializerExpr exprs \<Rightarrow>
            (case for_each (ReflectBlendStateValue_index env) exprs (blendTargetIdx, this) of
               (idx, this1) \<Rightarrow>
                 if unat idx < MAX_NUM_RENDER_TARGETS then
                   (case for_each (ReflectBlendStateTargetValue env) exprs
                           (targets blendState0 ! unat idx, this1) of
                      (r, this2) \<Rightarrow>
                        (blendState0\<lparr>targets := (targets blendState0)[unat idx := r]\<rparr>,
                         idx + 1, this2))
                 else (blendState0, idx, this1))
        | _ \<Rightarrow> (blendState0, blendTargetIdx, Error R_ExpectedStateInitializerExpr this))
     else (blendState0, blendTargetIdx, Error (R_UnknownStateKeyword ''blend'') this))"

definition ReflectOptionsStateValue ::
  "Env \<Rightarrow> StateValue \<Rightarrow> GlobalOptions \<times> ReflectionAnalyzer
     \<Rightarrow> GlobalOptions \<times> ReflectionAnalyzer" where
  "ReflectOptionsStateValue env ast = (\<lambda>(options, this).
     let name = sv_name ast in
     if name = ''separable'' then
       (case sv_value ast of
          LiteralExpr dt v \<Rightarrow> (options\<lparr>separable := Variant_Bool env v\<rparr>, this)
        | _ \<Rightarrow> (options, Error R_ExpectedLiteralExpr this))
     else if name = ''priority'' then
       (case sv_value ast of
          LiteralExpr dt v \<Rightarrow> (options\<lparr>priority := word_of_int (Variant_Int env v)\<rparr>, this)
        | _ \<Rightarrow> (options, Error R_ExpectedLiteralExpr this))
     else if name = ''transparent'' then
       (case sv_value ast of
          LiteralExpr dt v \<Rightarrow> (options\<lparr>transparent := Variant_Bool env v\<rparr>, this)
        | _ \<Rightarrow> (options, Error R_ExpectedLiteralExpr this))
     else if name = ''forward'' then
       (case sv_value ast of
          LiteralExpr dt v \<Rightarrow> (options\<lparr>transparent := Variant_Bool env v\<rparr>, this)
        | _ \<Rightarrow> (options, Error R_ExpectedLiteralExpr this))
     else if name = ''sort'' then
       (case sv_value ast of
          ObjectExpr v \<Rightarrow>
            (case ReflectSortMode env v (sortMode options, this) of
               (r, this') \<Rightarrow> (options\<lparr>sortMode := r\<rparr>, this'))
        | _ \<Rightarrow> (options, Error R_ExpectedStateKeyword this))
     else (options, Error (R_UnknownStateKeyword ''options'') this))"

definition VisitStateDecl :: "Env \<Rightarrow> StateDecl \<Rightarrow> ReflectionAnalyzer \<Rightarrow> ReflectionAnalyzer" where
  "VisitStateDecl env ast this =
     (case initializer ast of
        None \<Rightarrow> this
      | Some exprs \<Rightarrow>
         (case stateType ast of
            StateType_Rasterizer \<Rightarrow>
              (case for_each (ReflectRasterizerStateValue env) exprs
                      (rasterizerState (data this), this) of
                 (r, this') \<Rightarrow> this'\<lparr>data := (data this')\<lparr>rasterizerState := r\<rparr>\<rparr>)
          | StateType_Depth \<Rightarrow>
              (case for_each (ReflectDepthStateValue env) exprs (depthState (data this), this) of
                 (r, this') \<Rightarrow> this'\<lparr>data := (data this')\<lparr>depthState := r\<rparr>\<rparr>)
          | StateType_Stencil \<Rightarrow>
              (case for_each (ReflectStencilStateValue env) exprs
                      (stencilState (data this), this) of
                 (r, this') \<Rightarrow> this'\<lparr>data := (data this')\<lparr>stencilState := r\<rparr>\<rparr>)
          | StateType_Blend \<Rightarrow>
              (case for_each (ReflectBlendStateValue env) exprs
                      (blendState (data this), 0, this) of
                 (r, blendTargetIdx, this') \<Rightarrow> this'\<lparr>data := (data this')\<lparr>blendState := r\<rparr>\<rparr>)
          | StateType_Options \<Rightarrow>
              (case for_each (ReflectOptionsStateValue env) exprs
                      (globalOptions (data this), this) of
                 (r, this') \<Rightarrow> this'\<lparr>data := (data this')\<lparr>globalOptions := r\<rparr>\<rparr>)
          | StateType_Undefined \<Rightarrow> this))"

subsection \<open>Function declarations and attributes\<close>

fun DataTypeToReflType :: "DataType \<Rightarrow> DataType" where
  "DataTypeToReflType (DataType_Scalar s) = DataType_Scalar s"
| "DataTypeToReflType (DataType_Vector s n) = DataType_Vector s n"
| "DataTypeToReflType (DataType_Matrix s m n) = DataType_Matrix s m n"
| "DataTypeToReflType t = DataType_Undefined"

fun DataTypeToVarType :: "DataType \<Rightarrow> VarType" where
  "DataTypeToVarType (DataType_Scalar s) = VarType_Scalar s"
| "DataTypeToVarType (DataType_Vector s n) = VarType_Vector s n"
| "DataTypeToVarType (DataType_Matrix s m n) = VarType_Matrix s m n"
| "DataTypeToVarType t = VarType_Undefined"

fun BufferTypeToReflType :: "BufferType \<Rightarrow> Reflection_BufferType" where
  "BufferTypeToReflType BufferType_Buffer = Reflection_BufferType_Buffer"
| "BufferTypeToReflType BufferType_StructuredBuffer = Reflection_BufferType_StructuredBuffer"
| "BufferTypeToReflType BufferType_ByteAddressBuffer = Reflection_BufferType_ByteAddressBuffer"
| "BufferTypeToReflType BufferType_RWBuffer = Reflection_BufferType_RWBuffer"
| "BufferTypeToReflType BufferType_RWStructuredBuffer = Reflection_BufferType_RWStructuredBuffer"
| "BufferTypeToReflType BufferType_RWByteAddressBuffer =
     Reflection_BufferType_RWByteAddressBuffer"
| "BufferTypeToReflType BufferType_AppendStructuredBuffer =
     Reflection_BufferType_AppendStructuredBuffer"
| "BufferTypeToReflType BufferType_ConsumeStructuredBuffer =
     Reflection_BufferType_ConsumeStructuredBuffer"
| "BufferTypeToReflType BufferType_RWTexture1D = Reflection_BufferType_RWTexture1D"
| "BufferTypeToReflType BufferType_RWTexture1DArray = Reflection_BufferType_RWTexture1DArray"
| "BufferTypeToReflType BufferType_RWTexture2D = Reflection_BufferType_RWTexture2D"
| "BufferTypeToReflType BufferType_RWTexture2DArray = Reflection_BufferType_RWTexture2DArray"
| "BufferTypeToReflType BufferType_RWTexture3D = Reflection_BufferType_RWTexture3D"
| "BufferTypeToReflType BufferType_Texture1D = Reflection_BufferType_Texture1D"
| "BufferTypeToReflType BufferType_Texture1DArray = Reflection_BufferType_Texture1DArray"
| "BufferTypeToReflType BufferType_Texture2D = Reflection_BufferType_Texture2D"
| "BufferTypeToReflType BufferType_Texture2DArray = Reflection_BufferType_Texture2DArray"
| "BufferTypeToReflType BufferType_Texture3D = Reflection_BufferType_Texture3D"
| "BufferTypeToReflType BufferType_TextureCube = Reflection_BufferType_TextureCube"
| "BufferTypeToReflType BufferType_TextureCubeArray = Reflection_BufferType_TextureCubeArray"
| "BufferTypeToReflType BufferType_Texture2DMS = Reflection_BufferType_Texture2DMS"
| "BufferTypeToReflType BufferType_Texture2DMSArray = Reflection_BufferType_Texture2DMSArray"
| "BufferTypeToReflType t = Reflection_BufferType_Undefined"

definition ReflectAttributesNumThreads ::
  "Env \<Rightarrow> Attribute \<Rightarrow> ReflectionAnalyzer \<Rightarrow> ReflectionAnalyzer" where
  "ReflectAttributesNumThreads env ast this =
     (if shaderTarget this = ComputeShader \<and> length (attr_arguments ast) = 3
      then this\<lparr>data := (data this)\<lparr>numThreads := (numThreads (data this))
             \<lparr>nt_x := EvaluateConstExprInt env (attr_arguments ast ! 0),
              nt_y := EvaluateConstExprInt env (attr_arguments ast ! 1),
              nt_z := EvaluateConstExprInt env (attr_arguments ast ! 2)\<rparr>\<rparr>\<rparr>
      else this)"

definition ReflectAttributes ::
  "Env \<Rightarrow> Attribute list \<Rightarrow> ReflectionAnalyzer \<Rightarrow> ReflectionAnalyzer" where
  "ReflectAttributes env attribs0 this =
     for_each
       (\<lambda>attr this'. case attributeType attr of
                        AttributeType_NumThreads \<Rightarrow> ReflectAttributesNumThreads env attr this'
                      | AttributeType_Other k \<Rightarrow> this')
       attribs0 this"

text \<open>The body of the loop over \<open>ast->parameters\<close> in \<open>VisitFunctionDecl\<close>.\<close>

definition VisitFunctionDecl_parameter :: "VarDeclStmnt \<Rightarrow> Parameter list \<Rightarrow> Parameter list" where
  "VisitFunctionDecl_parameter entry params =
     (case varDecls entry of
        [] \<Rightarrow> params
      | varDecl # rest \<Rightarrow>
          (case (case typeSpecifier entry of
                   Some ts \<Rightarrow> (case typeDenoter ts of Some td \<Rightarrow> Some (ts, td) | None \<Rightarrow> None)
                 | None \<Rightarrow> None) of
             Some (ts, td) \<Rightarrow>
               params @
                 [\<lparr> p_type = (case td of
                                BaseTypeDenoter dt m r \<Rightarrow> DataTypeToVarType dt
                              | _ \<Rightarrow> VarType_Undefined),
                    p_ident = vd_ident varDecl,
                    p_flags = Some ((if IsInput ts then Parameter_Flags_In else 0)
                                    OR (if IsOutput ts then Parameter_Flags_Out else 0)) \<rparr>]
           | None \<Rightarrow>
               params @
                 [\<lparr> p_type = VarType_Undefined, p_ident = vd_ident varDecl,
                    p_flags = None \<rparr>]))"

text \<open>\<open>VisitFunctionDecl\<close> up to its last statement, the call of the default
  \<open>Visitor::VisitFunctionDecl\<close>, which \<open>Visit\<close> below carries out.\<close>

definition VisitFunctionDecl ::
  "Env \<Rightarrow> FunctionDecl \<Rightarrow> ReflectionAnalyzer \<Rightarrow> ReflectionAnalyzer" where
  "VisitFunctionDecl env ast this =
     (let this1 = (if isEntryPoint ast then ReflectAttributes env (attribs ast) this else this);
          function =
            \<lparr> f_ident = fd_ident ast,
              returnValue =
                (case returnType ast of
                   Some (BaseTypeDenoter dt m r) \<Rightarrow> DataTypeToVarType dt
                 | Some _ \<Rightarrow> VarType_Undefined
                 | None \<Rightarrow> VarType_Void),
              parameters = for_each VisitFunctionDecl_parameter (fd_parameters ast) [] \<rparr>
      in this1\<lparr>data := (data this1)
           \<lparr>data_functions := data_functions (data this1) @ [function]\<rparr>\<rparr>)"

subsection \<open>Uniform buffers and buffer declarations\<close>

text \<open>
  The body of the loop over \<open>stmt->varDecls\<close> in \<open>VisitUniformBufferDecl\<close>.
  \<open>type\<close>, \<open>baseType\<close> and \<open>blockIdx\<close> are the locals of the enclosing loop;
  \<open>baseTypeDenoter\<close> is \<open>None\<close> for the null pointer and otherwise holds the
  \<open>extModifiers\<close> and \<open>spriteUVRef\<close> of the base type denoter.
  \<open>(int)data_->defaultValues.size()\<close> is the length of the sequence (sequences of
  \<open>2^31\<close> entries or more are outside the model).
\<close>

definition VisitUniformBufferDecl_decl ::
  "UniformType \<Rightarrow> DataType \<Rightarrow> (ExtModifier set \<times> string) option \<Rightarrow> int \<Rightarrow> VarDecl
     \<Rightarrow> ReflectionAnalyzer \<Rightarrow> ReflectionAnalyzer" where
  "VisitUniformBufferDecl_decl type0 baseType0 baseTypeDenoter blockIdx decl this =
     (let uniform = Uniform_default
            \<lparr>u_ident := vd_ident decl, u_type := type0,
             baseType := Reflection_DataType_value (DataTypeToReflType baseType0),
             uniformBlock := blockIdx, u_flags := 0\<rparr>
      in case baseTypeDenoter of
           None \<Rightarrow> this\<lparr>data := (data this)\<lparr>uniforms := uniforms (data this) @ [uniform]\<rparr>\<rparr>
         | Some (extModifiers, spriteUVRef0) \<Rightarrow>
             let uniform = (if ExtModifiers_Internal \<in> extModifiers
                            then uniform\<lparr>u_flags := u_flags uniform OR Uniform_Flags_Internal\<rparr>
                            else uniform);
                 uniform = (if ExtModifiers_Color \<in> extModifiers
                            then uniform\<lparr>u_flags := u_flags uniform OR Uniform_Flags_Color\<rparr>
                            else uniform);
                 uniform = uniform\<lparr>spriteUVRef := spriteUVRef0\<rparr>
             in if available (vd_defaultValue decl)
                then this\<lparr>data := (data this)
                       \<lparr>defaultValues := defaultValues (data this)
                           @ [DefaultValue_matrix (dv_matrix (vd_defaultValue decl))],
                        uniforms := uniforms (data this)
                           @ [uniform\<lparr>defaultValue := int (length (defaultValues (data this)))\<rparr>]\<rparr>\<rparr>
                else this\<lparr>data := (data this)\<lparr>uniforms := uniforms (data this) @ [uniform]\<rparr>\<rparr>)"

text \<open>The body of the loop over \<open>ast->varMembers\<close>.\<close>

definition VisitUniformBufferDecl_stmt ::
  "MemberVarDeclStmnt \<Rightarrow> ReflectionAnalyzer \<Rightarrow> ReflectionAnalyzer" where
  "VisitUniformBufferDecl_stmt stmt this =
     (let (type0, baseType0, baseTypeDenoter) =
            (case member_typeDenoter stmt of
               StructTypeDenoter n \<Rightarrow> (UniformType_Struct, DataType_Undefined, None)
             | BaseTypeDenoter dt m r \<Rightarrow> (UniformType_Variable, dt, Some (m, r))
             | _ \<Rightarrow> (UniformType_Variable, DataType_Undefined, None));
          blockIdx = int (length (constantBuffers (data this))) - 1
      in for_each (VisitUniformBufferDecl_decl type0 baseType0 baseTypeDenoter blockIdx)
           (member_varDecls stmt) this)"

definition VisitUniformBufferDecl ::
  "Env \<Rightarrow> UniformBufferDecl \<Rightarrow> ReflectionAnalyzer \<Rightarrow> ReflectionAnalyzer" where
  "VisitUniformBufferDecl env ast this =
     (let this1 = this\<lparr>data := (data this)
            \<lparr>constantBuffers := constantBuffers (data this)
               @ [\<lparr> slot_ident = ub_ident ast,
                    location = GetBindingPoint env (ub_slotRegisters ast) this \<rparr>]\<rparr>\<rparr>;
          uniform = Uniform_default
            \<lparr>u_ident := ub_ident ast, u_type := UniformType_UniformBuffer, baseType := 0\<rparr>;
          uniform = (if ExtModifiers_Internal \<in> ub_extModifiers ast
                     then uniform\<lparr>u_flags := Uniform_Flags_Internal\<rparr>
                     else uniform);
          this2 = this1\<lparr>data := (data this1)\<lparr>uniforms := uniforms (data this1) @ [uniform]\<rparr>\<rparr>
      in for_each VisitUniformBufferDecl_stmt (varMembers ast) this2)"

text \<open>The body of the loop over \<open>ast->bufferDecls\<close> in \<open>VisitBufferDeclStmnt\<close>.\<close>

definition VisitBufferDeclStmnt_decl ::
  "Env \<Rightarrow> BufferDeclStmnt \<Rightarrow> BufferDecl \<Rightarrow> ReflectionAnalyzer \<Rightarrow> ReflectionAnalyzer" where
  "VisitBufferDeclStmnt_decl env ast bufferDecl this =
     (let bindingSlot = \<lparr> slot_ident = bd_ident bufferDecl,
                          location = GetBindingPoint env (bd_slotRegisters bufferDecl) this \<rparr>;
          this1 = (if \<not> IsStorageBufferType env (bufferType ast)
                   then this\<lparr>data := (data this)
                          \<lparr>textures := textures (data this) @ [bindingSlot]\<rparr>\<rparr>
                   else this\<lparr>data := (data this)
                          \<lparr>storageBuffers := storageBuffers (data this) @ [bindingSlot]\<rparr>\<rparr>);
          uniform = Uniform_default
            \<lparr>u_ident := bd_ident bufferDecl, u_type := UniformType_Buffer,
             baseType := Reflection_BufferType_value (BufferTypeToReflType (bufferType ast))\<rparr>;
          uniform = (if ExtModifiers_Internal \<in> bds_extModifiers ast
                     then uniform\<lparr>u_flags := u_flags uniform OR Uniform_Flags_Internal\<rparr>
                     else uniform);
          uniform = (if ExtModifiers_Color \<in> bds_extModifiers ast
                     then uniform\<lparr>u_flags := u_flags uniform OR Uniform_Flags_Color\<rparr>
                     else uniform)
      in if available (bd_defaultValue bufferDecl)
         then this1\<lparr>data := (data this1)
                \<lparr>defaultValues := defaultValues (data this1)
                    @ [DefaultValue_handle (dv_handle (bd_defaultValue bufferDecl))],
                 uniforms := uniforms (data this1)
                    @ [uniform\<lparr>defaultValue := int (length (defaultValues (data this1)))\<rparr>]\<rparr>\<rparr>
         else this1\<lparr>data := (data this1)\<lparr>uniforms := uniforms (data this1) @ [uniform]\<rparr>\<rparr>)"

definition VisitBufferDeclStmnt ::
  "Env \<Rightarrow> BufferDeclStmnt \<Rightarrow> ReflectionAnalyzer \<Rightarrow> ReflectionAnalyzer" where
  "VisitBufferDeclStmnt env ast this =
     for_each (VisitBufferDeclStmnt_decl env ast) (bufferDecls ast) this"

subsection \<open>The traversal\<close>

text \<open>
  Modelled from the spec: the dispatch of \<open>Visit\<close> and the default descent
  (Visitor.cpp is missing). A node the analyzer overrides goes to its override; the
  declarations of a sampler declaration statement are visited in order; any other node
  has its children visited in order. \<open>Visit_list\<close> is \<open>Visit\<close> on a vector of
  statements.
\<close>

fun Visit :: "Env \<Rightarrow> Stmnt \<Rightarrow> ReflectionAnalyzer \<Rightarrow> ReflectionAnalyzer"
  and Visit_list :: "Env \<Rightarrow> Stmnt list \<Rightarrow> ReflectionAnalyzer \<Rightarrow> ReflectionAnalyzer" where
  "Visit env (SamplerDeclStmnt decls) this = for_each (VisitSamplerDecl env) decls this"
| "Visit env (StateDeclStmnt ast) this = VisitStateDecl env ast this"
| "Visit env (FunctionDeclStmnt ast children) this =
     Visit_list env children (VisitFunctionDecl env ast this)"
| "Visit env (UniformBufferDeclStmnt ast) this = VisitUniformBufferDecl env ast this"
| "Visit env (BufferDeclStmntNode ast) this = VisitBufferDeclStmnt env ast this"
| "Visit env (OtherStmnt children) this = Visit_list env children this"
| "Visit_list env [] this = this"
| "Visit_list env (stmnt # stmnts) this = Visit_list env stmnts (Visit env stmnt this)"

definition push_back_attributes ::
  "(SemanticVar \<Rightarrow> string) \<Rightarrow> SemanticVar list \<Rightarrow> BindingSlot list \<Rightarrow> BindingSlot list" where
  "push_back_attributes name varDeclRefs attrs =
     for_each
       (\<lambda>varDecl a. a @ [\<lparr> slot_ident = name varDecl, location = sem_Index varDecl \<rparr>])
       varDeclRefs attrs"

definition VisitProgram :: "Env \<Rightarrow> Program \<Rightarrow> ReflectionAnalyzer \<Rightarrow> ReflectionAnalyzer" where
  "VisitProgram env ast this =
     (let this1 = Visit_list env (globalStmnts ast) this;
          this2 = Visit_list env (disabledAST ast) this1
      in case entryPointRef ast of
           None \<Rightarrow> this2
         | Some entryPoint \<Rightarrow>
             let inp = push_back_attributes sem_ident
                         (inputSemantics_varDeclRefs entryPoint) (inputAttributes (data this2));
                 inp = push_back_attributes sem_ToString
                         (inputSemantics_varDeclRefsSV entryPoint) inp;
                 outp = push_back_attributes sem_ident
                          (outputSemantics_varDeclRefs entryPoint) (outputAttributes (data this2));
                 outp = push_back_attributes sem_ToString
                          (outputSemantics_varDeclRefsSV entryPoint) outp;
                 outp = (if ep_IsSystemValue entryPoint
                         then outp @ [\<lparr> slot_ident = ep_ToString entryPoint,
                                        location = ep_Index entryPoint \<rparr>]
                         else outp)
             in this2\<lparr>data := (data this2)\<lparr>inputAttributes := inp, outputAttributes := outp\<rparr>\<rparr>)"

text \<open>
  \<open>Reflect\<close> copies its parameters into the members and visits the program. The result
  is the object after the visit: its \<open>data\<close> is the reflection record the caller
  passed by reference, its \<open>reportHandler\<close> the reports submitted. \<open>reports\<close> are the
  reports the handler held before the call.
\<close>

definition Reflect ::
  "Env \<Rightarrow> Report list \<Rightarrow> Program \<Rightarrow> ShaderTarget \<Rightarrow> ReflectionData \<Rightarrow> bool
     \<Rightarrow> ReflectionAnalyzer" where
  "Reflect env reports program shaderTarget0 reflectionData enableWarnings0 =
     VisitProgram env program
       \<lparr> reportHandler = reports, shaderTarget = shaderTarget0, data = reflectionData,
         enableWarnings = enableWarnings0 \<rparr>"

section \<open>GLSLConverter (GLSLConverter.cpp)\<close>

subsection \<open>The saturate intrinsic\<close>

text \<open>
  Modelled from the spec: \<open>TypeDenoter::GetSub()\<close> without an argument and
  \<open>TypeDenoter::IsBase\<close> (TypeDenoter.cpp is missing): \<open>GetSub\<close> walks through alias
  nodes to the representative denoter, \<open>IsBase\<close> holds of base type denoters.
\<close>

fun GetSub :: "TypeDenoter \<Rightarrow> TypeDenoter" where
  "GetSub (AliasTypeDenoter n t) = GetSub t"
| "GetSub t = t"

fun IsBase :: "TypeDenoter \<Rightarrow> bool" where
  "IsBase (BaseTypeDenoter dt m r) = True"
| "IsBase t = False"

text \<open>
  Modelled from the spec: \<open>ASTFactory::MakeLiteralCastExpr\<close> (ASTFactory.cpp is
  missing): a cast to the given type denoter of a literal of the given data type and
  text.
\<close>

definition MakeLiteralCastExpr :: "TypeDenoter \<Rightarrow> DataType \<Rightarrow> string \<Rightarrow> Expr" where
  "MakeLiteralCastExpr typeDen literalType literalValue =
     CastExpr typeDen (LiteralExpr literalType literalValue)"

text \<open>\<open>RuntimeErr(msg, ast)\<close> throws; the exception unwinds out of the converter.\<close>

datatype ASTRuntimeError = ASTRuntimeError Msg

text \<open>
  \<open>GetTypeDenoter\<close> is the type denoter the front end attached to an expression
  (\<open>Expr::GetTypeDenoter\<close>, AST.cpp is missing); it is a parameter.
\<close>

definition ConvertIntrinsicCallSaturate ::
  "(Expr \<Rightarrow> TypeDenoter) \<Rightarrow> CallExprNode \<Rightarrow> ASTRuntimeError + CallExprNode" where
  "ConvertIntrinsicCallSaturate GetTypeDenoter ast =
     (if length (arguments ast) = 1 then
        (let argTypeDen = GetSub (GetTypeDenoter (hd (arguments ast)))
         in if IsBase argTypeDen then
              Inr (CallExprNode Clamp (call_typeDenoter ast)
                     (arguments ast
                        @ [MakeLiteralCastExpr argTypeDen (DataType_Scalar S_Int) ''0'']
                        @ [MakeLiteralCastExpr argTypeDen (DataType_Scalar S_Int) ''1'']))
            else Inl (ASTRuntimeError (R_InvalidIntrinsicArgType ''saturate'')))
      else Inl (ASTRuntimeError (R_InvalidIntrinsicArgCount ''saturate'')))"

subsection \<open>Renaming of declaration identifiers\<close>

text \<open>
  The name-mangling prefixes the converter reads (\<open>nameMangling_\<close>), and the one
  option it reads (\<open>options_.obfuscate\<close>).
\<close>

record NameMangling =
  inputPrefix :: string
  outputPrefix :: string
  reservedWordPrefix :: string
  temporaryPrefix :: string
  namespacePrefix :: string
  useAlwaysSemantics :: bool

text \<open>
  A declaration object, as \<open>MustRenameDeclIdent\<close> and \<open>RegisterDeclIdent\<close> read it:
  its identifier, whether it is a \<open>VarDecl\<close> (\<open>obj->As<VarDecl>()\<close>), and the flag
  \<open>VarDecl::isShaderInput\<close>.
\<close>

record Decl =
  decl_ident :: string
  decl_IsVarDecl :: bool
  isShaderInput :: bool

text \<open>
  The members of the converter that the renaming reads and writes. Declarations are
  objects the converter holds pointers to: \<open>heap\<close> maps the address of a declaration
  to the object, \<open>globalReservedDecls\<close> is a sequence of addresses.
  The symbol table (SymbolTable.h is missing) is a parameter: a type \<open>'st\<close> with the
  two operations \<open>FetchFromCurrentScope\<close> and \<open>Register\<close> that the converter calls
  (\<open>symTable_.FetchFromCurrentScope(ident)\<close> and \<open>symTable_.Register(ident, true)\<close>),
  passed to the functions below. \<open>InsideStructDecl()\<close> holds when the stack of struct
  declarations is not empty.
\<close>

record 'st GLSLConverter =
  symTable :: 'st
  heap :: "nat \<Rightarrow> Decl"
  globalReservedDecls :: "nat list"
  structDeclStack :: "nat list"
  obfuscationCounter :: nat
  obfuscate :: bool
  nameMangling :: NameMangling

text \<open>
  Modelled from the spec: \<open>Identifier::AppendPrefix\<close> and \<open>Identifier::Final\<close>
  (Identifier.cpp is missing): an identifier is its final text, and appending a prefix
  puts the prefix in front of it.
\<close>

definition AppendPrefix :: "string \<Rightarrow> string \<Rightarrow> string" where
  "AppendPrefix prefix0 ident = prefix0 @ ident"

definition InsideStructDecl :: "'st GLSLConverter \<Rightarrow> bool" where
  "InsideStructDecl this = (structDeclStack this \<noteq> [])"

text \<open>\<open>std::find_if\<close> over \<open>globalReservedDecls_\<close>: the first address whose
  declaration has the identifier.\<close>

definition find_reserved :: "'st GLSLConverter \<Rightarrow> string \<Rightarrow> nat option" where
  "find_reserved this ident =
     find (\<lambda>compareObj. decl_ident (heap this compareObj) = ident) (globalReservedDecls this)"

definition MustRenameDeclIdent ::
  "('st \<Rightarrow> string \<Rightarrow> bool) \<Rightarrow> nat \<Rightarrow> 'st GLSLConverter \<Rightarrow> bool" where
  "MustRenameDeclIdent FetchFromCurrentScope obj this =
     (let d = heap this obj in
      if decl_IsVarDecl d \<and> (InsideStructDecl this \<or> isShaderInput d) then False
      else case (if decl_IsVarDecl d then find_reserved this (decl_ident d) else None) of
             Some it \<Rightarrow> it \<noteq> obj
           | None \<Rightarrow> FetchFromCurrentScope (symTable this) (decl_ident d))"

definition RenameDeclIdent :: "nat \<Rightarrow> 'st GLSLConverter \<Rightarrow> 'st GLSLConverter" where
  "RenameDeclIdent obj this =
     this\<lparr>heap := (heap this)
       (obj := (heap this obj)
          \<lparr>decl_ident :=
             AppendPrefix (temporaryPrefix (nameMangling this)) (decl_ident (heap this obj))\<rparr>)\<rparr>"

text \<open>\<open>std::to_string\<close> of an integer: its decimal digits, after a minus sign when it
  is negative.\<close>

definition digit_char :: "nat \<Rightarrow> char" where
  "digit_char d = ''0123456789'' ! d"

function to_string_nat :: "nat \<Rightarrow> string" where
  "to_string_nat n =
     (if n < 10 then [digit_char n] else to_string_nat (n div 10) @ [digit_char (n mod 10)])"
  by pat_completeness auto
termination
  by (relation "measure (\<lambda>n. n)") auto

declare to_string_nat.simps [simp del]

definition to_string :: "int \<Rightarrow> string" where
  "to_string i = (if i < 0 then CHR ''-'' # to_string_nat (nat (- i)) else to_string_nat (nat i))"

text \<open>
  \<open>ReservedGLSLKeywords()\<close> (GLSLKeywords.cpp is missing) is a parameter, the set
  \<open>reservedKeywords\<close>. The function returns its \<open>bool\<close>, the identifier it was given
  by reference, and the converter.
\<close>

definition RenameReservedKeyword ::
  "string set \<Rightarrow> string \<times> 'st GLSLConverter \<Rightarrow> bool \<times> string \<times> 'st GLSLConverter" where
  "RenameReservedKeyword reservedKeywords = (\<lambda>(ident, this).
     if obfuscate this then
       (True, ''_'' @ to_string_nat (obfuscationCounter this),
        this\<lparr>obfuscationCounter := obfuscationCounter this + 1\<rparr>)
     else if ident \<in> reservedKeywords then
       (True, AppendPrefix (reservedWordPrefix (nameMangling this)) ident, this)
     else if take 3 ident = ''gl_'' then
       (True, AppendPrefix (reservedWordPrefix (nameMangling this)) ident, this)
     else (False, ident, this))"

definition RegisterDeclIdent ::
  "('st \<Rightarrow> string \<Rightarrow> bool) \<Rightarrow> (string \<Rightarrow> 'st \<Rightarrow> 'st) \<Rightarrow> string set
     \<Rightarrow> nat \<Rightarrow> bool \<Rightarrow> 'st GLSLConverter \<Rightarrow> 'st GLSLConverter" where
  "RegisterDeclIdent FetchFromCurrentScope Register reservedKeywords obj global this =
     (let this1 = (if MustRenameDeclIdent FetchFromCurrentScope obj this
                   then RenameDeclIdent obj this else this)
      in case RenameReservedKeyword reservedKeywords (decl_ident (heap this1 obj), this1) of
           (renamed, ident, this2) \<Rightarrow>
             let this3 = this2\<lparr>heap := (heap this2)
                           (obj := (heap this2 obj)\<lparr>decl_ident := ident\<rparr>)\<rparr>
             in if global
                then this3\<lparr>globalReservedDecls := globalReservedDecls this3 @ [obj]\<rparr>
                else this3\<lparr>symTable := Register ident (symTable this3)\<rparr>)"

section \<open>ReflectionPrinter (ReflectionPrinter.cpp)\<close>

text \<open>
  The printer appends to an output stream, the text written so far. \<open>std::endl\<close>
  writes a line feed. \<open>IndentHandler\<close> is missing: the text of
  \<open>indentHandler_.FullIndent()\<close> when the function is entered (\<open>indent0\<close>) and inside
  the \<open>ScopedIndent\<close> (\<open>indent1\<close>) are parameters.
\<close>

definition endl :: string where
  "endl = [CHR 0x0A]"

text \<open>\<open>std::size_t\<close> subtraction wraps around at \<open>2^64\<close>.\<close>

definition size_t_minus :: "nat \<Rightarrow> nat \<Rightarrow> nat" where
  "size_t_minus a b = (if b \<le> a then a - b else 2 ^ 64 + a - b)"

definition maxLocation_of :: "BindingSlot list \<Rightarrow> int" where
  "maxLocation_of objects = for_each (\<lambda>obj m. max m (location obj)) objects (- 1)"

text \<open>The body of the loop that prints the binding points.\<close>

definition PrintReflectionObjects_line :: "string \<Rightarrow> int \<Rightarrow> BindingSlot \<Rightarrow> string \<Rightarrow> string" where
  "PrintReflectionObjects_line indent1 maxLocation obj output =
     (let maxLocationLen = length (to_string maxLocation);
          output = output @ indent1;
          output =
            (if maxLocation \<ge> 0 then
               (if location obj \<ge> 0
                then output
                       @ replicate (size_t_minus maxLocationLen
                                      (length (to_string (location obj)))) CHR '' ''
                       @ to_string (location obj) @ '': ''
                else output @ replicate maxLocationLen CHR '' '' @ ''  '')
             else output)
      in output @ slot_ident obj @ endl)"

definition PrintReflectionObjects ::
  "string \<Rightarrow> string \<Rightarrow> BindingSlot list \<Rightarrow> string \<Rightarrow> string \<Rightarrow> string" where
  "PrintReflectionObjects indent0 indent1 objects title output =
     (let output = output @ indent0 @ title @ '':'' @ endl
      in if objects \<noteq> []
         then for_each (PrintReflectionObjects_line indent1 (maxLocation_of objects))
                objects output
         else output @ indent1 @ ''< none >'' @ endl)"

section \<open>Notions used to state the properties\<close>

text \<open>The index invariant of the reflection record: \<open>uniformBlock\<close> of every uniform is
  \<open>-1\<close> or an index into \<open>constantBuffers\<close>, \<open>defaultValue\<close> is \<open>-1\<close> or an index
  into \<open>defaultValues\<close>.\<close>

definition uniform_indices_valid :: "ReflectionData \<Rightarrow> bool" where
  "uniform_indices_valid d =
     (\<forall>u \<in> set (uniforms d).
        (uniformBlock u = -1
           \<or> (0 \<le> uniformBlock u \<and> uniformBlock u < int (length (constantBuffers d))))
        \<and> (defaultValue u = -1
           \<or> (0 \<le> defaultValue u \<and> defaultValue u < int (length (defaultValues d)))))"

text \<open>The sampler declarations of a tree, in the order in which \<open>Visit\<close> meets them.\<close>

fun SamplerDecls_of :: "Stmnt \<Rightarrow> SamplerDecl list"
  and SamplerDecls_of_list :: "Stmnt list \<Rightarrow> SamplerDecl list" where
  "SamplerDecls_of (SamplerDeclStmnt decls) = decls"
| "SamplerDecls_of (StateDeclStmnt ast) = []"
| "SamplerDecls_of (FunctionDeclStmnt ast children) = SamplerDecls_of_list children"
| "SamplerDecls_of (UniformBufferDeclStmnt ast) = []"
| "SamplerDecls_of (BufferDeclStmntNode ast) = []"
| "SamplerDecls_of (OtherStmnt children) = SamplerDecls_of_list children"
| "SamplerDecls_of_list [] = []"
| "SamplerDecls_of_list (stmnt # stmnts) = SamplerDecls_of stmnt @ SamplerDecls_of_list stmnts"

text \<open>The uniform that \<open>VisitSamplerDecl\<close> appends for a declaration.\<close>

definition sampler_uniform :: "SamplerDecl \<Rightarrow> Uniform" where
  "sampler_uniform ast =
     \<lparr> u_ident = sd_ident ast, u_type = UniformType_Sampler, baseType = 0, uniformBlock = -1,
       defaultValue = -1, u_flags = 0, spriteUVRef = [] \<rparr>"

text \<open>An analyzer about to start: no reports, an empty reflection record.\<close>

definition analyzer0 :: "ShaderTarget \<Rightarrow> bool \<Rightarrow> ReflectionAnalyzer" where
  "analyzer0 target warnings =
     \<lparr> reportHandler = [], shaderTarget = target, data = ReflectionData_default,
       enableWarnings = warnings \<rparr>"

text \<open>What a run of the analyzer from the record \<open>d\<close> to the record \<open>d'\<close> has done
  with the sampler declarations \<open>ds\<close> it met: each identifier holds the state of the
  last declaration that names it, and one sampler uniform per declaration was appended.
  \<open>t0\<close> is any analyzer (the state a declaration decodes to does not depend on it).\<close>

definition samplers_recorded ::
  "Env \<Rightarrow> ReflectionAnalyzer \<Rightarrow> SamplerDecl list \<Rightarrow> ReflectionData \<Rightarrow> ReflectionData \<Rightarrow> bool"
  where
  "samplers_recorded env t0 ds d d' =
     ((\<forall>i. samplerStates d' i =
            (if filter (\<lambda>x. sd_ident x = i) ds = [] then samplerStates d i
             else Some (fst (VisitSamplerDecl_samplerState env
                               (last (filter (\<lambda>x. sd_ident x = i) ds)) t0))))
      \<and> filter (\<lambda>u. u_type u = UniformType_Sampler) (uniforms d')
          = filter (\<lambda>u. u_type u = UniformType_Sampler) (uniforms d) @ map sampler_uniform ds)"

text \<open>The thread counts a \<open>numthreads\<close> attribute with three arguments records.\<close>

definition numThreads_of :: "Env \<Rightarrow> Attribute \<Rightarrow> NumThreads" where
  "numThreads_of env a =
     \<lparr> nt_x = EvaluateConstExprInt env (attr_arguments a ! 0),
       nt_y = EvaluateConstExprInt env (attr_arguments a ! 1),
       nt_z = EvaluateConstExprInt env (attr_arguments a ! 2) \<rparr>"

text \<open>The explicit target index of a \<open>target\<close> state initializer: the integer that the
  literal of its last key \<open>index\<close> denotes (\<open>variant.Int()\<close>, before any cast), if there
  is such a key.\<close>

fun is_literal_index :: "StateValue \<Rightarrow> bool" where
  "is_literal_index (StateValue n (LiteralExpr dt v)) = (n = ''index'')"
| "is_literal_index (StateValue n e) = False"

fun literal_text :: "StateValue \<Rightarrow> string" where
  "literal_text (StateValue n (LiteralExpr dt v)) = v"
| "literal_text (StateValue n e) = []"

definition explicit_index :: "Env \<Rightarrow> StateValue list \<Rightarrow> int option" where
  "explicit_index env exprs =
     (case filter is_literal_index exprs of
        [] \<Rightarrow> None
      | k # ks \<Rightarrow> Some (Variant_Int env (literal_text (last (k # ks)))))"

text \<open>A name the target reserves: a reserved keyword, or a name that begins with
  \<open>gl_\<close>.\<close>

definition reserved_name :: "string set \<Rightarrow> string \<Rightarrow> bool" where
  "reserved_name reservedKeywords ident =
     (ident \<in> reservedKeywords \<or> take 3 ident = ''gl_'')"

text \<open>
  The identifier the name mangling gives a declaration (spec, section 4.4.4): under
  obfuscation an underscore and the counter; otherwise the declared identifier, with the
  temporary prefix in front of it when it must be renamed for a collision, and with the
  reserved-word prefix in front of that when it is a reserved name.
\<close>

definition mangled_ident ::
  "string set \<Rightarrow> ('st \<Rightarrow> string \<Rightarrow> bool) \<Rightarrow> nat \<Rightarrow> 'st GLSLConverter \<Rightarrow> string" where
  "mangled_ident reservedKeywords FetchFromCurrentScope obj this =
     (if obfuscate this then ''_'' @ to_string_nat (obfuscationCounter this)
      else let ident1 = (if MustRenameDeclIdent FetchFromCurrentScope obj this
                         then temporaryPrefix (nameMangling this) @ decl_ident (heap this obj)
                         else decl_ident (heap this obj))
           in if reserved_name reservedKeywords ident1
              then reservedWordPrefix (nameMangling this) @ ident1 else ident1)"

text \<open>The converter gives the declaration another identifier than the declared one.\<close>

definition renamed ::
  "string set \<Rightarrow> ('st \<Rightarrow> string \<Rightarrow> bool) \<Rightarrow> nat \<Rightarrow> 'st GLSLConverter \<Rightarrow> bool" where
  "renamed reservedKeywords FetchFromCurrentScope obj this =
     (obfuscate this \<or> MustRenameDeclIdent FetchFromCurrentScope obj this
      \<or> reserved_name reservedKeywords (decl_ident (heap this obj)))"

text \<open>
  \<open>MustRenameDeclIdent\<close> reaches its lookup in the current scope: the declaration is not
  a variable inside a structure declaration or a shader input, and no globally reserved
  declaration has its identifier.
\<close>

definition looked_up :: "nat \<Rightarrow> 'st GLSLConverter \<Rightarrow> bool" where
  "looked_up obj this =
     (\<not> (decl_IsVarDecl (heap this obj)
          \<and> (InsideStructDecl this \<or> isShaderInput (heap this obj)))
      \<and> (decl_IsVarDecl (heap this obj)
           \<longrightarrow> find_reserved this (decl_ident (heap this obj)) = None))"

text \<open>
  The calls of \<open>RegisterDeclIdent\<close> that the converter makes while one scope is the
  current one, in order: each with the address of the declaration and the argument
  \<open>global\<close>.
\<close>

definition registrations ::
  "('st \<Rightarrow> string \<Rightarrow> bool) \<Rightarrow> (string \<Rightarrow> 'st \<Rightarrow> 'st) \<Rightarrow> string set
     \<Rightarrow> (nat \<times> bool) list \<Rightarrow> 'st GLSLConverter \<Rightarrow> 'st GLSLConverter" where
  "registrations FetchFromCurrentScope Register reservedKeywords ds this =
     for_each (\<lambda>d. RegisterDeclIdent FetchFromCurrentScope Register reservedKeywords
                     (fst d) (snd d)) ds this"

text \<open>
  Along such a sequence, every declaration registered in the scope is one that
  \<open>MustRenameDeclIdent\<close> looks up there, and whenever the converter gives it another
  identifier, that identifier is not yet bound in the scope.
\<close>

fun fresh_renames ::
  "('st \<Rightarrow> string \<Rightarrow> bool) \<Rightarrow> (string \<Rightarrow> 'st \<Rightarrow> 'st) \<Rightarrow> string set
     \<Rightarrow> (nat \<times> bool) list \<Rightarrow> 'st GLSLConverter \<Rightarrow> bool" where
  "fresh_renames F R kw [] this = True"
| "fresh_renames F R kw (d # ds) this =
     ((snd d \<or> (looked_up (fst d) this
                \<and> (renamed kw F (fst d) this
                     \<longrightarrow> \<not> F (symTable this) (mangled_ident kw F (fst d) this))))
      \<and> fresh_renames F R kw ds (RegisterDeclIdent F R kw (fst d) (snd d) this))"

subsection \<open>Inputs of the examples\<close>

definition parse_nat :: "string \<Rightarrow> nat" where
  "parse_nat s = fold (\<lambda>c n. 10 * n + (of_char c - 48)) s 0"

text \<open>An instance of the collaborators: the enum parsers know one enumerator each,
  a literal is a boolean when it reads \<open>true\<close> and a number when it is made of digits,
  the evaluator reduces integer literals only, registers apply to every target, and
  the buffers named \<open>Buffer\<close> to \<open>ConsumeStructuredBuffer\<close> are storage buffers.\<close>

definition example_env :: Env where
  "example_env =
     \<lparr> StringToFilter = (\<lambda>s. if s = ''Linear'' then Inr Filter_Linear else Inl s),
       StringToTexAddressMode =
         (\<lambda>s. if s = ''Clamp'' then Inr TextureAddressMode_Clamp else Inl s),
       StringToCompareFunc = (\<lambda>s. if s = ''Less'' then Inr ComparisonFunc_Less else Inl s),
       StringToBlendFactor =
         (\<lambda>s. if s = ''SourceA'' then Inr BlendFactor_SourceA else Inl s),
       StringToBlendOpType =
         (\<lambda>s. if s = ''Subtract'' then Inr BlendOpType_Subtract else Inl s),
       StringToCullMode = (\<lambda>s. if s = ''None'' then Inr CullMode_None else Inl s),
       StringToFillMode = (\<lambda>s. if s = ''Wire'' then Inr FillMode_Wire else Inl s),
       StringToStencilOpType =
         (\<lambda>s. if s = ''Zero'' then Inr StencilOpType_Zero else Inl s),
       StringToSortMode = (\<lambda>s. if s = ''None'' then Inr SortMode_None else Inl s),
       Variant_Bool = (\<lambda>s. s = ''true''),
       Variant_Int = (\<lambda>s. int (parse_nat s)),
       Variant_Real = (\<lambda>s. FLT_ZERO),
       FromStringOrDefault_float = (\<lambda>s. FLT_ZERO),
       FromStringOrDefault_ulong = parse_nat,
       Evaluate_ToInt =
         (\<lambda>e. case e of
                 LiteralExpr (DataType_Scalar S_Int) v \<Rightarrow> Some (int (parse_nat v))
               | _ \<Rightarrow> None),
       Evaluate_ToReal = (\<lambda>e. None),
       GetForTarget = (\<lambda>rs t. case rs of [] \<Rightarrow> None | r # _ \<Rightarrow> Some r),
       IsStorageBufferType =
         (\<lambda>t. t \<in> {BufferType_Buffer, BufferType_StructuredBuffer, BufferType_ByteAddressBuffer,
                   BufferType_RWBuffer, BufferType_RWStructuredBuffer,
                   BufferType_RWByteAddressBuffer, BufferType_AppendStructuredBuffer,
                   BufferType_ConsumeStructuredBuffer}),
       SamplerState_filter_init = Filter_Linear \<rparr>"

text \<open>
  A program for the examples: the constant buffer of the test shader with a defaulted
  matrix, a member of a struct type and a member of an alias type that carry defaults
  too, a texture with a default handle, a sampler state \<open>S\<close> with two values, and a
  compute entry point \<open>[numthreads(10, 1, 1)]\<close> under which a second sampler
  declaration \<open>S\<close> without values stands.
\<close>

definition example_default :: DeclDefaultValue where
  "example_default = \<lparr> available = True, dv_matrix = replicate 16 FLT_ZERO, dv_handle = 7 \<rparr>"

definition example_no_default :: DeclDefaultValue where
  "example_no_default = \<lparr> available = False, dv_matrix = replicate 16 FLT_ZERO, dv_handle = 0 \<rparr>"

definition example_matrix_member :: MemberVarDeclStmnt where
  "example_matrix_member =
     \<lparr> member_typeDenoter = BaseTypeDenoter (DataType_Matrix S_Float D4 D4) {} [],
       member_varDecls =
         [\<lparr> vd_ident = ''wvpMatrix'', vd_defaultValue = example_default \<rparr>,
          \<lparr> vd_ident = ''viewMatrix'', vd_defaultValue = example_no_default \<rparr>] \<rparr>"

definition example_struct_member :: MemberVarDeclStmnt where
  "example_struct_member =
     \<lparr> member_typeDenoter = StructTypeDenoter ''Light'',
       member_varDecls = [\<lparr> vd_ident = ''light'', vd_defaultValue = example_default \<rparr>] \<rparr>"

definition example_alias_member :: MemberVarDeclStmnt where
  "example_alias_member =
     \<lparr> member_typeDenoter =
         AliasTypeDenoter ''Color'' (BaseTypeDenoter (DataType_Vector S_Float D4) {} []),
       member_varDecls = [\<lparr> vd_ident = ''tint'', vd_defaultValue = example_default \<rparr>] \<rparr>"

definition example_cbuffer :: UniformBufferDecl where
  "example_cbuffer =
     \<lparr> ub_ident = ''VertexParam'',
       ub_slotRegisters = [\<lparr> registerTarget = None, slot = 0 \<rparr>],
       ub_extModifiers = {},
       varMembers = [example_matrix_member, example_struct_member, example_alias_member] \<rparr>"

definition example_texture :: BufferDeclStmnt where
  "example_texture =
     \<lparr> bufferType = BufferType_Texture2D, bds_extModifiers = {ExtModifiers_Color},
       bufferDecls =
         [\<lparr> bd_ident = ''tex'', bd_slotRegisters = [], bd_defaultValue = example_default \<rparr>] \<rparr>"

definition example_sampler :: SamplerDecl where
  "example_sampler =
     \<lparr> sd_ident = ''S'', sd_alias = ''A'',
       samplerValues =
         [\<lparr> smp_name = ''Filter'', smp_value = ObjectExpr ''Linear'' \<rparr>,
          \<lparr> smp_name = ''AddressU'', smp_value = ObjectExpr ''Clamp'' \<rparr>] \<rparr>"

definition example_sampler_plain :: SamplerDecl where
  "example_sampler_plain = \<lparr> sd_ident = ''S'', sd_alias = [], samplerValues = [] \<rparr>"

definition example_numthreads :: Attribute where
  "example_numthreads =
     \<lparr> attributeType = AttributeType_NumThreads,
       attr_arguments =
         [LiteralExpr (DataType_Scalar S_Int) ''10'', LiteralExpr (DataType_Scalar S_Int) ''1'',
          LiteralExpr (DataType_Scalar S_Int) ''1''] \<rparr>"

definition example_entry_point :: FunctionDecl where
  "example_entry_point =
     \<lparr> fd_ident = ''CS'', isEntryPoint = True, attribs = [example_numthreads],
       returnType = None, fd_parameters = [] \<rparr>"

definition example_program :: Program where
  "example_program =
     \<lparr> globalStmnts =
         [UniformBufferDeclStmnt example_cbuffer,
          BufferDeclStmntNode example_texture,
          SamplerDeclStmnt [example_sampler],
          FunctionDeclStmnt example_entry_point
            [OtherStmnt [SamplerDeclStmnt [example_sampler_plain]]]],
       disabledAST = [],
       entryPointRef = None \<rparr>"

text \<open>Blend targets for the examples: one without a key \<open>index\<close>, one placed at
  index 3, one placed at index 9, and a blend state declaration with five targets.\<close>

definition example_target :: "StateValue list" where
  "example_target = [StateValue ''enabled'' (LiteralExpr (DataType_Scalar S_Bool) ''true'')]"

definition example_target_3 :: "StateValue list" where
  "example_target_3 =
     [StateValue ''enabled'' (LiteralExpr (DataType_Scalar S_Bool) ''true''),
      StateValue ''index'' (LiteralExpr (DataType_Scalar S_Int) ''3'')]"

definition example_target_9 :: "StateValue list" where
  "example_target_9 =
     [StateValue ''index'' (LiteralExpr (DataType_Scalar S_Int) ''9''),
      StateValue ''enabled'' (LiteralExpr (DataType_Scalar S_Bool) ''true'')]"

definition example_blend :: StateDecl where
  "example_blend =
     \<lparr> stateType = StateType_Blend,
       initializer =
         Some [StateValue ''target'' (StateInitializerExpr example_target),
               StateValue ''target'' (StateInitializerExpr example_target_3),
               StateValue ''target'' (StateInitializerExpr example_target),
               StateValue ''target'' (StateInitializerExpr example_target_9),
               StateValue ''target'' (StateInitializerExpr example_target)] \<rparr>"

text \<open>A blend target placed at index \<open>2^32\<close>, and a program made of one
  global-options state declaration with the key \<open>forward\<close>.\<close>

definition example_target_wrap :: "StateValue list" where
  "example_target_wrap =
     [StateValue ''index'' (LiteralExpr (DataType_Scalar S_Int) ''4294967296''),
      StateValue ''enabled'' (LiteralExpr (DataType_Scalar S_Bool) ''true'')]"

text \<open>The collaborators of the examples with a \<open>Variant\<close> that reads a decimal literal
  of any size.\<close>

definition parse_int :: "string \<Rightarrow> int" where
  "parse_int s = fold (\<lambda>c n. 10 * n + (of_char c - 48)) s 0"

definition example_env_int :: Env where
  "example_env_int = example_env \<lparr> Variant_Int := parse_int \<rparr>"

definition example_options_program :: Program where
  "example_options_program =
     \<lparr> globalStmnts =
         [StateDeclStmnt
            \<lparr> stateType = StateType_Options,
              initializer =
                Some [StateValue ''forward'' (LiteralExpr (DataType_Scalar S_Bool) ''true'')] \<rparr>],
       disabledAST = [], entryPointRef = None \<rparr>"

text \<open>
  A converter for the examples: the scope is the list of the identifiers bound in it;
  three declared variables, \<open>sampler\<close> at address 0, \<open>x\<close> at address 1 and \<open>y\<close> at the
  other addresses, where \<open>x\<close> is bound in the scope already. The same converter with
  \<open>gl_\<close> as the reserved-word prefix, and the same converter with \<open>xst_x\<close> bound in the
  scope as well.
\<close>

definition example_keywords :: "string set" where
  "example_keywords = {''sampler'', ''texture''}"

definition example_mangling :: NameMangling where
  "example_mangling =
     \<lparr> inputPrefix = ''xsv_'', outputPrefix = ''xsv_'', reservedWordPrefix = ''xsr_'',
       temporaryPrefix = ''xst_'', namespacePrefix = ''xsn_'', useAlwaysSemantics = False \<rparr>"

definition example_converter :: "string list GLSLConverter" where
  "example_converter =
     \<lparr> symTable = [''x''],
       heap = (\<lambda>a. \<lparr> decl_ident = (if a = 0 then ''sampler'' else if a = 1 then ''x'' else ''y''),
                       decl_IsVarDecl = True, isShaderInput = False \<rparr>),
       globalReservedDecls = [], structDeclStack = [], obfuscationCounter = 0,
       obfuscate = False, nameMangling = example_mangling \<rparr>"

definition example_converter_gl :: "string list GLSLConverter" where
  "example_converter_gl =
     example_converter \<lparr> nameMangling := example_mangling \<lparr> reservedWordPrefix := ''gl_'' \<rparr> \<rparr>"

definition example_converter_bound :: "string list GLSLConverter" where
  "example_converter_bound = example_converter \<lparr> symTable := [''xst_x'', ''x''] \<rparr>"

definition example_Fetch :: "string list \<Rightarrow> string \<Rightarrow> bool" where
  "example_Fetch scope ident = (ident \<in> set scope)"

definition example_Register :: "string \<Rightarrow> string list \<Rightarrow> string list" where
  "example_Register ident scope = ident # scope"

section \<open>Auxiliary lemmas\<close>

subsection \<open>Loops, and what the decoders leave alone\<close>

lemma for_each_inv:
  "(\<And>x p. h (body x p) = h p) \<Longrightarrow> h (for_each body xs p) = h p"
  by (induction xs arbitrary: p) (simp_all add: for_each_def)

lemma for_each_Nil [simp]: "for_each body [] s = s"
  by (simp add: for_each_def)

lemma for_each_Cons [simp]: "for_each body (x # xs) s = for_each body xs (body x s)"
  by (simp add: for_each_def)

lemma for_each_append [simp]: "for_each body (xs @ ys) s = for_each body ys (for_each body xs s)"
  by (simp add: for_each_def)

lemma data_Error [simp]: "data (Error m t) = data t"
  by (simp add: Error_def)

lemma data_Warning [simp]: "data (Warning m t) = data t"
  by (simp add: Warning_def)

lemma data_lookups [simp]:
  "data (snd (ReflectSamplerValueFilter env v p1)) = data (snd p1)"
  "data (snd (ReflectSamplerValueTextureAddressMode env v p2)) = data (snd p2)"
  "data (snd (ReflectComparisonFunc env v p3)) = data (snd p3)"
  "data (snd (ReflectBlendFactor env v p4)) = data (snd p4)"
  "data (snd (ReflectBlendOpType env v p5)) = data (snd p5)"
  "data (snd (ReflectCullMode env v p6)) = data (snd p6)"
  "data (snd (ReflectFillMode env v p7)) = data (snd p7)"
  "data (snd (ReflectStencilOpType env v p8)) = data (snd p8)"
  "data (snd (ReflectSortMode env v p9)) = data (snd p9)"
  by (simp_all add: ReflectSamplerValueFilter_def ReflectSamplerValueTextureAddressMode_def
      ReflectComparisonFunc_def ReflectBlendFactor_def ReflectBlendOpType_def
      ReflectCullMode_def ReflectFillMode_def ReflectStencilOpType_def ReflectSortMode_def
      case_prod_unfold split: sum.splits)

lemma data_ReflectSamplerValue [simp]:
  "data (snd (ReflectSamplerValue env ast p)) = data (snd p)"
  by (simp add: ReflectSamplerValue_def Let_def case_prod_unfold split: Expr.splits sum.splits)

lemma data_ReflectStencilOperationValue [simp]:
  "data (snd (ReflectStencilOperationValue env ast p)) = data (snd p)"
  by (simp add: ReflectStencilOperationValue_def Let_def case_prod_unfold split: Expr.splits)

lemma data_ReflectBlendOperationValue [simp]:
  "data (snd (ReflectBlendOperationValue env ast p)) = data (snd p)"
  by (simp add: ReflectBlendOperationValue_def Let_def case_prod_unfold split: Expr.splits)

lemma data_for_each_snd:
  "(\<And>x p. data (snd (body x p)) = data (snd p))
     \<Longrightarrow> data (snd (for_each body xs p)) = data (snd p)"
  by (rule for_each_inv [where h = "\<lambda>p. data (snd p)"])

lemma data_ReflectBlendStateTargetValue [simp]:
  "data (snd (ReflectBlendStateTargetValue env ast p)) = data (snd p)"
  by (simp add: ReflectBlendStateTargetValue_def Let_def case_prod_unfold data_for_each_snd
      split: Expr.splits)

lemma data_ReflectRasterizerStateValue [simp]:
  "data (snd (ReflectRasterizerStateValue env ast p)) = data (snd p)"
  by (simp add: ReflectRasterizerStateValue_def Let_def case_prod_unfold split: Expr.splits)

lemma data_ReflectDepthStateValue [simp]:
  "data (snd (ReflectDepthStateValue env ast p)) = data (snd p)"
  by (simp add: ReflectDepthStateValue_def Let_def case_prod_unfold split: Expr.splits)

lemma data_ReflectStencilStateValue [simp]:
  "data (snd (ReflectStencilStateValue env ast p)) = data (snd p)"
  by (simp add: ReflectStencilStateValue_def Let_def case_prod_unfold data_for_each_snd
      split: Expr.splits)

lemma data_ReflectBlendStateValue_index [simp]:
  "data (snd (ReflectBlendStateValue_index env ast p)) = data (snd p)"
  by (simp add: ReflectBlendStateValue_index_def case_prod_unfold split: Expr.splits)

lemma data_ReflectBlendStateValue [simp]:
  "data (snd (snd (ReflectBlendStateValue env ast p))) = data (snd (snd p))"
  by (simp add: ReflectBlendStateValue_def Let_def case_prod_unfold data_for_each_snd
      split: Expr.splits)

lemma data_ReflectOptionsStateValue [simp]:
  "data (snd (ReflectOptionsStateValue env ast p)) = data (snd p)"
  by (simp add: ReflectOptionsStateValue_def Let_def case_prod_unfold split: Expr.splits)

lemma forward_ReflectOptionsStateValue [simp]:
  "forward (fst (ReflectOptionsStateValue env ast p)) = forward (fst p)"
  by (simp add: ReflectOptionsStateValue_def Let_def case_prod_unfold split: Expr.splits)

lemma VisitStateDecl_frame [simp]:
  "samplerStates (data (VisitStateDecl env ast t)) = samplerStates (data t)"
  "uniforms (data (VisitStateDecl env ast t)) = uniforms (data t)"
  "constantBuffers (data (VisitStateDecl env ast t)) = constantBuffers (data t)"
  "defaultValues (data (VisitStateDecl env ast t)) = defaultValues (data t)"
  "numThreads (data (VisitStateDecl env ast t)) = numThreads (data t)"
  by (simp_all add: VisitStateDecl_def case_prod_unfold data_for_each_snd
      for_each_inv [where h = "\<lambda>p. data (snd (snd p))"]
      split: option.splits StateType.splits)

lemma VisitStateDecl_forward [simp]:
  "forward (globalOptions (data (VisitStateDecl env ast t))) = forward (globalOptions (data t))"
  by (simp add: VisitStateDecl_def case_prod_unfold data_for_each_snd
      for_each_inv [where h = "\<lambda>p. data (snd (snd p))"]
      for_each_inv [where h = "\<lambda>p. forward (fst p)"]
      split: option.splits StateType.splits)


lemma for_each_pres:
  "(\<And>x s. P s \<Longrightarrow> P (body x s)) \<Longrightarrow> P s \<Longrightarrow> P (for_each body xs s)"
  by (induction xs arbitrary: s) simp_all

lemma VisitSamplerDecl_samplerState_data [simp]:
  "data (snd (VisitSamplerDecl_samplerState env ast t)) = data t"
  by (simp add: VisitSamplerDecl_samplerState_def case_prod_unfold
      for_each_inv [where h = "\<lambda>p. data (snd p)"])

lemma VisitSamplerDecl_data:
  "data (VisitSamplerDecl env ast t) =
     (data t)\<lparr>samplerStates :=
                 (samplerStates (data t))
                   (sd_ident ast \<mapsto> fst (VisitSamplerDecl_samplerState env ast t)),
               uniforms := uniforms (data t) @ [sampler_uniform ast]\<rparr>"
  by (simp add: VisitSamplerDecl_def case_prod_unfold Let_def sampler_uniform_def
      Uniform_default_def Uniform_Flags_None_def)

lemma data_ReflectAttributesNumThreads:
  "samplerStates (data (ReflectAttributesNumThreads env a t)) = samplerStates (data t)"
  "uniforms (data (ReflectAttributesNumThreads env a t)) = uniforms (data t)"
  "constantBuffers (data (ReflectAttributesNumThreads env a t)) = constantBuffers (data t)"
  "defaultValues (data (ReflectAttributesNumThreads env a t)) = defaultValues (data t)"
  "globalOptions (data (ReflectAttributesNumThreads env a t)) = globalOptions (data t)"
  "shaderTarget (ReflectAttributesNumThreads env a t) = shaderTarget t"
  by (simp_all add: ReflectAttributesNumThreads_def)

lemma data_ReflectAttributes:
  "samplerStates (data (ReflectAttributes env as t)) = samplerStates (data t)"
  "uniforms (data (ReflectAttributes env as t)) = uniforms (data t)"
  "constantBuffers (data (ReflectAttributes env as t)) = constantBuffers (data t)"
  "defaultValues (data (ReflectAttributes env as t)) = defaultValues (data t)"
  "globalOptions (data (ReflectAttributes env as t)) = globalOptions (data t)"
  "shaderTarget (ReflectAttributes env as t) = shaderTarget t"
  unfolding ReflectAttributes_def
  by (rule for_each_inv, simp add: data_ReflectAttributesNumThreads split: AttributeType.splits)+

lemma VisitFunctionDecl_frame [simp]:
  "samplerStates (data (VisitFunctionDecl env ast t)) = samplerStates (data t)"
  "uniforms (data (VisitFunctionDecl env ast t)) = uniforms (data t)"
  "constantBuffers (data (VisitFunctionDecl env ast t)) = constantBuffers (data t)"
  "defaultValues (data (VisitFunctionDecl env ast t)) = defaultValues (data t)"
  "globalOptions (data (VisitFunctionDecl env ast t)) = globalOptions (data t)"
  by (simp_all add: VisitFunctionDecl_def Let_def data_ReflectAttributes)

lemma Visit_pres:
  assumes "\<And>d t. P t \<Longrightarrow> P (VisitSamplerDecl env d t)"
    and "\<And>d t. P t \<Longrightarrow> P (VisitStateDecl env d t)"
    and "\<And>d t. P t \<Longrightarrow> P (VisitFunctionDecl env d t)"
    and "\<And>d t. P t \<Longrightarrow> P (VisitUniformBufferDecl env d t)"
    and "\<And>d t. P t \<Longrightarrow> P (VisitBufferDeclStmnt env d t)"
  shows "P t \<Longrightarrow> P (Visit env s t)" and "P t \<Longrightarrow> P (Visit_list env ss t)"
  using assms
proof (induction env s t and env ss t rule: Visit_Visit_list.induct)
  case (1 env decls this)
  show ?case
    unfolding Visit.simps
    by (rule for_each_pres [where P = P]) (rule "1.prems"(2), assumption, rule "1.prems"(1))
qed simp_all

section \<open>Properties of the reflection analyzer\<close>

lemmas for_each_frame =
  for_each_inv [where h = "\<lambda>t. samplerStates (data t)"]
  for_each_inv [where h = "\<lambda>t. globalOptions (data t)"]
  for_each_inv [where h = "\<lambda>t. constantBuffers (data t)"]

lemma VisitUniformBufferDecl_decl_frame [simp]:
  "samplerStates (data (VisitUniformBufferDecl_decl ty bt btd bi decl t)) = samplerStates (data t)"
  "globalOptions (data (VisitUniformBufferDecl_decl ty bt btd bi decl t)) = globalOptions (data t)"
  "constantBuffers (data (VisitUniformBufferDecl_decl ty bt btd bi decl t))
     = constantBuffers (data t)"
  by (simp_all add: VisitUniformBufferDecl_decl_def Let_def split: option.splits prod.splits)

lemma VisitUniformBufferDecl_stmt_frame [simp]:
  "samplerStates (data (VisitUniformBufferDecl_stmt stmt t)) = samplerStates (data t)"
  "globalOptions (data (VisitUniformBufferDecl_stmt stmt t)) = globalOptions (data t)"
  "constantBuffers (data (VisitUniformBufferDecl_stmt stmt t)) = constantBuffers (data t)"
  by (simp_all add: VisitUniformBufferDecl_stmt_def Let_def case_prod_unfold for_each_frame)

lemma VisitUniformBufferDecl_frame [simp]:
  "samplerStates (data (VisitUniformBufferDecl env ast t)) = samplerStates (data t)"
  "globalOptions (data (VisitUniformBufferDecl env ast t)) = globalOptions (data t)"
  by (simp_all add: VisitUniformBufferDecl_def Let_def for_each_frame)

lemma VisitBufferDeclStmnt_decl_frame [simp]:
  "samplerStates (data (VisitBufferDeclStmnt_decl env ast d t)) = samplerStates (data t)"
  "globalOptions (data (VisitBufferDeclStmnt_decl env ast d t)) = globalOptions (data t)"
  "constantBuffers (data (VisitBufferDeclStmnt_decl env ast d t)) = constantBuffers (data t)"
  by (simp_all add: VisitBufferDeclStmnt_decl_def Let_def)

lemma VisitBufferDeclStmnt_frame [simp]:
  "samplerStates (data (VisitBufferDeclStmnt env ast t)) = samplerStates (data t)"
  "globalOptions (data (VisitBufferDeclStmnt env ast t)) = globalOptions (data t)"
  "constantBuffers (data (VisitBufferDeclStmnt env ast t)) = constantBuffers (data t)"
  by (simp_all add: VisitBufferDeclStmnt_def for_each_frame)

lemma VisitProgram_frame:
  "globalOptions (data (VisitProgram env ast t)) =
     globalOptions (data (Visit_list env (disabledAST ast) (Visit_list env (globalStmnts ast) t)))"
  "samplerStates (data (VisitProgram env ast t)) =
     samplerStates (data (Visit_list env (disabledAST ast) (Visit_list env (globalStmnts ast) t)))"
  "uniforms (data (VisitProgram env ast t)) =
     uniforms (data (Visit_list env (disabledAST ast) (Visit_list env (globalStmnts ast) t)))"
  "constantBuffers (data (VisitProgram env ast t)) =
     constantBuffers (data (Visit_list env (disabledAST ast) (Visit_list env (globalStmnts ast) t)))"
  "defaultValues (data (VisitProgram env ast t)) =
     defaultValues (data (Visit_list env (disabledAST ast) (Visit_list env (globalStmnts ast) t)))"
  "numThreads (data (VisitProgram env ast t)) =
     numThreads (data (Visit_list env (disabledAST ast) (Visit_list env (globalStmnts ast) t)))"
  by (simp_all add: VisitProgram_def Let_def split: option.splits)

lemma forward_Visit_list:
  "forward (globalOptions (data (Visit_list env ss t))) = forward (globalOptions (data t))"
  by (rule Visit_pres(2) [where P = "\<lambda>t'. forward (globalOptions (data t')) = forward (globalOptions (data t))"])
     (simp_all add: VisitSamplerDecl_data)

lemma globalOptions_VisitStateDecl:
  "globalOptions (data (VisitStateDecl env \<lparr> stateType = StateType_Options,
                                             initializer = Some vals \<rparr> this))
     = fst (for_each (ReflectOptionsStateValue env) vals (globalOptions (data this), this))"
  by (simp add: VisitStateDecl_def case_prod_unfold)

lemma ReflectOptionsStateValue_forward:
  "ReflectOptionsStateValue env (StateValue ''forward'' (LiteralExpr dt v)) p
     = ((fst p)\<lparr>transparent := Variant_Bool env v\<rparr>, snd p)"
  by (simp add: ReflectOptionsStateValue_def case_prod_unfold)

lemma data_VisitStateDecl_forward:
  "data (VisitStateDecl env
          \<lparr> stateType = StateType_Options,
            initializer = Some [StateValue ''forward'' (LiteralExpr dt v)] \<rparr> this)
     = (data this)\<lparr>globalOptions :=
          (globalOptions (data this))\<lparr>transparent := Variant_Bool env v\<rparr>\<rparr>"
  by (simp add: VisitStateDecl_def ReflectOptionsStateValue_forward)

text \<open>
  C8. Decoding a global-options state declaration whose last key is \<open>forward\<close> with a
  literal leaves in \<open>data.globalOptions\<close> the options that the keys before it decode,
  with \<open>transparent\<close> set to the parsed boolean; in particular a declaration with the
  single key \<open>forward\<close> changes \<open>transparent\<close> and nothing else of the reflection
  record, also when the analyzer runs on a program made of that declaration. No key of
  the options decoder changes \<open>forward\<close>, decoding a state declaration leaves
  \<open>globalOptions.forward\<close> as it was, and after the analyzer has run on any program
  from an empty reflection record \<open>globalOptions.forward\<close> still has its default
  \<open>false\<close>.
\<close>

theorem C8_forward_key_writes_transparent:
  "ReflectOptionsStateValue env (StateValue ''forward'' (LiteralExpr dt v)) (options, this)
     = (options\<lparr>transparent := Variant_Bool env v\<rparr>, this)
   \<and> globalOptions (data (VisitStateDecl env
          \<lparr> stateType = StateType_Options,
            initializer = Some (vals @ [StateValue ''forward'' (LiteralExpr dt v)]) \<rparr> this))
       = (globalOptions (data (VisitStateDecl env
            \<lparr> stateType = StateType_Options, initializer = Some vals \<rparr> this)))
          \<lparr>transparent := Variant_Bool env v\<rparr>
   \<and> data (VisitStateDecl env
          \<lparr> stateType = StateType_Options,
            initializer = Some [StateValue ''forward'' (LiteralExpr dt v)] \<rparr> this)
       = (data this)\<lparr>globalOptions :=
            (globalOptions (data this))\<lparr>transparent := Variant_Bool env v\<rparr>\<rparr>
   \<and> data (Reflect env reports
          \<lparr> globalStmnts =
              [StateDeclStmnt
                 \<lparr> stateType = StateType_Options,
                   initializer = Some [StateValue ''forward'' (LiteralExpr dt v)] \<rparr>],
            disabledAST = [], entryPointRef = None \<rparr>
          target ReflectionData_default warnings)
       = ReflectionData_default\<lparr>globalOptions :=
            GlobalOptions_default\<lparr>transparent := Variant_Bool env v\<rparr>\<rparr>
   \<and> transparent (globalOptions (data
        (Reflect example_env [] example_options_program VertexShader ReflectionData_default
           False)))
   \<and> forward (fst (ReflectOptionsStateValue env ast (options, this))) = forward options
   \<and> forward (globalOptions (data (VisitStateDecl env decl this)))
       = forward (globalOptions (data this))
   \<and> forward (globalOptions (data
        (Reflect env reports program target ReflectionData_default warnings))) = False"
proof -
  have 1: "ReflectOptionsStateValue env (StateValue ''forward'' (LiteralExpr dt v)) (options, this)
             = (options\<lparr>transparent := Variant_Bool env v\<rparr>, this)"
    by (simp add: ReflectOptionsStateValue_def)
  have 2: "globalOptions (data (VisitStateDecl env
          \<lparr> stateType = StateType_Options,
            initializer = Some (vals @ [StateValue ''forward'' (LiteralExpr dt v)]) \<rparr> this))
       = (globalOptions (data (VisitStateDecl env
            \<lparr> stateType = StateType_Options, initializer = Some vals \<rparr> this)))
          \<lparr>transparent := Variant_Bool env v\<rparr>"
    by (simp add: globalOptions_VisitStateDecl ReflectOptionsStateValue_forward)
  have 3: "data (VisitStateDecl env
          \<lparr> stateType = StateType_Options,
            initializer = Some [StateValue ''forward'' (LiteralExpr dt v)] \<rparr> this)
       = (data this)\<lparr>globalOptions :=
            (globalOptions (data this))\<lparr>transparent := Variant_Bool env v\<rparr>\<rparr>"
    by (rule data_VisitStateDecl_forward)
  have 4: "data (Reflect env reports
          \<lparr> globalStmnts =
              [StateDeclStmnt
                 \<lparr> stateType = StateType_Options,
                   initializer = Some [StateValue ''forward'' (LiteralExpr dt v)] \<rparr>],
            disabledAST = [], entryPointRef = None \<rparr>
          target ReflectionData_default warnings)
       = ReflectionData_default\<lparr>globalOptions :=
            GlobalOptions_default\<lparr>transparent := Variant_Bool env v\<rparr>\<rparr>"
  proof -
    have go: "globalOptions ReflectionData_default = GlobalOptions_default"
      by (simp add: ReflectionData_default_def)
    show ?thesis by (simp add: Reflect_def VisitProgram_def data_VisitStateDecl_forward go)
  qed
  have 5: "transparent (globalOptions (data
        (Reflect example_env [] example_options_program VertexShader ReflectionData_default
           False)))"
    by code_simp
  have 8: "forward (globalOptions (data
        (Reflect env reports program target ReflectionData_default warnings))) = False"
    by (simp add: Reflect_def VisitProgram_frame forward_Visit_list ReflectionData_default_def
        GlobalOptions_default_def)
  show ?thesis using 1 2 3 4 5 8 by simp
qed

subsection \<open>The index invariant\<close>

lemma uniform_indices_valid_cong:
  "uniforms d' = uniforms d \<Longrightarrow> constantBuffers d' = constantBuffers d
     \<Longrightarrow> defaultValues d' = defaultValues d
     \<Longrightarrow> uniform_indices_valid d' = uniform_indices_valid d"
  by (simp add: uniform_indices_valid_def)

lemma uniform_indices_valid_default: "uniform_indices_valid ReflectionData_default"
  by (simp add: uniform_indices_valid_def ReflectionData_default_def)

lemma VisitSamplerDecl_valid:
  "uniform_indices_valid (data t) \<Longrightarrow> uniform_indices_valid (data (VisitSamplerDecl env ast t))"
  by (simp add: VisitSamplerDecl_data uniform_indices_valid_def sampler_uniform_def)

lemma VisitStateDecl_valid:
  "uniform_indices_valid (data t) \<Longrightarrow> uniform_indices_valid (data (VisitStateDecl env ast t))"
  by (simp add: uniform_indices_valid_cong [of "data (VisitStateDecl env ast t)" "data t"])

lemma VisitFunctionDecl_valid:
  "uniform_indices_valid (data t) \<Longrightarrow> uniform_indices_valid (data (VisitFunctionDecl env ast t))"
  by (simp add: uniform_indices_valid_cong [of "data (VisitFunctionDecl env ast t)" "data t"])

lemma uniform_indices_valid_snoc:
  assumes "uniform_indices_valid d"
    and "uniforms d' \<noteq> []" and "butlast (uniforms d') = uniforms d"
    and "length (constantBuffers d) \<le> length (constantBuffers d')"
    and "length (defaultValues d) \<le> length (defaultValues d')"
    and "uniformBlock (last (uniforms d')) = -1
         \<or> (0 \<le> uniformBlock (last (uniforms d'))
             \<and> uniformBlock (last (uniforms d')) < int (length (constantBuffers d')))"
    and "defaultValue (last (uniforms d')) = -1
         \<or> (0 \<le> defaultValue (last (uniforms d'))
             \<and> defaultValue (last (uniforms d')) < int (length (defaultValues d')))"
  shows "uniform_indices_valid d'"
proof -
  have "uniforms d' = uniforms d @ [last (uniforms d')]"
    using assms(2,3) append_butlast_last_id by fastforce
  then have "set (uniforms d') = insert (last (uniforms d')) (set (uniforms d))"
    by (metis list.simps(15) rotate1.simps(2) set_rotate1)
  then show ?thesis
    using assms(1,4,5,6,7) unfolding uniform_indices_valid_def by fastforce
qed

lemma VisitUniformBufferDecl_decl_uniforms:
  "uniforms (data (VisitUniformBufferDecl_decl ty bt btd bi decl t)) \<noteq> []"
  "butlast (uniforms (data (VisitUniformBufferDecl_decl ty bt btd bi decl t)))
     = uniforms (data t)"
  "u_ident (last (uniforms (data (VisitUniformBufferDecl_decl ty bt btd bi decl t))))
     = vd_ident decl"
  "u_type (last (uniforms (data (VisitUniformBufferDecl_decl ty bt btd bi decl t)))) = ty"
  "uniformBlock (last (uniforms (data (VisitUniformBufferDecl_decl ty bt btd bi decl t)))) = bi"
  "defaultValue (last (uniforms (data (VisitUniformBufferDecl_decl ty bt btd bi decl t))))
     = (if btd \<noteq> None \<and> available (vd_defaultValue decl)
        then int (length (defaultValues (data t))) else -1)"
  "defaultValues (data (VisitUniformBufferDecl_decl ty bt btd bi decl t))
     = defaultValues (data t)
       @ (if btd \<noteq> None \<and> available (vd_defaultValue decl)
          then [DefaultValue_matrix (dv_matrix (vd_defaultValue decl))] else [])"
  by (simp_all add: VisitUniformBufferDecl_decl_def Let_def Uniform_default_def
      split: option.splits)

lemma VisitUniformBufferDecl_decl_valid:
  assumes "uniform_indices_valid (data t)"
    and "bi = -1 \<or> (0 \<le> bi \<and> bi < int (length (constantBuffers (data t))))"
  shows "uniform_indices_valid (data (VisitUniformBufferDecl_decl ty bt btd bi decl t))"
  by (rule uniform_indices_valid_snoc [OF assms(1)])
     (use assms(2) in \<open>simp_all add: VisitUniformBufferDecl_decl_uniforms\<close>)

lemma VisitUniformBufferDecl_stmt_valid:
  assumes "uniform_indices_valid (data t)"
  shows "uniform_indices_valid (data (VisitUniformBufferDecl_stmt stmt t))"
proof -
  let ?bi = "int (length (constantBuffers (data t))) - 1"
  let ?P = "\<lambda>t'. uniform_indices_valid (data t')
                \<and> constantBuffers (data t') = constantBuffers (data t)"
  have step: "?P (VisitUniformBufferDecl_decl ty bt btd ?bi decl t')" if "?P t'"
    for ty bt btd decl t'
  proof -
    have "?bi = -1 \<or> (0 \<le> ?bi \<and> ?bi < int (length (constantBuffers (data t'))))"
      using that by auto
    then show ?thesis
      using that VisitUniformBufferDecl_decl_valid [of t' ?bi] by simp
  qed
  have "?P (VisitUniformBufferDecl_stmt stmt t)"
    unfolding VisitUniformBufferDecl_stmt_def Let_def case_prod_unfold
    by (rule for_each_pres [where P = ?P]) (rule step, assumption, simp add: assms)
  then show ?thesis by simp
qed

lemma VisitUniformBufferDecl_valid:
  assumes "uniform_indices_valid (data t)"
  shows "uniform_indices_valid (data (VisitUniformBufferDecl env ast t))"
  unfolding VisitUniformBufferDecl_def Let_def
  by (rule for_each_pres [where P = "\<lambda>t. uniform_indices_valid (data t)"])
     (rule VisitUniformBufferDecl_stmt_valid, assumption,
      use assms in \<open>auto simp: uniform_indices_valid_def Uniform_default_def\<close>)

lemma VisitBufferDeclStmnt_decl_uniforms:
  "uniforms (data (VisitBufferDeclStmnt_decl env ast d t)) \<noteq> []"
  "butlast (uniforms (data (VisitBufferDeclStmnt_decl env ast d t))) = uniforms (data t)"
  "u_ident (last (uniforms (data (VisitBufferDeclStmnt_decl env ast d t)))) = bd_ident d"
  "u_type (last (uniforms (data (VisitBufferDeclStmnt_decl env ast d t)))) = UniformType_Buffer"
  "uniformBlock (last (uniforms (data (VisitBufferDeclStmnt_decl env ast d t)))) = -1"
  "defaultValue (last (uniforms (data (VisitBufferDeclStmnt_decl env ast d t))))
     = (if available (bd_defaultValue d) then int (length (defaultValues (data t))) else -1)"
  "defaultValues (data (VisitBufferDeclStmnt_decl env ast d t))
     = defaultValues (data t)
       @ (if available (bd_defaultValue d)
          then [DefaultValue_handle (dv_handle (bd_defaultValue d))] else [])"
  by (simp_all add: VisitBufferDeclStmnt_decl_def Let_def Uniform_default_def)

lemma VisitBufferDeclStmnt_decl_valid:
  assumes "uniform_indices_valid (data t)"
  shows "uniform_indices_valid (data (VisitBufferDeclStmnt_decl env ast d t))"
  by (rule uniform_indices_valid_snoc [OF assms])
     (simp_all add: VisitBufferDeclStmnt_decl_uniforms)

lemma VisitBufferDeclStmnt_valid:
  assumes "uniform_indices_valid (data t)"
  shows "uniform_indices_valid (data (VisitBufferDeclStmnt env ast t))"
  unfolding VisitBufferDeclStmnt_def
  by (rule for_each_pres [where P = "\<lambda>t. uniform_indices_valid (data t)"])
     (rule VisitBufferDeclStmnt_decl_valid, assumption, rule assms)

lemma Visit_list_valid:
  "uniform_indices_valid (data t) \<Longrightarrow> uniform_indices_valid (data (Visit_list env ss t))"
  by (rule Visit_pres(2) [where P = "\<lambda>t. uniform_indices_valid (data t)"])
     (simp_all add: VisitSamplerDecl_valid VisitStateDecl_valid VisitFunctionDecl_valid
        VisitUniformBufferDecl_valid VisitBufferDeclStmnt_valid)

lemma Reflect_valid:
  assumes "uniform_indices_valid d"
  shows "uniform_indices_valid (data (Reflect env reports program target d warnings))"
proof -
  let ?t0 = "\<lparr> reportHandler = reports, shaderTarget = target, data = d,
               enableWarnings = warnings \<rparr>"
  let ?t2 = "Visit_list env (disabledAST program) (Visit_list env (globalStmnts program) ?t0)"
  have "uniform_indices_valid (data ?t2)"
    using assms by (simp add: Visit_list_valid)
  moreover have "uniform_indices_valid (data (VisitProgram env program ?t0))
                   = uniform_indices_valid (data ?t2)"
    by (rule uniform_indices_valid_cong) (simp_all add: VisitProgram_frame)
  ultimately show ?thesis by (simp add: Reflect_def)
qed

text \<open>
  C1. After the analyzer has run on any program, every uniform of the reflection record
  has \<open>uniformBlock\<close> equal to \<open>-1\<close> or a valid index into \<open>constantBuffers\<close>, and
  \<open>defaultValue\<close> equal to \<open>-1\<close> or a valid index into \<open>defaultValues\<close>: from the
  empty record the driver creates, and from any record that satisfies the invariant.
\<close>

theorem C1_uniform_indices_valid:
  "uniform_indices_valid
     (data (Reflect env reports program target ReflectionData_default warnings))
   \<and> (uniform_indices_valid d
        \<longrightarrow> uniform_indices_valid (data (Reflect env reports program target d warnings)))"
  by (simp add: Reflect_valid uniform_indices_valid_default)

theorem C1_uniform_indices_valid_witness:
  "uniform_indices_valid
     (data (Reflect example_env [] example_program ComputeShader ReflectionData_default False))
   \<and> map (\<lambda>u. (uniformBlock u, defaultValue u))
         (uniforms (data (Reflect example_env [] example_program ComputeShader
                            ReflectionData_default False)))
       = [(-1, -1), (0, 0), (0, -1), (0, -1), (0, -1), (-1, 1), (-1, -1), (-1, -1)]
   \<and> length (constantBuffers (data (Reflect example_env [] example_program ComputeShader
                                     ReflectionData_default False))) = 1
   \<and> length (defaultValues (data (Reflect example_env [] example_program ComputeShader
                                   ReflectionData_default False))) = 2"
proof -
  have e: "map (\<lambda>u. (uniformBlock u, defaultValue u))
             (uniforms (data (Reflect example_env [] example_program ComputeShader
                                ReflectionData_default False)))
           = [(-1, -1), (0, 0), (0, -1), (0, -1), (0, -1), (-1, 1), (-1, -1), (-1, -1)]
         \<and> length (constantBuffers (data (Reflect example_env [] example_program ComputeShader
                                           ReflectionData_default False))) = 1
         \<and> length (defaultValues (data (Reflect example_env [] example_program ComputeShader
                                         ReflectionData_default False))) = 2"
    by code_simp
  show ?thesis
    using C1_uniform_indices_valid
            [where env = example_env and reports = "[]" and program = example_program
               and target = ComputeShader and warnings = False]
          e
    by simp
qed

subsection \<open>Default values of the members of a uniform buffer\<close>

lemma VisitUniformBufferDecl_decl_snoc:
  "uniforms (data (VisitUniformBufferDecl_decl ty bt btd bi decl t))
     = uniforms (data t)
       @ [last (uniforms (data (VisitUniformBufferDecl_decl ty bt btd bi decl t)))]"
  using VisitUniformBufferDecl_decl_uniforms(1,2) [of ty bt btd bi decl t]
        append_butlast_last_id by fastforce

lemma VisitUniformBufferDecl_decls:
  fixes ty bt btd bi t
  defines "body \<equiv> VisitUniformBufferDecl_decl ty bt btd bi"
    and "has \<equiv> \<lambda>d. btd \<noteq> None \<and> available (vd_defaultValue d)"
  shows "length (uniforms (data (for_each body ds t))) = length (uniforms (data t)) + length ds
    \<and> take (length (uniforms (data t))) (uniforms (data (for_each body ds t))) = uniforms (data t)
    \<and> defaultValues (data (for_each body ds t))
        = defaultValues (data t)
          @ map (\<lambda>d. DefaultValue_matrix (dv_matrix (vd_defaultValue d))) (filter has ds)
    \<and> (\<forall>k < length ds.
          u_ident (uniforms (data (for_each body ds t)) ! (length (uniforms (data t)) + k))
            = vd_ident (ds ! k)
          \<and> defaultValue (uniforms (data (for_each body ds t)) ! (length (uniforms (data t)) + k))
            = (if has (ds ! k)
               then int (length (defaultValues (data t)) + length (filter has (take k ds)))
               else -1))"
proof (induction ds rule: rev_induct)
  case Nil
  then show ?case by simp
next
  case (snoc d ds)
  let ?t1 = "for_each body ds t"
  let ?t2 = "body d ?t1"
  let ?n = "length (uniforms (data t))"
  have fe: "for_each body (ds @ [d]) t = ?t2" by simp
  have us: "uniforms (data ?t2) = uniforms (data ?t1) @ [last (uniforms (data ?t2))]"
    unfolding body_def by (rule VisitUniformBufferDecl_decl_snoc)
  have len1: "length (uniforms (data ?t1)) = ?n + length ds" using snoc.IH by simp
  have a: "length (uniforms (data ?t2)) = ?n + length (ds @ [d])"
    using us len1 by (metis add.assoc length_append length_append_singleton plus_1_eq_Suc
        add.commute)
  have b: "take ?n (uniforms (data ?t2)) = uniforms (data t)"
    using us len1 snoc.IH by (metis le_add1 order_refl take_all take_append diff_is_0_eq take_0
        append_Nil2)
  have c: "defaultValues (data ?t2)
        = defaultValues (data t)
          @ map (\<lambda>d. DefaultValue_matrix (dv_matrix (vd_defaultValue d))) (filter has (ds @ [d]))"
    using snoc.IH
    by (simp add: body_def has_def VisitUniformBufferDecl_decl_uniforms)
  have d: "u_ident (uniforms (data ?t2) ! (?n + k)) = vd_ident ((ds @ [d]) ! k)
          \<and> defaultValue (uniforms (data ?t2) ! (?n + k))
            = (if has ((ds @ [d]) ! k)
               then int (length (defaultValues (data t)) + length (filter has (take k (ds @ [d]))))
               else -1)" if "k < length (ds @ [d])" for k
  proof (cases "k < length ds")
    case True
    then have "uniforms (data ?t2) ! (?n + k) = uniforms (data ?t1) ! (?n + k)"
      using us len1 by (metis add_less_cancel_left nth_append)
    then show ?thesis using True snoc.IH by (simp add: nth_append)
  next
    case False
    then have k: "k = length ds" using that by simp
    have "uniforms (data ?t2) ! (?n + k) = last (uniforms (data ?t2))"
      using us len1 k by (metis nth_append_length)
    moreover have "length (defaultValues (data ?t1))
        = length (defaultValues (data t)) + length (filter has ds)"
      using snoc.IH by simp
    ultimately show ?thesis
      using k by (simp add: body_def has_def VisitUniformBufferDecl_decl_uniforms)
  qed
  show ?case unfolding fe using a b c d by blast
qed


lemma VisitUniformBufferDecl_stmt_unfold:
  "\<exists>ty bt btd.
     VisitUniformBufferDecl_stmt stmt t
       = for_each (VisitUniformBufferDecl_decl ty bt btd
                     (int (length (constantBuffers (data t))) - 1))
           (member_varDecls stmt) t
     \<and> (btd \<noteq> None) = IsBase (member_typeDenoter stmt)"
  by (cases "member_typeDenoter stmt") (simp_all add: VisitUniformBufferDecl_stmt_def, blast+)

lemma nth_map_filter_take:
  assumes "k < length ds" and "has (ds ! k)"
  shows "map f (filter has ds) ! length (filter has (take k ds)) = f (ds ! k)"
proof -
  have "ds = take k ds @ ds ! k # drop (Suc k) ds"
    using assms(1) by (simp add: id_take_nth_drop)
  then have "filter has ds
      = filter has (take k ds) @ ds ! k # filter has (drop (Suc k) ds)"
    using assms(2) by (metis filter.simps(2) filter_append)
  then show ?thesis by (simp add: nth_append)
qed

text \<open>
  C4 (amended). For a member statement of a uniform buffer, the analyzer appends one
  uniform per declarator, in order. A declarator has its default copied exactly when
  the declared type of the statement is a base type denoter and a default value is
  attached: then the sixteen floats are appended to \<open>defaultValues\<close> and the uniform's
  \<open>defaultValue\<close> is the index of the appended entry. Every other declarator (no
  default attached, or a declared type that is a struct, an alias or any other denoter)
  gets \<open>defaultValue = -1\<close> and appends nothing.
\<close>

theorem C4_default_values_of_base_typed_members:
  fixes stmt t
  defines "ds \<equiv> member_varDecls stmt"
    and "t' \<equiv> VisitUniformBufferDecl_stmt stmt t"
    and "has \<equiv> \<lambda>d. IsBase (member_typeDenoter stmt) \<and> available (vd_defaultValue d)"
    and "n \<equiv> length (uniforms (data t))"
    and "m \<equiv> length (defaultValues (data t))"
  shows "length (uniforms (data t')) = n + length ds
    \<and> take n (uniforms (data t')) = uniforms (data t)
    \<and> defaultValues (data t')
        = defaultValues (data t)
          @ map (\<lambda>d. DefaultValue_matrix (dv_matrix (vd_defaultValue d))) (filter has ds)
    \<and> (\<forall>k < length ds.
          u_ident (uniforms (data t') ! (n + k)) = vd_ident (ds ! k)
          \<and> (has (ds ! k) \<longrightarrow>
                defaultValue (uniforms (data t') ! (n + k))
                  = int (m + length (filter has (take k ds)))
                \<and> defaultValues (data t') ! (m + length (filter has (take k ds)))
                  = DefaultValue_matrix (dv_matrix (vd_defaultValue (ds ! k))))
          \<and> (\<not> has (ds ! k) \<longrightarrow> defaultValue (uniforms (data t') ! (n + k)) = -1))"
proof -
  obtain ty bt btd where
    u: "t' = for_each (VisitUniformBufferDecl_decl ty bt btd
                         (int (length (constantBuffers (data t))) - 1)) ds t"
    and b: "(btd \<noteq> None) = IsBase (member_typeDenoter stmt)"
    unfolding t'_def ds_def using VisitUniformBufferDecl_stmt_unfold by blast
  have h: "has = (\<lambda>d. btd \<noteq> None \<and> available (vd_defaultValue d))"
    unfolding has_def using b by simp
  have L: "length (uniforms (data t')) = n + length ds
    \<and> take n (uniforms (data t')) = uniforms (data t)
    \<and> defaultValues (data t')
        = defaultValues (data t)
          @ map (\<lambda>d. DefaultValue_matrix (dv_matrix (vd_defaultValue d))) (filter has ds)
    \<and> (\<forall>k < length ds.
          u_ident (uniforms (data t') ! (n + k)) = vd_ident (ds ! k)
          \<and> defaultValue (uniforms (data t') ! (n + k))
            = (if has (ds ! k)
               then int (length (defaultValues (data t)) + length (filter has (take k ds)))
               else -1))"
    unfolding u h n_def by (rule VisitUniformBufferDecl_decls)
  have dv: "defaultValues (data t')
        = defaultValues (data t)
          @ map (\<lambda>d. DefaultValue_matrix (dv_matrix (vd_defaultValue d))) (filter has ds)"
    using L by blast
  have nth: "defaultValues (data t') ! (m + length (filter has (take k ds)))
               = DefaultValue_matrix (dv_matrix (vd_defaultValue (ds ! k)))"
    if "k < length ds" and "has (ds ! k)" for k
    unfolding dv m_def
    using nth_map_filter_take [of k ds has
            "\<lambda>d. DefaultValue_matrix (dv_matrix (vd_defaultValue d))"] that
    by (simp add: nth_append)
  show ?thesis using L nth unfolding m_def by auto
qed

theorem C4_default_values_of_base_typed_members_witness:
  "(0::nat) < length (member_varDecls example_matrix_member)
   \<and> (1::nat) < length (member_varDecls example_matrix_member)
   \<and> IsBase (member_typeDenoter example_matrix_member)
   \<and> available (vd_defaultValue (member_varDecls example_matrix_member ! 0))
   \<and> \<not> available (vd_defaultValue (member_varDecls example_matrix_member ! 1))
   \<and> defaultValue (uniforms (data (VisitUniformBufferDecl_stmt example_matrix_member
                                     (analyzer0 VertexShader False))) ! 0) = 0
   \<and> defaultValues (data (VisitUniformBufferDecl_stmt example_matrix_member
                             (analyzer0 VertexShader False))) ! 0
       = DefaultValue_matrix (replicate 16 FLT_ZERO)
   \<and> defaultValue (uniforms (data (VisitUniformBufferDecl_stmt example_matrix_member
                                     (analyzer0 VertexShader False))) ! 1) = -1"
proof -
  have e: "(0::nat) < length (member_varDecls example_matrix_member)
     \<and> (1::nat) < length (member_varDecls example_matrix_member)
     \<and> IsBase (member_typeDenoter example_matrix_member)
     \<and> available (vd_defaultValue (member_varDecls example_matrix_member ! 0))
     \<and> \<not> available (vd_defaultValue (member_varDecls example_matrix_member ! 1))
     \<and> length (uniforms (data (analyzer0 VertexShader False))) = 0
     \<and> length (defaultValues (data (analyzer0 VertexShader False))) = 0
     \<and> vd_defaultValue (member_varDecls example_matrix_member ! 0) = example_default
     \<and> dv_matrix example_default = replicate 16 FLT_ZERO"
    by code_simp
  show ?thesis
    using C4_default_values_of_base_typed_members
            [where stmt = example_matrix_member and t = "analyzer0 VertexShader False"] e
    by (auto simp del: replicate.simps)
qed

text \<open>
  C4 as stated fails: in the example buffer the members \<open>light\<close> (of a struct type)
  and \<open>tint\<close> (of an alias of \<open>float4\<close>) have a default value attached, and their
  uniforms get \<open>defaultValue = -1\<close>; only the default of \<open>wvpMatrix\<close> is copied.
\<close>

theorem C4_counterexample:
  "available (vd_defaultValue (hd (member_varDecls example_struct_member)))
   \<and> available (vd_defaultValue (hd (member_varDecls example_alias_member)))
   \<and> map u_ident
         (uniforms (data (VisitUniformBufferDecl example_env example_cbuffer
                            (analyzer0 VertexShader False))))
       = [''VertexParam'', ''wvpMatrix'', ''viewMatrix'', ''light'', ''tint'']
   \<and> map defaultValue
         (uniforms (data (VisitUniformBufferDecl example_env example_cbuffer
                            (analyzer0 VertexShader False))))
       = [-1, 0, -1, -1, -1]
   \<and> length (defaultValues (data (VisitUniformBufferDecl example_env example_cbuffer
                                   (analyzer0 VertexShader False)))) = 1"
  by code_simp

subsection \<open>Sampler declarations\<close>

lemma fst_lookups_indep:
  "fst (ReflectSamplerValueFilter env v (a, t)) = fst (ReflectSamplerValueFilter env v (a, t'))"
  "fst (ReflectSamplerValueTextureAddressMode env v (b, t))
     = fst (ReflectSamplerValueTextureAddressMode env v (b, t'))"
  "fst (ReflectComparisonFunc env v (c, t)) = fst (ReflectComparisonFunc env v (c, t'))"
  by (simp_all add: ReflectSamplerValueFilter_def ReflectSamplerValueTextureAddressMode_def
      ReflectComparisonFunc_def split: sum.splits)

lemma fst_ReflectSamplerValue_indep:
  "fst (ReflectSamplerValue env v (s, t)) = fst (ReflectSamplerValue env v (s, t'))"
  using fst_lookups_indep [of env _ _ t t']
  by (simp add: ReflectSamplerValue_def Let_def case_prod_unfold split: Expr.splits sum.splits)

lemma fst_for_each_indep:
  assumes "\<And>x s t t'. fst (body x (s, t)) = fst (body x (s, t'))"
  shows "fst (for_each body xs (s, t)) = fst (for_each body xs (s, t'))"
proof (induction xs arbitrary: s t t')
  case Nil
  then show ?case by simp
next
  case (Cons x xs)
  obtain s1 t1 where 1: "body x (s, t) = (s1, t1)" by (cases "body x (s, t)")
  obtain s2 t2 where 2: "body x (s, t') = (s2, t2)" by (cases "body x (s, t')")
  have "s1 = s2" using assms [of x s t t'] 1 2 by simp
  then show ?case using Cons.IH [of s1 t1 t2] 1 2 by simp
qed

lemma fst_VisitSamplerDecl_samplerState_indep:
  "fst (VisitSamplerDecl_samplerState env ast t) = fst (VisitSamplerDecl_samplerState env ast t')"
proof -
  let ?body = "\<lambda>v st. case ReflectSamplerValue env v st of
                         (samplerState, this') \<Rightarrow> (samplerState\<lparr>isNonDefault := True\<rparr>, this')"
  have "fst (?body x (s, u)) = fst (?body x (s, u'))" for x s u u'
    using fst_ReflectSamplerValue_indep [of env x s u u'] by (simp add: case_prod_unfold)
  then have "fst (for_each ?body (samplerValues ast) (s, t))
           = fst (for_each ?body (samplerValues ast) (s, t'))" for s
    by (rule fst_for_each_indep)
  then show ?thesis
    by (simp add: VisitSamplerDecl_samplerState_def case_prod_unfold)
qed

lemma filters_ReflectSamplerValue:
  "filterMin (fst (ReflectSamplerValue env v p)) = filterMin (fst p)"
  "filterMax (fst (ReflectSamplerValue env v p)) = filterMax (fst p)"
  "filterMip (fst (ReflectSamplerValue env v p)) = filterMip (fst p)"
  by (simp_all add: ReflectSamplerValue_def Let_def case_prod_unfold
      split: Expr.splits sum.splits)

lemma VisitSamplerDecl_samplerState_facts:
  "isNonDefault (fst (VisitSamplerDecl_samplerState env ast t)) = (samplerValues ast \<noteq> [])"
  "ss_alias (fst (VisitSamplerDecl_samplerState env ast t)) = sd_alias ast"
  "samplerValues ast = [] \<Longrightarrow>
     fst (VisitSamplerDecl_samplerState env ast t)
       = (SamplerState_default (SamplerState_filter_init env))\<lparr>ss_alias := sd_alias ast\<rparr>"
  "filterMin (fst (VisitSamplerDecl_samplerState env ast t)) = Filter_Linear"
  "filterMax (fst (VisitSamplerDecl_samplerState env ast t)) = Filter_Linear"
  "filterMip (fst (VisitSamplerDecl_samplerState env ast t)) = Filter_Linear"
proof -
  let ?body = "\<lambda>v st. case ReflectSamplerValue env v st of
                         (samplerState, this') \<Rightarrow> (samplerState\<lparr>isNonDefault := True\<rparr>, this')"
  let ?p0 = "(SamplerState_default (SamplerState_filter_init env), t)"
  show "isNonDefault (fst (VisitSamplerDecl_samplerState env ast t)) = (samplerValues ast \<noteq> [])"
  proof (cases "samplerValues ast" rule: rev_cases)
    case Nil
    then show ?thesis
      by (simp add: VisitSamplerDecl_samplerState_def SamplerState_default_def)
  next
    case (snoc vs v)
    then show ?thesis
      by (simp add: VisitSamplerDecl_samplerState_def case_prod_unfold)
  qed
  show "ss_alias (fst (VisitSamplerDecl_samplerState env ast t)) = sd_alias ast"
    by (simp add: VisitSamplerDecl_samplerState_def case_prod_unfold)
  show "samplerValues ast = [] \<Longrightarrow>
     fst (VisitSamplerDecl_samplerState env ast t)
       = (SamplerState_default (SamplerState_filter_init env))\<lparr>ss_alias := sd_alias ast\<rparr>"
    by (simp add: VisitSamplerDecl_samplerState_def)
  have "filterMin (fst (for_each ?body (samplerValues ast) ?p0)) = filterMin (fst ?p0)"
    by (rule for_each_inv [where h = "\<lambda>p. filterMin (fst p)"])
       (simp add: case_prod_unfold filters_ReflectSamplerValue)
  then show "filterMin (fst (VisitSamplerDecl_samplerState env ast t)) = Filter_Linear"
    by (simp add: VisitSamplerDecl_samplerState_def case_prod_unfold SamplerState_default_def)
  have "filterMax (fst (for_each ?body (samplerValues ast) ?p0)) = filterMax (fst ?p0)"
    by (rule for_each_inv [where h = "\<lambda>p. filterMax (fst p)"])
       (simp add: case_prod_unfold filters_ReflectSamplerValue)
  then show "filterMax (fst (VisitSamplerDecl_samplerState env ast t)) = Filter_Linear"
    by (simp add: VisitSamplerDecl_samplerState_def case_prod_unfold SamplerState_default_def)
  have "filterMip (fst (for_each ?body (samplerValues ast) ?p0)) = filterMip (fst ?p0)"
    by (rule for_each_inv [where h = "\<lambda>p. filterMip (fst p)"])
       (simp add: case_prod_unfold filters_ReflectSamplerValue)
  then show "filterMip (fst (VisitSamplerDecl_samplerState env ast t)) = Filter_Linear"
    by (simp add: VisitSamplerDecl_samplerState_def case_prod_unfold SamplerState_default_def)
qed

lemma for_each_inv_set:
  "(\<And>x p. x \<in> set xs \<Longrightarrow> h (body x p) = h p) \<Longrightarrow> h (for_each body xs p) = h p"
  by (induction xs arbitrary: p) simp_all

lemma ReflectSamplerValue_literal_members:
  "smp_name v \<noteq> ''MipLODBias'' \<Longrightarrow>
     mipLODBias (fst (ReflectSamplerValue env v p)) = mipLODBias (fst p)"
  "smp_name v \<noteq> ''MaxAnisotropy'' \<Longrightarrow>
     maxAnisotropy (fst (ReflectSamplerValue env v p)) = maxAnisotropy (fst p)"
  "smp_name v \<noteq> ''MinLOD'' \<Longrightarrow>
     minLOD (fst (ReflectSamplerValue env v p)) = minLOD (fst p)"
  "smp_name v \<noteq> ''MaxLOD'' \<Longrightarrow>
     maxLOD (fst (ReflectSamplerValue env v p)) = maxLOD (fst p)"
  by (simp_all add: ReflectSamplerValue_def Let_def case_prod_unfold
      split: Expr.splits sum.splits)

lemma ReflectSamplerValue_object_members:
  "smp_name v \<noteq> ''Filter'' \<Longrightarrow>
     ss_filter (fst (ReflectSamplerValue env v p)) = ss_filter (fst p)"
  "smp_name v \<noteq> ''AddressU'' \<Longrightarrow>
     addressU (fst (ReflectSamplerValue env v p)) = addressU (fst p)"
  "smp_name v \<noteq> ''AddressV'' \<Longrightarrow>
     addressV (fst (ReflectSamplerValue env v p)) = addressV (fst p)"
  "smp_name v \<noteq> ''AddressW'' \<Longrightarrow>
     addressW (fst (ReflectSamplerValue env v p)) = addressW (fst p)"
  "smp_name v \<noteq> ''ComparisonFunc'' \<Longrightarrow>
     comparisonFunc (fst (ReflectSamplerValue env v p)) = comparisonFunc (fst p)"
  "smp_name v \<noteq> ''BorderColor'' \<Longrightarrow>
     borderColor (fst (ReflectSamplerValue env v p)) = borderColor (fst p)"
  by (simp_all add: ReflectSamplerValue_def Let_def case_prod_unfold
      split: Expr.splits sum.splits)

lemma VisitSamplerDecl_samplerState_member:
  assumes "\<And>v p. v \<in> set (samplerValues ast) \<Longrightarrow>
             f (fst (ReflectSamplerValue env v p)) = f (fst p)"
    and "\<And>s b. f (s\<lparr>isNonDefault := b\<rparr>) = f s"
    and "\<And>s a. f (s\<lparr>ss_alias := a\<rparr>) = f s"
  shows "f (fst (VisitSamplerDecl_samplerState env ast t))
           = f (SamplerState_default (SamplerState_filter_init env))"
proof -
  let ?body = "\<lambda>v st. case ReflectSamplerValue env v st of
                         (samplerState, this') \<Rightarrow> (samplerState\<lparr>isNonDefault := True\<rparr>, this')"
  let ?p0 = "(SamplerState_default (SamplerState_filter_init env), t)"
  have "f (fst (for_each ?body (samplerValues ast) ?p0)) = f (fst ?p0)"
    by (rule for_each_inv_set [where h = "\<lambda>p. f (fst p)"])
       (simp add: case_prod_unfold assms)
  then show ?thesis
    by (simp add: VisitSamplerDecl_samplerState_def case_prod_unfold assms)
qed

lemma VisitSamplerDecl_samplerState_defaults:
  "\<forall>v \<in> set (samplerValues ast). smp_name v \<noteq> ''Filter'' \<Longrightarrow>
     ss_filter (fst (VisitSamplerDecl_samplerState env ast t)) = SamplerState_filter_init env"
  "\<forall>v \<in> set (samplerValues ast). smp_name v \<noteq> ''AddressU'' \<Longrightarrow>
     addressU (fst (VisitSamplerDecl_samplerState env ast t)) = TextureAddressMode_Wrap"
  "\<forall>v \<in> set (samplerValues ast). smp_name v \<noteq> ''AddressV'' \<Longrightarrow>
     addressV (fst (VisitSamplerDecl_samplerState env ast t)) = TextureAddressMode_Wrap"
  "\<forall>v \<in> set (samplerValues ast). smp_name v \<noteq> ''AddressW'' \<Longrightarrow>
     addressW (fst (VisitSamplerDecl_samplerState env ast t)) = TextureAddressMode_Wrap"
  "\<forall>v \<in> set (samplerValues ast). smp_name v \<noteq> ''MipLODBias'' \<Longrightarrow>
     mipLODBias (fst (VisitSamplerDecl_samplerState env ast t)) = FLT_ZERO"
  "\<forall>v \<in> set (samplerValues ast). smp_name v \<noteq> ''MaxAnisotropy'' \<Longrightarrow>
     maxAnisotropy (fst (VisitSamplerDecl_samplerState env ast t)) = 1"
  "\<forall>v \<in> set (samplerValues ast). smp_name v \<noteq> ''ComparisonFunc'' \<Longrightarrow>
     comparisonFunc (fst (VisitSamplerDecl_samplerState env ast t)) = ComparisonFunc_Always"
  "\<forall>v \<in> set (samplerValues ast). smp_name v \<noteq> ''BorderColor'' \<Longrightarrow>
     borderColor (fst (VisitSamplerDecl_samplerState env ast t))
       = [FLT_ZERO, FLT_ZERO, FLT_ZERO, FLT_ZERO]"
  "\<forall>v \<in> set (samplerValues ast). smp_name v \<noteq> ''MinLOD'' \<Longrightarrow>
     minLOD (fst (VisitSamplerDecl_samplerState env ast t)) = FLT_MAX_NEG"
  "\<forall>v \<in> set (samplerValues ast). smp_name v \<noteq> ''MaxLOD'' \<Longrightarrow>
     maxLOD (fst (VisitSamplerDecl_samplerState env ast t)) = FLT_MAX"
  by (simp_all add: VisitSamplerDecl_samplerState_member ReflectSamplerValue_literal_members
      ReflectSamplerValue_object_members SamplerState_default_def)

text \<open>
  C5. Visiting a sampler declaration stores, under the identifier of the declaration,
  the sampler state that the values of the declaration decode, one after the other, from
  the state with the default member values, with the alias of the declaration. In the
  stored state \<open>isNonDefault\<close> is true exactly when the declaration has at least one
  sampler value; the alias is the alias of the declaration; every member that no value of
  the declaration names has its default value (all of them when there are no values;
  \<open>filterMin\<close>, \<open>filterMax\<close> and \<open>filterMip\<close> always). The other entries of
  \<open>samplerStates\<close> are unchanged, and one uniform of type \<open>Sampler\<close> with the identifier
  of the declaration is appended to \<open>uniforms\<close>.
\<close>

theorem C5_VisitSamplerDecl:
  fixes env ast t i
  defines "s \<equiv> the (samplerStates (data (VisitSamplerDecl env ast t)) (sd_ident ast))"
    and "names \<equiv> set (map smp_name (samplerValues ast))"
  shows "samplerStates (data (VisitSamplerDecl env ast t)) (sd_ident ast)
     = Some ((fst (for_each
                     (\<lambda>v st. case ReflectSamplerValue env v st of
                                (samplerState, this') \<Rightarrow>
                                  (samplerState\<lparr>isNonDefault := True\<rparr>, this'))
                     (samplerValues ast)
                     (\<lparr> filterMin = Filter_Linear, filterMax = Filter_Linear,
                        filterMip = Filter_Linear,
                        ss_filter = SamplerState_filter_init env,
                        addressU = TextureAddressMode_Wrap, addressV = TextureAddressMode_Wrap,
                        addressW = TextureAddressMode_Wrap,
                        mipLODBias = FLT_ZERO, maxAnisotropy = 1,
                        comparisonFunc = ComparisonFunc_Always,
                        borderColor = [FLT_ZERO, FLT_ZERO, FLT_ZERO, FLT_ZERO],
                        minLOD = FLT_MAX_NEG, maxLOD = FLT_MAX,
                        isNonDefault = False, ss_alias = [] \<rparr>, t)))
             \<lparr>ss_alias := sd_alias ast\<rparr>)
   \<and> isNonDefault s = (samplerValues ast \<noteq> [])
   \<and> ss_alias s = sd_alias ast
   \<and> (samplerValues ast = [] \<longrightarrow>
        s = (SamplerState_default (SamplerState_filter_init env))\<lparr>ss_alias := sd_alias ast\<rparr>)
   \<and> filterMin s = Filter_Linear
   \<and> filterMax s = Filter_Linear
   \<and> filterMip s = Filter_Linear
   \<and> (''Filter'' \<notin> names \<longrightarrow> ss_filter s = SamplerState_filter_init env)
   \<and> (''AddressU'' \<notin> names \<longrightarrow> addressU s = TextureAddressMode_Wrap)
   \<and> (''AddressV'' \<notin> names \<longrightarrow> addressV s = TextureAddressMode_Wrap)
   \<and> (''AddressW'' \<notin> names \<longrightarrow> addressW s = TextureAddressMode_Wrap)
   \<and> (''MipLODBias'' \<notin> names \<longrightarrow> mipLODBias s = FLT_ZERO)
   \<and> (''MaxAnisotropy'' \<notin> names \<longrightarrow> maxAnisotropy s = 1)
   \<and> (''ComparisonFunc'' \<notin> names \<longrightarrow> comparisonFunc s = ComparisonFunc_Always)
   \<and> (''BorderColor'' \<notin> names \<longrightarrow> borderColor s = [FLT_ZERO, FLT_ZERO, FLT_ZERO, FLT_ZERO])
   \<and> (''MinLOD'' \<notin> names \<longrightarrow> minLOD s = FLT_MAX_NEG)
   \<and> (''MaxLOD'' \<notin> names \<longrightarrow> maxLOD s = FLT_MAX)
   \<and> (i \<noteq> sd_ident ast \<longrightarrow>
        samplerStates (data (VisitSamplerDecl env ast t)) i = samplerStates (data t) i)
   \<and> uniforms (data (VisitSamplerDecl env ast t)) = uniforms (data t) @ [sampler_uniform ast]
   \<and> u_type (sampler_uniform ast) = UniformType_Sampler
   \<and> u_ident (sampler_uniform ast) = sd_ident ast"
proof -
  have s: "s = fst (VisitSamplerDecl_samplerState env ast t)"
    unfolding s_def by (simp add: VisitSamplerDecl_data)
  have n: "x \<notin> names \<Longrightarrow> \<forall>v \<in> set (samplerValues ast). smp_name v \<noteq> x" for x
    unfolding names_def by auto
  have A: "samplerStates (data (VisitSamplerDecl env ast t)) (sd_ident ast)
     = Some ((fst (for_each
                     (\<lambda>v st. case ReflectSamplerValue env v st of
                                (samplerState, this') \<Rightarrow>
                                  (samplerState\<lparr>isNonDefault := True\<rparr>, this'))
                     (samplerValues ast)
                     (\<lparr> filterMin = Filter_Linear, filterMax = Filter_Linear,
                        filterMip = Filter_Linear,
                        ss_filter = SamplerState_filter_init env,
                        addressU = TextureAddressMode_Wrap, addressV = TextureAddressMode_Wrap,
                        addressW = TextureAddressMode_Wrap,
                        mipLODBias = FLT_ZERO, maxAnisotropy = 1,
                        comparisonFunc = ComparisonFunc_Always,
                        borderColor = [FLT_ZERO, FLT_ZERO, FLT_ZERO, FLT_ZERO],
                        minLOD = FLT_MAX_NEG, maxLOD = FLT_MAX,
                        isNonDefault = False, ss_alias = [] \<rparr>, t)))
             \<lparr>ss_alias := sd_alias ast\<rparr>)"
    by (simp add: VisitSamplerDecl_data VisitSamplerDecl_samplerState_def case_prod_unfold
        SamplerState_default_def)
  have B: "i \<noteq> sd_ident ast \<longrightarrow>
        samplerStates (data (VisitSamplerDecl env ast t)) i = samplerStates (data t) i"
    "uniforms (data (VisitSamplerDecl env ast t)) = uniforms (data t) @ [sampler_uniform ast]"
    "u_type (sampler_uniform ast) = UniformType_Sampler"
    "u_ident (sampler_uniform ast) = sd_ident ast"
    by (simp_all add: VisitSamplerDecl_data sampler_uniform_def)
  show ?thesis
    unfolding s
    using A B n
    by (simp add: VisitSamplerDecl_samplerState_facts VisitSamplerDecl_samplerState_defaults)
qed

theorem C5_VisitSamplerDecl_witness:
  "samplerValues example_sampler_plain = []
   \<and> ''T'' \<noteq> sd_ident example_sampler
   \<and> ''AddressW'' \<notin> set (map smp_name (samplerValues example_sampler))
   \<and> ''MaxAnisotropy'' \<notin> set (map smp_name (samplerValues example_sampler))
   \<and> samplerStates (data (VisitSamplerDecl example_env example_sampler_plain
                             (analyzer0 VertexShader False))) ''S''
       = Some ((SamplerState_default Filter_Linear)\<lparr>ss_alias := []\<rparr>)
   \<and> samplerStates (data (VisitSamplerDecl example_env example_sampler
                             (analyzer0 VertexShader False))) ''T'' = None
   \<and> addressW (the (samplerStates (data (VisitSamplerDecl example_env example_sampler
                                            (analyzer0 VertexShader False))) ''S''))
       = TextureAddressMode_Wrap
   \<and> maxAnisotropy (the (samplerStates (data (VisitSamplerDecl example_env example_sampler
                                                 (analyzer0 VertexShader False))) ''S''))
       = 1
   \<and> isNonDefault (the (samplerStates (data (VisitSamplerDecl example_env example_sampler
                                                (analyzer0 VertexShader False))) ''S''))
   \<and> map_option (\<lambda>s. (ss_filter s, addressU s, addressV s, isNonDefault s, ss_alias s))
         (samplerStates (data (VisitSamplerDecl example_env example_sampler
                                 (analyzer0 VertexShader False))) ''S'')
       = Some (Filter_Linear, TextureAddressMode_Clamp, TextureAddressMode_Wrap, True, ''A'')"
proof -
  have e: "samplerValues example_sampler_plain = []
     \<and> ''T'' \<noteq> sd_ident example_sampler
     \<and> ''AddressW'' \<notin> set (map smp_name (samplerValues example_sampler))
     \<and> ''MaxAnisotropy'' \<notin> set (map smp_name (samplerValues example_sampler))
     \<and> samplerValues example_sampler \<noteq> []
     \<and> sd_ident example_sampler_plain = ''S''
     \<and> sd_ident example_sampler = ''S''
     \<and> sd_alias example_sampler_plain = []
     \<and> SamplerState_filter_init example_env = Filter_Linear
     \<and> samplerStates (data (analyzer0 VertexShader False)) ''T'' = None"
    by code_simp
  have v: "map_option (\<lambda>s. (ss_filter s, addressU s, addressV s, isNonDefault s, ss_alias s))
         (samplerStates (data (VisitSamplerDecl example_env example_sampler
                                 (analyzer0 VertexShader False))) ''S'')
       = Some (Filter_Linear, TextureAddressMode_Clamp, TextureAddressMode_Wrap, True, ''A'')"
    by code_simp
  note P = C5_VisitSamplerDecl
            [where env = example_env and ast = example_sampler_plain
               and t = "analyzer0 VertexShader False"]
  note S = C5_VisitSamplerDecl
            [where env = example_env and ast = example_sampler
               and t = "analyzer0 VertexShader False" and i = "''T''", THEN conjunct2]
  have p: "samplerStates (data (VisitSamplerDecl example_env example_sampler_plain
                             (analyzer0 VertexShader False))) ''S''
       = Some ((SamplerState_default Filter_Linear)\<lparr>ss_alias := []\<rparr>)"
    using e P by (simp add: SamplerState_default_def)
  have s1: "samplerStates (data (VisitSamplerDecl example_env example_sampler
                             (analyzer0 VertexShader False))) ''T'' = None"
    using e S by simp
  have s2: "addressW (the (samplerStates (data (VisitSamplerDecl example_env example_sampler
                                            (analyzer0 VertexShader False))) ''S''))
       = TextureAddressMode_Wrap"
    using e S by simp
  have s3: "maxAnisotropy (the (samplerStates (data (VisitSamplerDecl example_env example_sampler
                                                 (analyzer0 VertexShader False))) ''S''))
       = 1"
    using e S by simp
  have s4: "isNonDefault (the (samplerStates (data (VisitSamplerDecl example_env example_sampler
                                                (analyzer0 VertexShader False))) ''S''))"
    using e S by simp
  show ?thesis using e v p s1 s2 s3 s4 by simp
qed

lemma samplers_recorded_refl:
  "samplerStates d' = samplerStates d
     \<Longrightarrow> filter (\<lambda>u. u_type u = UniformType_Sampler) (uniforms d')
         = filter (\<lambda>u. u_type u = UniformType_Sampler) (uniforms d)
     \<Longrightarrow> samplers_recorded env t0 [] d d'"
  by (simp add: samplers_recorded_def)

lemma samplers_recorded_trans:
  assumes "samplers_recorded env t0 ds1 d d1" and "samplers_recorded env t0 ds2 d1 d2"
  shows "samplers_recorded env t0 (ds1 @ ds2) d d2"
  using assms unfolding samplers_recorded_def by simp

lemma samplers_recorded_step:
  "samplers_recorded env t0 [ast] (data t) (data (VisitSamplerDecl env ast t))"
  using fst_VisitSamplerDecl_samplerState_indep [of env ast t t0]
  by (simp add: samplers_recorded_def VisitSamplerDecl_data sampler_uniform_def)

lemma samplers_recorded_for_each:
  "samplers_recorded env t0 decls (data t) (data (for_each (VisitSamplerDecl env) decls t))"
proof (induction decls arbitrary: t)
  case Nil
  then show ?case by (simp add: samplers_recorded_refl)
next
  case (Cons a decls)
  show ?case
    using samplers_recorded_trans
            [OF samplers_recorded_step [of env t0 a t]
                Cons.IH [of "VisitSamplerDecl env a t"]]
    by simp
qed

lemma sampler_uniforms_VisitUniformBufferDecl_decl:
  "ty \<noteq> UniformType_Sampler \<Longrightarrow>
   filter (\<lambda>u. u_type u = UniformType_Sampler)
          (uniforms (data (VisitUniformBufferDecl_decl ty bt btd bi decl t)))
     = filter (\<lambda>u. u_type u = UniformType_Sampler) (uniforms (data t))"
  by (subst VisitUniformBufferDecl_decl_snoc)
     (simp add: VisitUniformBufferDecl_decl_uniforms)

lemma sampler_uniforms_VisitUniformBufferDecl_stmt:
  "filter (\<lambda>u. u_type u = UniformType_Sampler)
          (uniforms (data (VisitUniformBufferDecl_stmt stmt t)))
     = filter (\<lambda>u. u_type u = UniformType_Sampler) (uniforms (data t))"
  by (cases "member_typeDenoter stmt")
     (simp_all add: VisitUniformBufferDecl_stmt_def sampler_uniforms_VisitUniformBufferDecl_decl
        for_each_inv [where h = "\<lambda>t. filter (\<lambda>u. u_type u = UniformType_Sampler)
                                       (uniforms (data t))"])

lemma sampler_uniforms_VisitUniformBufferDecl:
  "filter (\<lambda>u. u_type u = UniformType_Sampler)
          (uniforms (data (VisitUniformBufferDecl env ast t)))
     = filter (\<lambda>u. u_type u = UniformType_Sampler) (uniforms (data t))"
  by (simp add: VisitUniformBufferDecl_def Let_def Uniform_default_def
        sampler_uniforms_VisitUniformBufferDecl_stmt
        for_each_inv [where h = "\<lambda>t. filter (\<lambda>u. u_type u = UniformType_Sampler)
                                       (uniforms (data t))"])

lemma VisitBufferDeclStmnt_decl_snoc:
  "uniforms (data (VisitBufferDeclStmnt_decl env ast d t))
     = uniforms (data t) @ [last (uniforms (data (VisitBufferDeclStmnt_decl env ast d t)))]"
  using VisitBufferDeclStmnt_decl_uniforms(1,2) [of env ast d t]
        append_butlast_last_id by fastforce

lemma sampler_uniforms_VisitBufferDeclStmnt:
  "filter (\<lambda>u. u_type u = UniformType_Sampler)
          (uniforms (data (VisitBufferDeclStmnt env ast t)))
     = filter (\<lambda>u. u_type u = UniformType_Sampler) (uniforms (data t))"
proof -
  have "filter (\<lambda>u. u_type u = UniformType_Sampler)
          (uniforms (data (VisitBufferDeclStmnt_decl env ast d t')))
     = filter (\<lambda>u. u_type u = UniformType_Sampler) (uniforms (data t'))" for d t'
    by (subst VisitBufferDeclStmnt_decl_snoc) (simp add: VisitBufferDeclStmnt_decl_uniforms)
  then show ?thesis
    unfolding VisitBufferDeclStmnt_def
    by (rule for_each_inv [where h = "\<lambda>t. filter (\<lambda>u. u_type u = UniformType_Sampler)
                                       (uniforms (data t))"])
qed

lemma samplers_recorded_Visit:
  "samplers_recorded env t0 (SamplerDecls_of s) (data t) (data (Visit env s t))"
  "samplers_recorded env t0 (SamplerDecls_of_list ss) (data t) (data (Visit_list env ss t))"
proof (induction env s t and env ss t rule: Visit_Visit_list.induct)
  case (1 env decls this)
  then show ?case by (simp add: samplers_recorded_for_each)
next
  case (2 env ast this)
  then show ?case by (simp add: samplers_recorded_refl)
next
  case (3 env ast children this)
  have "samplers_recorded env t0 [] (data this) (data (VisitFunctionDecl env ast this))"
    by (simp add: samplers_recorded_refl)
  from samplers_recorded_trans [OF this "3.IH"] show ?case by simp
next
  case (4 env ast this)
  then show ?case
    by (simp add: samplers_recorded_refl sampler_uniforms_VisitUniformBufferDecl)
next
  case (5 env ast this)
  then show ?case
    by (simp add: samplers_recorded_refl sampler_uniforms_VisitBufferDeclStmnt)
next
  case (6 env children this)
  then show ?case by simp
next
  case (7 env this)
  then show ?case by (simp add: samplers_recorded_refl)
next
  case (8 env stmnt stmnts this)
  from samplers_recorded_trans [OF "8.IH"(1) "8.IH"(2)] show ?case by simp
qed

text \<open>
  C10. After the analyzer has run on a program from the empty record, \<open>samplerStates\<close>
  has, for an identifier that sampler declarations of the program name, one entry: the
  state decoded from the last such declaration in visiting order (earlier ones are
  overwritten); and the uniforms of type \<open>Sampler\<close> are, in order, one per sampler
  declaration, so that an identifier declared twice occurs twice among them.
\<close>

theorem C10_duplicate_sampler_declarations:
  fixes program env reports target warnings i t0
  defines "ds \<equiv> SamplerDecls_of_list (globalStmnts program)
                  @ SamplerDecls_of_list (disabledAST program)"
    and "R \<equiv> data (Reflect env reports program target ReflectionData_default warnings)"
  shows "samplerStates R i =
           (if filter (\<lambda>x. sd_ident x = i) ds = [] then None
            else Some (fst (VisitSamplerDecl_samplerState env
                              (last (filter (\<lambda>x. sd_ident x = i) ds)) t0)))
    \<and> filter (\<lambda>u. u_type u = UniformType_Sampler) (uniforms R) = map sampler_uniform ds"
proof -
  let ?t = "\<lparr> reportHandler = reports, shaderTarget = target, data = ReflectionData_default,
              enableWarnings = warnings \<rparr>"
  let ?t1 = "Visit_list env (globalStmnts program) ?t"
  let ?t2 = "Visit_list env (disabledAST program) ?t1"
  have "samplers_recorded env t0 ds (data ?t) (data ?t2)"
    unfolding ds_def
    by (rule samplers_recorded_trans) (rule samplers_recorded_Visit)+
  moreover have "samplerStates R = samplerStates (data ?t2)"
    and "uniforms R = uniforms (data ?t2)"
    by (simp_all add: R_def Reflect_def VisitProgram_frame)
  ultimately show ?thesis
    by (simp add: samplers_recorded_def ReflectionData_default_def)
qed

theorem C10_duplicate_sampler_declarations_witness:
  "SamplerDecls_of_list (globalStmnts example_program)
     @ SamplerDecls_of_list (disabledAST example_program)
     = [example_sampler, example_sampler_plain]
   \<and> sd_ident example_sampler = sd_ident example_sampler_plain
   \<and> samplerStates (data (Reflect example_env [] example_program ComputeShader
                             ReflectionData_default False)) ''S''
       = Some (fst (VisitSamplerDecl_samplerState example_env example_sampler_plain
                      (analyzer0 ComputeShader False)))
   \<and> filter (\<lambda>u. u_type u = UniformType_Sampler)
        (uniforms (data (Reflect example_env [] example_program ComputeShader
                           ReflectionData_default False)))
       = [sampler_uniform example_sampler, sampler_uniform example_sampler_plain]
   \<and> map u_ident [sampler_uniform example_sampler, sampler_uniform example_sampler_plain]
       = [''S'', ''S'']"
proof -
  have e: "SamplerDecls_of_list (globalStmnts example_program)
       @ SamplerDecls_of_list (disabledAST example_program)
       = [example_sampler, example_sampler_plain]
     \<and> sd_ident example_sampler = ''S'' \<and> sd_ident example_sampler_plain = ''S''
     \<and> map u_ident [sampler_uniform example_sampler, sampler_uniform example_sampler_plain]
         = [''S'', ''S'']"
    by code_simp
  show ?thesis
    using C10_duplicate_sampler_declarations
            [where env = example_env and reports = "[]" and program = example_program
               and target = ComputeShader and warnings = False and i = "''S''"
               and ?t0.0 = "analyzer0 ComputeShader False"]
          e
    by simp
qed

subsection \<open>The shader target never changes\<close>

lemma shaderTarget_Error [simp]: "shaderTarget (Error m t) = shaderTarget t"
  by (simp add: Error_def)

lemma shaderTarget_Warning [simp]: "shaderTarget (Warning m t) = shaderTarget t"
  by (simp add: Warning_def)

lemma shaderTarget_lookups [simp]:
  "shaderTarget (snd (ReflectSamplerValueFilter env v p1)) = shaderTarget (snd p1)"
  "shaderTarget (snd (ReflectSamplerValueTextureAddressMode env v p2)) = shaderTarget (snd p2)"
  "shaderTarget (snd (ReflectComparisonFunc env v p3)) = shaderTarget (snd p3)"
  "shaderTarget (snd (ReflectBlendFactor env v p4)) = shaderTarget (snd p4)"
  "shaderTarget (snd (ReflectBlendOpType env v p5)) = shaderTarget (snd p5)"
  "shaderTarget (snd (ReflectCullMode env v p6)) = shaderTarget (snd p6)"
  "shaderTarget (snd (ReflectFillMode env v p7)) = shaderTarget (snd p7)"
  "shaderTarget (snd (ReflectStencilOpType env v p8)) = shaderTarget (snd p8)"
  "shaderTarget (snd (ReflectSortMode env v p9)) = shaderTarget (snd p9)"
  by (simp_all add: ReflectSamplerValueFilter_def ReflectSamplerValueTextureAddressMode_def
      ReflectComparisonFunc_def ReflectBlendFactor_def ReflectBlendOpType_def
      ReflectCullMode_def ReflectFillMode_def ReflectStencilOpType_def ReflectSortMode_def
      case_prod_unfold split: sum.splits)

lemma shaderTarget_ReflectSamplerValue [simp]:
  "shaderTarget (snd (ReflectSamplerValue env ast p)) = shaderTarget (snd p)"
  by (simp add: ReflectSamplerValue_def Let_def case_prod_unfold split: Expr.splits sum.splits)

lemma shaderTarget_ReflectStencilOperationValue [simp]:
  "shaderTarget (snd (ReflectStencilOperationValue env ast p)) = shaderTarget (snd p)"
  by (simp add: ReflectStencilOperationValue_def Let_def case_prod_unfold split: Expr.splits)

lemma shaderTarget_ReflectBlendOperationValue [simp]:
  "shaderTarget (snd (ReflectBlendOperationValue env ast p)) = shaderTarget (snd p)"
  by (simp add: ReflectBlendOperationValue_def Let_def case_prod_unfold split: Expr.splits)

lemma shaderTarget_for_each_snd:
  "(\<And>x p. shaderTarget (snd (body x p)) = shaderTarget (snd p))
     \<Longrightarrow> shaderTarget (snd (for_each body xs p)) = shaderTarget (snd p)"
  by (rule for_each_inv [where h = "\<lambda>p. shaderTarget (snd p)"])

lemma shaderTarget_ReflectBlendStateTargetValue [simp]:
  "shaderTarget (snd (ReflectBlendStateTargetValue env ast p)) = shaderTarget (snd p)"
  by (simp add: ReflectBlendStateTargetValue_def Let_def case_prod_unfold shaderTarget_for_each_snd
      split: Expr.splits)

lemma shaderTarget_ReflectRasterizerStateValue [simp]:
  "shaderTarget (snd (ReflectRasterizerStateValue env ast p)) = shaderTarget (snd p)"
  by (simp add: ReflectRasterizerStateValue_def Let_def case_prod_unfold split: Expr.splits)

lemma shaderTarget_ReflectDepthStateValue [simp]:
  "shaderTarget (snd (ReflectDepthStateValue env ast p)) = shaderTarget (snd p)"
  by (simp add: ReflectDepthStateValue_def Let_def case_prod_unfold split: Expr.splits)

lemma shaderTarget_ReflectStencilStateValue [simp]:
  "shaderTarget (snd (ReflectStencilStateValue env ast p)) = shaderTarget (snd p)"
  by (simp add: ReflectStencilStateValue_def Let_def case_prod_unfold shaderTarget_for_each_snd
      split: Expr.splits)

lemma shaderTarget_ReflectBlendStateValue_index [simp]:
  "shaderTarget (snd (ReflectBlendStateValue_index env ast p)) = shaderTarget (snd p)"
  by (simp add: ReflectBlendStateValue_index_def case_prod_unfold split: Expr.splits)

lemma shaderTarget_ReflectBlendStateValue [simp]:
  "shaderTarget (snd (snd (ReflectBlendStateValue env ast p))) = shaderTarget (snd (snd p))"
  by (simp add: ReflectBlendStateValue_def Let_def case_prod_unfold shaderTarget_for_each_snd
      split: Expr.splits)

lemma shaderTarget_ReflectOptionsStateValue [simp]:
  "shaderTarget (snd (ReflectOptionsStateValue env ast p)) = shaderTarget (snd p)"
  by (simp add: ReflectOptionsStateValue_def Let_def case_prod_unfold split: Expr.splits)


lemma shaderTarget_Visits [simp]:
  "shaderTarget (VisitSamplerDecl env sd t) = shaderTarget t"
  "shaderTarget (VisitStateDecl env st t) = shaderTarget t"
  "shaderTarget (VisitFunctionDecl env fd t) = shaderTarget t"
  "shaderTarget (VisitUniformBufferDecl env ub t) = shaderTarget t"
  "shaderTarget (VisitBufferDeclStmnt env bd t) = shaderTarget t"
proof -
  show "shaderTarget (VisitSamplerDecl env sd t) = shaderTarget t"
    by (simp add: VisitSamplerDecl_def VisitSamplerDecl_samplerState_def case_prod_unfold
        Let_def shaderTarget_for_each_snd)
  show "shaderTarget (VisitStateDecl env st t) = shaderTarget t"
    by (simp add: VisitStateDecl_def case_prod_unfold shaderTarget_for_each_snd
        for_each_inv [where h = "\<lambda>p. shaderTarget (snd (snd p))"]
        split: option.splits StateType.splits)
  show "shaderTarget (VisitFunctionDecl env fd t) = shaderTarget t"
    by (simp add: VisitFunctionDecl_def Let_def data_ReflectAttributes)
  have d: "shaderTarget (VisitUniformBufferDecl_decl ty bt btd bi decl t') = shaderTarget t'"
    for ty bt btd bi decl t'
    by (simp add: VisitUniformBufferDecl_decl_def Let_def split: option.splits)
  have s: "shaderTarget (VisitUniformBufferDecl_stmt stmt t') = shaderTarget t'" for stmt t'
    by (simp add: VisitUniformBufferDecl_stmt_def Let_def case_prod_unfold d
        for_each_inv [where h = shaderTarget])
  show "shaderTarget (VisitUniformBufferDecl env ub t) = shaderTarget t"
    by (simp add: VisitUniformBufferDecl_def Let_def s for_each_inv [where h = shaderTarget])
  have b: "shaderTarget (VisitBufferDeclStmnt_decl env bd x t') = shaderTarget t'" for x t'
    by (simp add: VisitBufferDeclStmnt_decl_def Let_def)
  show "shaderTarget (VisitBufferDeclStmnt env bd t) = shaderTarget t"
    by (simp add: VisitBufferDeclStmnt_def b for_each_inv [where h = shaderTarget])
qed

subsection \<open>The numthreads attribute\<close>

lemma numThreads_Visits [simp]:
  "numThreads (data (VisitSamplerDecl env sd t)) = numThreads (data t)"
  "numThreads (data (VisitUniformBufferDecl env ub t)) = numThreads (data t)"
  "numThreads (data (VisitBufferDeclStmnt env bd t)) = numThreads (data t)"
proof -
  show "numThreads (data (VisitSamplerDecl env sd t)) = numThreads (data t)"
    by (simp add: VisitSamplerDecl_data)
  have d: "numThreads (data (VisitUniformBufferDecl_decl ty bt btd bi decl t'))
             = numThreads (data t')" for ty bt btd bi decl t'
    by (simp add: VisitUniformBufferDecl_decl_def Let_def split: option.splits)
  have s: "numThreads (data (VisitUniformBufferDecl_stmt stmt t')) = numThreads (data t')"
    for stmt t'
    by (simp add: VisitUniformBufferDecl_stmt_def Let_def case_prod_unfold d
        for_each_inv [where h = "\<lambda>t. numThreads (data t)"])
  show "numThreads (data (VisitUniformBufferDecl env ub t)) = numThreads (data t)"
    by (simp add: VisitUniformBufferDecl_def Let_def s
        for_each_inv [where h = "\<lambda>t. numThreads (data t)"])
  have b: "numThreads (data (VisitBufferDeclStmnt_decl env bd x t')) = numThreads (data t')"
    for x t'
    by (simp add: VisitBufferDeclStmnt_decl_def Let_def)
  show "numThreads (data (VisitBufferDeclStmnt env bd t)) = numThreads (data t)"
    by (simp add: VisitBufferDeclStmnt_def b
        for_each_inv [where h = "\<lambda>t. numThreads (data t)"])
qed

lemma numThreads_ReflectAttributes:
  "numThreads (data (ReflectAttributes env as t))
     = (if filter (\<lambda>a. attributeType a = AttributeType_NumThreads
                        \<and> shaderTarget t = ComputeShader
                        \<and> length (attr_arguments a) = 3) as = []
        then numThreads (data t)
        else numThreads_of env
               (last (filter (\<lambda>a. attributeType a = AttributeType_NumThreads
                                  \<and> shaderTarget t = ComputeShader
                                  \<and> length (attr_arguments a) = 3) as)))"
proof (induction as rule: rev_induct)
  case Nil
  then show ?case by (simp add: ReflectAttributes_def)
next
  case (snoc a as)
  have st: "shaderTarget (ReflectAttributes env as t) = shaderTarget t"
    by (rule data_ReflectAttributes)
  have "ReflectAttributes env (as @ [a]) t
          = (case attributeType a of
               AttributeType_NumThreads \<Rightarrow>
                 ReflectAttributesNumThreads env a (ReflectAttributes env as t)
             | AttributeType_Other k \<Rightarrow> ReflectAttributes env as t)"
    unfolding ReflectAttributes_def by simp
  then show ?case
    using snoc.IH st
    by (cases "attributeType a")
       (simp_all add: ReflectAttributesNumThreads_def numThreads_of_def)
qed

lemma numThreads_VisitFunctionDecl:
  "numThreads (data (VisitFunctionDecl env ast t))
     = (if isEntryPoint ast then numThreads (data (ReflectAttributes env (attribs ast) t))
        else numThreads (data t))"
  by (simp add: VisitFunctionDecl_def Let_def)

lemma shaderTarget_Visit_list [simp]:
  "shaderTarget (Visit_list env ss t) = shaderTarget t"
  by (rule Visit_pres(2) [where P = "\<lambda>t'. shaderTarget t' = shaderTarget t"]) simp_all

lemma numThreads_Visit_list_other_target:
  assumes "shaderTarget t \<noteq> ComputeShader"
  shows "numThreads (data (Visit_list env ss t)) = numThreads (data t)"
proof -
  let ?P = "\<lambda>t'. shaderTarget t' = shaderTarget t \<and> numThreads (data t') = numThreads (data t)"
  have "?P (Visit_list env ss t)"
    by (rule Visit_pres(2) [where P = ?P])
       (use assms in \<open>simp_all add: numThreads_VisitFunctionDecl numThreads_ReflectAttributes\<close>)
  then show ?thesis by simp
qed

lemma static_cast_int_id:
  "- 2147483648 \<le> v \<Longrightarrow> v < 2147483648 \<Longrightarrow> static_cast_int v = v"
  unfolding static_cast_int_def
  by (simp add: signed_take_bit_int_eq_self_iff sint_sbintrunc')


text \<open>
  C2. For an entry-point function declaration, the analyzer records a \<open>numthreads\<close>
  attribute into \<open>numThreads\<close> exactly when the shader target is the compute target
  and the attribute has three arguments (the last such attribute is the one that stays);
  each thread count is the constant-expression evaluator's integer for the argument,
  narrowed to \<open>int\<close>, and is zero for an argument the evaluator does not reduce. With
  another target nothing of any program is recorded: the three counts keep their
  default zero. A compute entry point \<open>[numthreads(10, 1, 1)]\<close>, whose arguments the
  evaluator reduces to 10, 1 and 1, gives the counts 10, 1 and 1.
\<close>

theorem C2_numthreads:
  fixes env ast this
  defines "recorded \<equiv>
             filter (\<lambda>a. attributeType a = AttributeType_NumThreads
                          \<and> shaderTarget this = ComputeShader
                          \<and> length (attr_arguments a) = 3) (attribs ast)"
  shows "numThreads (data (VisitFunctionDecl env ast this))
           = (if isEntryPoint ast \<and> recorded \<noteq> []
              then \<lparr> nt_x = EvaluateConstExprInt env (attr_arguments (last recorded) ! 0),
                     nt_y = EvaluateConstExprInt env (attr_arguments (last recorded) ! 1),
                     nt_z = EvaluateConstExprInt env (attr_arguments (last recorded) ! 2) \<rparr>
              else numThreads (data this))
    \<and> (Evaluate_ToInt env e = None \<longrightarrow> EvaluateConstExprInt env e = 0)
    \<and> (Evaluate_ToInt env e = Some v \<longrightarrow> - 2147483648 \<le> v \<longrightarrow> v < 2147483648
          \<longrightarrow> EvaluateConstExprInt env e = v)
    \<and> (target \<noteq> ComputeShader \<longrightarrow>
          numThreads (data (Reflect env reports program target ReflectionData_default warnings))
            = \<lparr> nt_x = 0, nt_y = 0, nt_z = 0 \<rparr>)
    \<and> (isEntryPoint ast
          \<and> attribs ast = [\<lparr> attributeType = AttributeType_NumThreads,
                              attr_arguments = [a0, a1, a2] \<rparr>]
          \<and> Evaluate_ToInt env a0 = Some 10 \<and> Evaluate_ToInt env a1 = Some 1
          \<and> Evaluate_ToInt env a2 = Some 1 \<longrightarrow>
          numThreads (data (Reflect env reports
                              \<lparr> globalStmnts = [FunctionDeclStmnt ast []], disabledAST = [],
                                entryPointRef = ep \<rparr>
                              ComputeShader ReflectionData_default warnings))
            = \<lparr> nt_x = 10, nt_y = 1, nt_z = 1 \<rparr>)"
proof -
  have 1: "numThreads (data (VisitFunctionDecl env ast this))
           = (if isEntryPoint ast \<and> recorded \<noteq> []
              then \<lparr> nt_x = EvaluateConstExprInt env (attr_arguments (last recorded) ! 0),
                     nt_y = EvaluateConstExprInt env (attr_arguments (last recorded) ! 1),
                     nt_z = EvaluateConstExprInt env (attr_arguments (last recorded) ! 2) \<rparr>
              else numThreads (data this))"
    unfolding recorded_def
    by (simp add: numThreads_VisitFunctionDecl numThreads_ReflectAttributes numThreads_of_def)
  have 2: "Evaluate_ToInt env e = None \<longrightarrow> EvaluateConstExprInt env e = 0"
    by (simp add: EvaluateConstExprInt_def static_cast_int_def)
  have 3: "Evaluate_ToInt env e = Some v \<longrightarrow> - 2147483648 \<le> v \<longrightarrow> v < 2147483648
          \<longrightarrow> EvaluateConstExprInt env e = v"
    by (simp add: EvaluateConstExprInt_def static_cast_int_id)
  have 4: "target \<noteq> ComputeShader \<longrightarrow>
          numThreads (data (Reflect env reports program target ReflectionData_default warnings))
            = \<lparr> nt_x = 0, nt_y = 0, nt_z = 0 \<rparr>"
    by (simp add: Reflect_def VisitProgram_frame numThreads_Visit_list_other_target
        ReflectionData_default_def NumThreads_default_def)
  have 5: "isEntryPoint ast
          \<and> attribs ast = [\<lparr> attributeType = AttributeType_NumThreads,
                              attr_arguments = [a0, a1, a2] \<rparr>]
          \<and> Evaluate_ToInt env a0 = Some 10 \<and> Evaluate_ToInt env a1 = Some 1
          \<and> Evaluate_ToInt env a2 = Some 1 \<longrightarrow>
          numThreads (data (Reflect env reports
                              \<lparr> globalStmnts = [FunctionDeclStmnt ast []], disabledAST = [],
                                entryPointRef = ep \<rparr>
                              ComputeShader ReflectionData_default warnings))
            = \<lparr> nt_x = 10, nt_y = 1, nt_z = 1 \<rparr>"
    by (simp add: Reflect_def VisitProgram_frame numThreads_VisitFunctionDecl
        numThreads_ReflectAttributes numThreads_of_def EvaluateConstExprInt_def
        static_cast_int_id)
  show ?thesis using 1 2 3 4 5 by blast
qed

theorem C2_numthreads_witness:
  "isEntryPoint example_entry_point
   \<and> attribs example_entry_point
       = [\<lparr> attributeType = AttributeType_NumThreads,
            attr_arguments =
              [LiteralExpr (DataType_Scalar S_Int) ''10'',
               LiteralExpr (DataType_Scalar S_Int) ''1'',
               LiteralExpr (DataType_Scalar S_Int) ''1''] \<rparr>]
   \<and> Evaluate_ToInt example_env (LiteralExpr (DataType_Scalar S_Int) ''10'') = Some 10
   \<and> Evaluate_ToInt example_env (ObjectExpr ''n'') = None
   \<and> EvaluateConstExprInt example_env (ObjectExpr ''n'') = 0
   \<and> EvaluateConstExprInt example_env (LiteralExpr (DataType_Scalar S_Int) ''10'') = 10
   \<and> VertexShader \<noteq> ComputeShader
   \<and> numThreads (data (Reflect example_env [] example_program VertexShader
                           ReflectionData_default False))
       = \<lparr> nt_x = 0, nt_y = 0, nt_z = 0 \<rparr>
   \<and> numThreads (data (Reflect example_env []
                           \<lparr> globalStmnts = [FunctionDeclStmnt example_entry_point []],
                             disabledAST = [], entryPointRef = None \<rparr>
                           ComputeShader ReflectionData_default False))
       = \<lparr> nt_x = 10, nt_y = 1, nt_z = 1 \<rparr>"
proof -
  have e: "isEntryPoint example_entry_point
     \<and> attribs example_entry_point
         = [\<lparr> attributeType = AttributeType_NumThreads,
              attr_arguments =
                [LiteralExpr (DataType_Scalar S_Int) ''10'',
                 LiteralExpr (DataType_Scalar S_Int) ''1'',
                 LiteralExpr (DataType_Scalar S_Int) ''1''] \<rparr>]
     \<and> Evaluate_ToInt example_env (LiteralExpr (DataType_Scalar S_Int) ''10'') = Some 10
     \<and> Evaluate_ToInt example_env (LiteralExpr (DataType_Scalar S_Int) ''1'') = Some 1
     \<and> Evaluate_ToInt example_env (ObjectExpr ''n'') = None
     \<and> VertexShader \<noteq> ComputeShader"
    by code_simp
  note T = C2_numthreads [where env = example_env and ast = example_entry_point]
  show ?thesis
    using T [where e = "ObjectExpr ''n''" and target = VertexShader
               and program = example_program and reports = "[]" and warnings = False
               and ?a0.0 = "LiteralExpr (DataType_Scalar S_Int) ''10''"
               and ?a1.0 = "LiteralExpr (DataType_Scalar S_Int) ''1''"
               and ?a2.0 = "LiteralExpr (DataType_Scalar S_Int) ''1''" and ep = None]
          T [where e = "LiteralExpr (DataType_Scalar S_Int) ''10''" and v = 10]
          e
    by simp
qed

subsection \<open>The render-target cursor of a blend state\<close>

lemma unat_uint32_cast:
  "unat (word_of_int i :: 32 word) = nat (i mod 2 ^ 32)"
  by (simp add: unat_eq_nat_uint uint_word_of_int)

lemma explicit_index_eq:
  "explicit_index env exprs =
     (if filter is_literal_index exprs = [] then None
      else Some (Variant_Int env (literal_text (last (filter is_literal_index exprs)))))"
  by (cases "filter is_literal_index exprs") (simp_all add: explicit_index_def)

lemma index_step_literal:
  "is_literal_index x \<Longrightarrow>
   fst (ReflectBlendStateValue_index env x p) = word_of_int (Variant_Int env (literal_text x))"
proof (cases x)
  case (StateValue n e)
  assume "is_literal_index x"
  then show ?thesis using StateValue
    by (cases e) (simp_all add: ReflectBlendStateValue_index_def case_prod_unfold)
qed

lemma index_step_other:
  "\<not> is_literal_index x \<Longrightarrow> fst (ReflectBlendStateValue_index env x p) = fst p"
proof (cases x)
  case (StateValue n e)
  assume "\<not> is_literal_index x"
  then show ?thesis using StateValue
    by (cases e) (simp_all add: ReflectBlendStateValue_index_def case_prod_unfold)
qed

lemma index_step_silent:
  "(sv_name x = ''index'' \<longrightarrow> is_literal_index x)
     \<Longrightarrow> snd (ReflectBlendStateValue_index env x p) = snd p"
proof (cases x)
  case (StateValue n e)
  assume "sv_name x = ''index'' \<longrightarrow> is_literal_index x"
  then show ?thesis using StateValue
    by (cases e) (simp_all add: ReflectBlendStateValue_index_def case_prod_unfold)
qed

lemma index_loop_fst:
  "fst (for_each (ReflectBlendStateValue_index env) exprs (c, t))
     = (case explicit_index env exprs of None \<Rightarrow> c | Some i \<Rightarrow> word_of_int i)"
proof (induction exprs rule: rev_induct)
  case Nil
  then show ?case by (simp add: explicit_index_eq)
next
  case (snoc x xs)
  show ?case
  proof (cases "is_literal_index x")
    case True
    then show ?thesis by (simp add: index_step_literal explicit_index_eq)
  next
    case False
    then show ?thesis using snoc.IH by (simp add: index_step_other explicit_index_eq)
  qed
qed

lemma index_loop_unat:
  "unat (fst (for_each (ReflectBlendStateValue_index env) exprs (c, t)))
     = (case explicit_index env exprs of None \<Rightarrow> unat c | Some i \<Rightarrow> nat (i mod 2 ^ 32))"
  by (simp add: index_loop_fst unat_uint32_cast split: option.splits)

lemma index_loop_silent:
  "(\<forall>e \<in> set exprs. sv_name e = ''index'' \<longrightarrow> is_literal_index e)
     \<Longrightarrow> snd (for_each (ReflectBlendStateValue_index env) exprs p) = snd p"
  by (induction exprs arbitrary: p) (simp_all add: index_step_silent)

lemma ReflectBlendStateValue_target:
  "ReflectBlendStateValue env (StateValue ''target'' (StateInitializerExpr exprs)) (bs, c, t)
     = (let idx = fst (for_each (ReflectBlendStateValue_index env) exprs (c, t));
            t1 = snd (for_each (ReflectBlendStateValue_index env) exprs (c, t));
            r = for_each (ReflectBlendStateTargetValue env) exprs (targets bs ! unat idx, t1)
        in if unat idx < MAX_NUM_RENDER_TARGETS
           then (bs\<lparr>targets := (targets bs)[unat idx := fst r]\<rparr>, idx + 1, snd r)
           else (bs, idx, t1))"
  by (simp add: ReflectBlendStateValue_def case_prod_unfold Let_def)

lemma unat_cursor_increment:
  "unat (w :: 32 word) < MAX_NUM_RENDER_TARGETS \<Longrightarrow> unat (w + 1) = unat w + 1"
  by (simp add: MAX_NUM_RENDER_TARGETS_def unat_word_ariths)

lemma blendState_VisitStateDecl:
  "blendState (data (VisitStateDecl env \<lparr> stateType = StateType_Blend,
                                           initializer = Some vals \<rparr> this))
     = fst (for_each (ReflectBlendStateValue env) vals (blendState (data this), 0, this))"
  by (simp add: VisitStateDecl_def case_prod_unfold)





section \<open>Properties of the reflection printer\<close>

lemma length_to_string_nat_pos: "0 < length (to_string_nat n)"
  by (subst to_string_nat.simps) simp

lemma length_to_string_nat_mono:
  "n \<le> m \<Longrightarrow> length (to_string_nat n) \<le> length (to_string_nat m)"
proof (induction m arbitrary: n rule: to_string_nat.induct)
  case (1 m)
  show ?case
  proof (cases "m < 10")
    case True
    then have "n < 10" using "1.prems" by simp
    then show ?thesis using True
      by (simp add: to_string_nat.simps [of n] to_string_nat.simps [of m])
  next
    case False
    show ?thesis
    proof (cases "n < 10")
      case True
      then have "length (to_string_nat n) = 1" by (simp add: to_string_nat.simps [of n])
      moreover have "1 \<le> length (to_string_nat m)"
        using length_to_string_nat_pos [of m] by (simp only: One_nat_def Suc_le_eq)
      ultimately show ?thesis by simp
    next
      case nf: False
      have "n div 10 \<le> m div 10" using "1.prems" by (simp add: div_le_mono)
      then have "length (to_string_nat (n div 10)) \<le> length (to_string_nat (m div 10))"
        using "1.IH" False by simp
      then show ?thesis using False nf
        by (simp add: to_string_nat.simps [of n] to_string_nat.simps [of m])
    qed
  qed
qed

lemma length_to_string_mono:
  "0 \<le> i \<Longrightarrow> i \<le> j \<Longrightarrow> length (to_string i) \<le> length (to_string j)"
  by (simp add: to_string_def length_to_string_nat_mono)

lemma maxLocation_fold:
  "m0 \<le> for_each (\<lambda>obj m. max m (location obj)) objects m0
   \<and> (\<forall>obj \<in> set objects.
         location obj \<le> for_each (\<lambda>obj m. max m (location obj)) objects m0)
   \<and> (for_each (\<lambda>obj m. max m (location obj)) objects m0 = m0
       \<or> (\<exists>obj \<in> set objects.
             for_each (\<lambda>obj m. max m (location obj)) objects m0 = location obj))"
proof (induction objects arbitrary: m0)
  case Nil
  then show ?case by simp
next
  case (Cons a objects)
  show ?case using Cons.IH [of "max m0 (location a)"] by (auto simp: max_def split: if_splits)
qed

lemma maxLocation_of_ge: "obj \<in> set objects \<Longrightarrow> location obj \<le> maxLocation_of objects"
  using maxLocation_fold [of "-1" objects] by (simp add: maxLocation_of_def)

lemma maxLocation_of_neg:
  "(maxLocation_of objects < 0) = (\<forall>obj \<in> set objects. location obj < 0)"
proof
  assume "maxLocation_of objects < 0"
  then show "\<forall>obj \<in> set objects. location obj < 0"
    using maxLocation_of_ge by fastforce
next
  assume a: "\<forall>obj \<in> set objects. location obj < 0"
  show "maxLocation_of objects < 0"
    using maxLocation_fold [of "-1" objects] a unfolding maxLocation_of_def by auto
qed

lemma PrintReflectionObjects_line_append:
  "PrintReflectionObjects_line indent1 m obj out
     = out @ PrintReflectionObjects_line indent1 m obj []"
  by (simp add: PrintReflectionObjects_line_def Let_def)

lemma PrintReflectionObjects_lines:
  "for_each (PrintReflectionObjects_line indent1 m) objects out
     = out @ concat (map (\<lambda>obj. PrintReflectionObjects_line indent1 m obj []) objects)"
proof (induction objects arbitrary: out)
  case Nil
  then show ?case by simp
next
  case (Cons a objects)
  show ?case
    using Cons.IH [of "PrintReflectionObjects_line indent1 m a out"]
          PrintReflectionObjects_line_append [of indent1 m a out]
    by simp
qed

text \<open>
  C9 (amended). For a non-empty list of binding slots the printer writes the title line
  and then one line per slot. When some location of the list is non-negative, a slot
  with a non-negative location is printed with its location right-aligned to the width
  of the maximum location and followed by \<open>": "\<close>, and a slot with a negative location
  with that many blanks and two more in the place of the number. When every location of
  the list is negative, no number column is printed: each line is the indentation and
  the identifier.
\<close>

theorem C9_binding_slot_lines:
  fixes indent0 indent1 objects title out
  defines "m \<equiv> maxLocation_of objects"
    and "w \<equiv> length (to_string (maxLocation_of objects))"
    and "line \<equiv> \<lambda>obj. PrintReflectionObjects_line indent1 (maxLocation_of objects) obj []"
  assumes "objects \<noteq> []"
  shows "PrintReflectionObjects indent0 indent1 objects title out
           = out @ indent0 @ title @ '':'' @ endl @ concat (map line objects)
    \<and> (\<forall>obj \<in> set objects.
          (0 \<le> m \<and> 0 \<le> location obj \<longrightarrow>
             length (to_string (location obj)) \<le> w
             \<and> line obj = indent1
                  @ replicate (w - length (to_string (location obj))) CHR '' ''
                  @ to_string (location obj) @ '': '' @ slot_ident obj @ endl)
          \<and> (0 \<le> m \<and> location obj < 0 \<longrightarrow>
               line obj = indent1 @ replicate w CHR '' '' @ ''  '' @ slot_ident obj @ endl)
          \<and> (m < 0 \<longrightarrow> line obj = indent1 @ slot_ident obj @ endl))
    \<and> (m < 0) = (\<forall>obj \<in> set objects. location obj < 0)"
proof -
  have 1: "PrintReflectionObjects indent0 indent1 objects title out
           = out @ indent0 @ title @ '':'' @ endl @ concat (map line objects)"
    using assms(4) unfolding line_def
    by (simp add: PrintReflectionObjects_def Let_def PrintReflectionObjects_lines)
  have 2: "length (to_string (location obj)) \<le> w
             \<and> line obj = indent1
                  @ replicate (w - length (to_string (location obj))) CHR '' ''
                  @ to_string (location obj) @ '': '' @ slot_ident obj @ endl"
    if "obj \<in> set objects" and "0 \<le> m" and "0 \<le> location obj" for obj
  proof -
    have le: "length (to_string (location obj)) \<le> w"
      unfolding w_def using that maxLocation_of_ge length_to_string_mono by simp
    then show ?thesis
      using that unfolding line_def w_def m_def
      by (simp add: PrintReflectionObjects_line_def Let_def size_t_minus_def)
  qed
  have 3: "line obj = indent1 @ replicate w CHR '' '' @ ''  '' @ slot_ident obj @ endl"
    if "0 \<le> m" and "location obj < 0" for obj
    using that unfolding line_def w_def m_def
    by (simp add: PrintReflectionObjects_line_def Let_def)
  have 4: "line obj = indent1 @ slot_ident obj @ endl" if "m < 0" for obj
    using that unfolding line_def m_def
    by (simp add: PrintReflectionObjects_line_def Let_def)
  have 5: "(m < 0) = (\<forall>obj \<in> set objects. location obj < 0)"
    unfolding m_def by (rule maxLocation_of_neg)
  show ?thesis using 1 2 3 4 5 by blast
qed

theorem C9_binding_slot_lines_witness:
  "[\<lparr> slot_ident = ''a'', location = -1 \<rparr>, \<lparr> slot_ident = ''b'', location = 12 \<rparr>,
    \<lparr> slot_ident = ''c'', location = 3 \<rparr>] \<noteq> []
   \<and> PrintReflectionObjects [] ''  ''
        [\<lparr> slot_ident = ''a'', location = -1 \<rparr>, \<lparr> slot_ident = ''b'', location = 12 \<rparr>,
         \<lparr> slot_ident = ''c'', location = 3 \<rparr>] ''Textures'' []
       = ''Textures:'' @ endl @ ''      a'' @ endl @ ''  12: b'' @ endl @ ''   3: c'' @ endl"
proof -
  let ?objs = "[\<lparr> slot_ident = ''a'', location = -1 \<rparr>, \<lparr> slot_ident = ''b'', location = 12 \<rparr>,
                \<lparr> slot_ident = ''c'', location = 3 \<rparr>]"
  have e: "?objs \<noteq> []
     \<and> concat (map (\<lambda>obj. PrintReflectionObjects_line ''  '' (maxLocation_of ?objs) obj [])
                 ?objs)
         = ''      a'' @ endl @ ''  12: b'' @ endl @ ''   3: c'' @ endl"
    by code_simp
  show ?thesis
    using C9_binding_slot_lines
            [where objects = ?objs and ?indent0.0 = "[]" and ?indent1.0 = "''  ''"
               and title = "''Textures''" and out = "[]"]
          e
    by simp
qed

text \<open>
  C9 as stated fails on a list in which every location is \<open>-1\<close>: the slot is printed
  as its identifier alone, with no blank before it.
\<close>

theorem C9_counterexample:
  "PrintReflectionObjects [] [] [\<lparr> slot_ident = ''a'', location = -1 \<rparr>] ''Textures'' []
     = ''Textures:'' @ endl @ ''a'' @ endl
   \<and> CHR '' '' \<notin> set (PrintReflectionObjects [] []
                          [\<lparr> slot_ident = ''a'', location = -1 \<rparr>] ''Textures'' [])"
  by code_simp

section \<open>Properties of the GLSL converter\<close>

text \<open>
  C6. A call to \<open>saturate\<close> with exactly one argument whose type denoter is, after
  aliases are resolved, a base type is rewritten to a call of \<open>Clamp\<close> whose arguments are
  the original argument followed by the literals 0 and 1 cast to that base type, three
  arguments in all. With one argument of another type, and with any other number of
  arguments, the conversion raises a runtime error.
\<close>

theorem C6_saturate_to_clamp:
  fixes GetTypeDenoter ast
  defines "T \<equiv> GetSub (GetTypeDenoter (hd (arguments ast)))"
  shows "(length (arguments ast) = 1 \<and> IsBase T \<longrightarrow>
            ConvertIntrinsicCallSaturate GetTypeDenoter ast
              = Inr (CallExprNode Clamp (call_typeDenoter ast)
                       [hd (arguments ast),
                        CastExpr T (LiteralExpr (DataType_Scalar S_Int) ''0''),
                        CastExpr T (LiteralExpr (DataType_Scalar S_Int) ''1'')]))
    \<and> (length (arguments ast) = 1 \<and> \<not> IsBase T \<longrightarrow>
            ConvertIntrinsicCallSaturate GetTypeDenoter ast
              = Inl (ASTRuntimeError (R_InvalidIntrinsicArgType ''saturate'')))
    \<and> (length (arguments ast) \<noteq> 1 \<longrightarrow>
            ConvertIntrinsicCallSaturate GetTypeDenoter ast
              = Inl (ASTRuntimeError (R_InvalidIntrinsicArgCount ''saturate'')))"
proof -
  have "arguments ast = [hd (arguments ast)]" if "length (arguments ast) = 1"
    using that by (cases "arguments ast") simp_all
  then show ?thesis
    unfolding T_def
    by (auto simp: ConvertIntrinsicCallSaturate_def MakeLiteralCastExpr_def Let_def)
qed

theorem C6_saturate_to_clamp_witness:
  "ConvertIntrinsicCallSaturate
     (\<lambda>e. BaseTypeDenoter (DataType_Vector S_Float D3) {} [])
     (CallExprNode Saturate (Some (BaseTypeDenoter (DataType_Vector S_Float D3) {} []))
        [ObjectExpr ''x''])
     = Inr (CallExprNode Clamp (Some (BaseTypeDenoter (DataType_Vector S_Float D3) {} []))
        [ObjectExpr ''x'',
         CastExpr (BaseTypeDenoter (DataType_Vector S_Float D3) {} [])
           (LiteralExpr (DataType_Scalar S_Int) ''0''),
         CastExpr (BaseTypeDenoter (DataType_Vector S_Float D3) {} [])
           (LiteralExpr (DataType_Scalar S_Int) ''1'')])
   \<and> ConvertIntrinsicCallSaturate (\<lambda>e. StructTypeDenoter ''S'')
       (CallExprNode Saturate (Some (StructTypeDenoter ''S'')) [ObjectExpr ''s''])
     = Inl (ASTRuntimeError (R_InvalidIntrinsicArgType ''saturate''))
   \<and> ConvertIntrinsicCallSaturate
       (\<lambda>e. BaseTypeDenoter (DataType_Scalar S_Float) {} [])
       (CallExprNode Saturate (Some (BaseTypeDenoter (DataType_Scalar S_Float) {} []))
          [ObjectExpr ''x'', ObjectExpr ''y''])
     = Inl (ASTRuntimeError (R_InvalidIntrinsicArgCount ''saturate''))"
  using C6_saturate_to_clamp
          [where GetTypeDenoter = "\<lambda>e. BaseTypeDenoter (DataType_Vector S_Float D3) {} []"
             and ast = "CallExprNode Saturate (Some (BaseTypeDenoter (DataType_Vector S_Float D3) {} []))
                          [ObjectExpr ''x'']"]
        C6_saturate_to_clamp
          [where GetTypeDenoter = "\<lambda>e. StructTypeDenoter ''S''"
             and ast = "CallExprNode Saturate (Some (StructTypeDenoter ''S'')) [ObjectExpr ''s'']"]
        C6_saturate_to_clamp
          [where GetTypeDenoter = "\<lambda>e. BaseTypeDenoter (DataType_Scalar S_Float) {} []"
             and ast = "CallExprNode Saturate (Some (BaseTypeDenoter (DataType_Scalar S_Float) {} []))
                          [ObjectExpr ''x'', ObjectExpr ''y'']"]
  by simp

subsection \<open>Identifiers after the renaming\<close>

lemma not_reserved_obfuscated:
  "\<forall>n. ''_'' @ to_string_nat n \<notin> reservedKeywords
   \<Longrightarrow> \<not> reserved_name reservedKeywords (''_'' @ to_string_nat n)"
  by (simp add: reserved_name_def)

lemma RenameReservedKeyword_ident:
  "fst (snd (RenameReservedKeyword reservedKeywords (ident, this)))
     = (if obfuscate this then ''_'' @ to_string_nat (obfuscationCounter this)
        else if reserved_name reservedKeywords ident
        then reservedWordPrefix (nameMangling this) @ ident
        else ident)"
  by (simp add: RenameReservedKeyword_def reserved_name_def AppendPrefix_def)

lemma RenameReservedKeyword_this:
  "snd (snd (RenameReservedKeyword reservedKeywords (ident, this)))
     = (if obfuscate this then this\<lparr>obfuscationCounter := obfuscationCounter this + 1\<rparr>
        else this)"
  by (simp add: RenameReservedKeyword_def)

lemma RenameReservedKeyword_not_reserved:
  assumes "\<forall>s. \<not> reserved_name reservedKeywords (reservedWordPrefix (nameMangling this) @ s)"
    and "\<forall>n. ''_'' @ to_string_nat n \<notin> reservedKeywords"
  shows "\<not> reserved_name reservedKeywords
             (fst (snd (RenameReservedKeyword reservedKeywords (ident, this))))"
  using assms not_reserved_obfuscated [OF assms(2)]
  by (simp add: RenameReservedKeyword_ident)

lemma RegisterDeclIdent_unfold:
  "RegisterDeclIdent FetchFromCurrentScope Register reservedKeywords obj global this =
     (let this1 = (if MustRenameDeclIdent FetchFromCurrentScope obj this
                   then RenameDeclIdent obj this else this);
          r = RenameReservedKeyword reservedKeywords (decl_ident (heap this1 obj), this1);
          this3 = (snd (snd r))\<lparr>heap := (heap (snd (snd r)))
                     (obj := (heap (snd (snd r)) obj)\<lparr>decl_ident := fst (snd r)\<rparr>)\<rparr>
      in if global
         then this3\<lparr>globalReservedDecls := globalReservedDecls this3 @ [obj]\<rparr>
         else this3\<lparr>symTable := Register (fst (snd r)) (symTable this3)\<rparr>)"
  by (simp add: RegisterDeclIdent_def Let_def case_prod_unfold)

lemma RegisterDeclIdent_ident:
  "decl_ident (heap (RegisterDeclIdent F R kw obj global this) obj) = mangled_ident kw F obj this"
  by (simp add: RegisterDeclIdent_unfold Let_def RenameReservedKeyword_ident
      RenameReservedKeyword_this mangled_ident_def RenameDeclIdent_def AppendPrefix_def)

lemma RegisterDeclIdent_heap:
  "other \<noteq> obj \<Longrightarrow> heap (RegisterDeclIdent F R kw obj global this) other = heap this other"
  by (simp add: RegisterDeclIdent_unfold Let_def RenameReservedKeyword_this RenameDeclIdent_def)

lemma RegisterDeclIdent_nameMangling:
  "nameMangling (RegisterDeclIdent F R kw obj global this) = nameMangling this"
  by (simp add: RegisterDeclIdent_unfold Let_def RenameReservedKeyword_this RenameDeclIdent_def)

lemma RegisterDeclIdent_symTable:
  "symTable (RegisterDeclIdent F R kw obj global this)
     = (if global then symTable this else R (mangled_ident kw F obj this) (symTable this))"
  by (simp add: RegisterDeclIdent_unfold Let_def RenameReservedKeyword_ident
      RenameReservedKeyword_this mangled_ident_def RenameDeclIdent_def AppendPrefix_def)

lemma RegisterDeclIdent_globalReservedDecls:
  "globalReservedDecls (RegisterDeclIdent F R kw obj global this)
     = (if global then globalReservedDecls this @ [obj] else globalReservedDecls this)"
  by (simp add: RegisterDeclIdent_unfold Let_def RenameReservedKeyword_this RenameDeclIdent_def)

lemma mangled_ident_not_reserved:
  assumes "\<forall>s. \<not> reserved_name kw (reservedWordPrefix (nameMangling this) @ s)"
    and "\<forall>n. ''_'' @ to_string_nat n \<notin> kw"
  shows "\<not> reserved_name kw (mangled_ident kw F obj this)"
  using assms not_reserved_obfuscated [OF assms(2)]
  by (simp add: mangled_ident_def Let_def)

lemma looked_up_MustRenameDeclIdent:
  "looked_up obj this
     \<Longrightarrow> MustRenameDeclIdent F obj this = F (symTable this) (decl_ident (heap this obj))"
  by (auto simp: looked_up_def MustRenameDeclIdent_def Let_def split: option.splits)

lemma mangled_ident_not_renamed:
  "\<not> renamed kw F obj this \<Longrightarrow> mangled_ident kw F obj this = decl_ident (heap this obj)"
  by (simp add: renamed_def mangled_ident_def)

lemma registered_ident_not_bound:
  assumes "looked_up obj this"
    and "renamed kw F obj this \<longrightarrow> \<not> F (symTable this) (mangled_ident kw F obj this)"
  shows "\<not> F (symTable this) (mangled_ident kw F obj this)"
proof (cases "renamed kw F obj this")
  case True
  then show ?thesis using assms(2) by simp
next
  case False
  then have "\<not> MustRenameDeclIdent F obj this" by (simp add: renamed_def)
  then have "\<not> F (symTable this) (decl_ident (heap this obj))"
    using looked_up_MustRenameDeclIdent [OF assms(1)] by simp
  then show ?thesis using False by (simp add: mangled_ident_not_renamed)
qed

lemma registrations_Nil [simp]: "registrations F R kw [] this = this"
  by (simp add: registrations_def)

lemma registrations_Cons [simp]:
  "registrations F R kw (d # ds) this
     = registrations F R kw ds (RegisterDeclIdent F R kw (fst d) (snd d) this)"
  by (simp add: registrations_def)

lemma registrations_heap:
  "obj \<notin> fst ` set ds \<Longrightarrow> heap (registrations F R kw ds this) obj = heap this obj"
  by (induction ds arbitrary: this) (simp_all add: RegisterDeclIdent_heap)

lemma registrations_nameMangling:
  "nameMangling (registrations F R kw ds this) = nameMangling this"
  by (induction ds arbitrary: this) (simp_all add: RegisterDeclIdent_nameMangling)

lemma registrations_not_reserved:
  assumes "\<forall>n. ''_'' @ to_string_nat n \<notin> kw"
  shows "\<forall>s. \<not> reserved_name kw (reservedWordPrefix (nameMangling this) @ s)
     \<Longrightarrow> distinct (map fst ds)
     \<Longrightarrow> d \<in> set ds
     \<Longrightarrow> \<not> reserved_name kw (decl_ident (heap (registrations F R kw ds this) (fst d)))"
proof (induction ds arbitrary: this)
  case Nil
  then show ?case by simp
next
  case (Cons a ds)
  let ?this1 = "RegisterDeclIdent F R kw (fst a) (snd a) this"
  have p: "\<forall>s. \<not> reserved_name kw (reservedWordPrefix (nameMangling ?this1) @ s)"
    using Cons.prems(1) by (simp add: RegisterDeclIdent_nameMangling)
  show ?case
  proof (cases "d = a")
    case True
    have "fst a \<notin> fst ` set ds" using Cons.prems(2) by simp
    then have "heap (registrations F R kw ds ?this1) (fst a) = heap ?this1 (fst a)"
      by (rule registrations_heap)
    then show ?thesis
      using True mangled_ident_not_reserved [OF Cons.prems(1) assms, of F "fst a"]
      by (simp add: RegisterDeclIdent_ident)
  next
    case False
    then have "d \<in> set ds" using Cons.prems(3) by simp
    then show ?thesis
      using Cons.IH [OF p] Cons.prems(2) by simp
  qed
qed

lemma registrations_scope:
  assumes sem: "\<forall>st i j. F (R i st) j = (j = i \<or> F st j)"
  shows "fresh_renames F R kw ds this
     \<Longrightarrow> distinct (map fst ds)
     \<Longrightarrow> distinct (map (\<lambda>obj. decl_ident (heap (registrations F R kw ds this) obj))
                    (map fst (filter (\<lambda>d. \<not> snd d) ds)))
         \<and> (\<forall>i \<in> set (map (\<lambda>obj. decl_ident (heap (registrations F R kw ds this) obj))
                         (map fst (filter (\<lambda>d. \<not> snd d) ds))).
               \<not> F (symTable this) i)
         \<and> (\<forall>j. F (symTable (registrations F R kw ds this)) j
                 = (j \<in> set (map (\<lambda>obj. decl_ident (heap (registrations F R kw ds this) obj))
                              (map fst (filter (\<lambda>d. \<not> snd d) ds)))
                    \<or> F (symTable this) j))"
proof (induction ds arbitrary: this)
  case Nil
  then show ?case by simp
next
  case (Cons a ds)
  let ?this1 = "RegisterDeclIdent F R kw (fst a) (snd a) this"
  let ?this' = "registrations F R kw ds ?this1"
  let ?ids = "map (\<lambda>obj. decl_ident (heap ?this' obj)) (map fst (filter (\<lambda>d. \<not> snd d) ds))"
  have fr: "fresh_renames F R kw ds ?this1" using Cons.prems(1) by simp
  have di: "distinct (map fst ds)" using Cons.prems(2) by simp
  note IH = Cons.IH [OF fr di]
  have ha: "heap ?this' (fst a) = heap ?this1 (fst a)"
    using Cons.prems(2) by (intro registrations_heap) simp
  show ?case
  proof (cases "snd a")
    case True
    then have "symTable ?this1 = symTable this" by (simp add: RegisterDeclIdent_symTable)
    then show ?thesis using IH True by simp
  next
    case False
    let ?id0 = "mangled_ident kw F (fst a) this"
    have nb: "\<not> F (symTable this) ?id0"
      using Cons.prems(1) False by (intro registered_ident_not_bound) simp_all
    have st: "symTable ?this1 = R ?id0 (symTable this)"
      using False by (simp add: RegisterDeclIdent_symTable)
    have id: "decl_ident (heap ?this' (fst a)) = ?id0"
      by (simp add: ha RegisterDeclIdent_ident)
    define ids where "ids = ?ids"
    define id0 where "id0 = ?id0"
    define B where "B = F (symTable this)"
    define B' where "B' = F (symTable ?this')"
    have 1: "distinct ids" using IH by (simp add: ids_def)
    have 2: "\<forall>i \<in> set ids. i \<noteq> id0 \<and> \<not> B i"
      using IH st sem by (simp add: ids_def id0_def B_def)
    have 3: "\<forall>j. B' j = (j \<in> set ids \<or> j = id0 \<or> B j)"
      using IH st sem by (simp add: ids_def id0_def B_def B'_def)
    have 4: "\<not> B id0" using nb by (simp add: id0_def B_def)
    have e: "map (\<lambda>obj. decl_ident (heap ?this' obj))
               (map fst (filter (\<lambda>d. \<not> snd d) (a # ds))) = id0 # ids"
      using False id by (simp add: ids_def id0_def)
    have "distinct (id0 # ids) \<and> (\<forall>i \<in> set (id0 # ids). \<not> B i)
            \<and> (\<forall>j. B' j = (j \<in> set (id0 # ids) \<or> B j))"
      using 1 2 3 4 by auto
    then show ?thesis
      unfolding registrations_Cons e B_def B'_def .
  qed
qed




end
